theory Spec2Isabelle
  imports Main "HOL-Library.Word" "HOL-Library.Sublist"
begin

section \<open>config/utils.ts: readable actions\<close>

text \<open>
  Decoded variables are JSON-like values: a printed scalar or a list of nested values.
\<close>

datatype ParsedVariable = Scalar string | Nested "ParsedVariable list"

record DecodedAction =
  referenceName :: string
  functionName :: string
  variables :: ParsedVariable
  address :: string

text \<open>Of an \<^verbatim>\<open>ActionInput\<close> the functions here read these two fields.\<close>

record ActionInput =
  decodedAction :: DecodedAction
  index :: string

record ReadableAction =
  reason :: string
  actionIndex :: string

text \<open>
  Modelled from the spec: \<^verbatim>\<open>prettyFunctionCall\<close> (imported from \<^verbatim>\<open>../utils\<close>) is not
  among the sources. The spec's \<^verbatim>\<open>describe\<close>: the description is rendered from the
  reference name, the address, the function name and the decoded values, and nested
  values are truncated beyond a depth and an argument count. The truncation keeps at
  most \<open>maxArgs\<close> values of every list and replaces a list below \<open>maxDepth\<close>
  levels by an ellipsis; the layout of the text is the parameter \<open>render\<close>.
\<close>

fun truncateVariable :: "nat \<Rightarrow> nat \<Rightarrow> ParsedVariable \<Rightarrow> ParsedVariable" where
  "truncateVariable maxDepth maxArgs (Scalar s) = Scalar s"
| "truncateVariable maxDepth maxArgs (Nested vs) =
     (case maxDepth of
        0 \<Rightarrow> Scalar ''...''
      | Suc d \<Rightarrow> Nested (take maxArgs (map (truncateVariable d maxArgs) vs)))"

fun withinLimits :: "nat \<Rightarrow> nat \<Rightarrow> ParsedVariable \<Rightarrow> bool" where
  "withinLimits maxDepth maxArgs (Scalar s) = True"
| "withinLimits maxDepth maxArgs (Nested vs) =
     (case maxDepth of
        0 \<Rightarrow> False
      | Suc d \<Rightarrow> length vs \<le> maxArgs \<and> list_all (withinLimits d maxArgs) vs)"

definition prettyFunctionCall ::
  "(string \<Rightarrow> string \<Rightarrow> string \<Rightarrow> ParsedVariable \<Rightarrow> string) \<Rightarrow>
   string \<Rightarrow> string \<Rightarrow> string \<Rightarrow> ParsedVariable \<Rightarrow> nat \<Rightarrow> nat \<Rightarrow> string" where
  "prettyFunctionCall render refName addr fnName vars maxDepth maxArgs =
     render refName addr fnName (truncateVariable maxDepth maxArgs vars)"

definition getReadableActions ::
  "(string \<Rightarrow> string \<Rightarrow> string \<Rightarrow> ParsedVariable \<Rightarrow> string) \<Rightarrow> ActionInput list \<Rightarrow>
   ReadableAction list" where
  "getReadableActions render actionInputs =
     map (\<lambda>action.
            let d = decodedAction action;
                actionStr =
                  prettyFunctionCall render (referenceName d) (address d) (functionName d)
                    (variables d) 5 3
            in \<lparr>reason = actionStr, actionIndex = index action\<rparr>)
         actionInputs"

section \<open>config/utils.ts: CREATE3 addresses\<close>

text \<open>
  The functions of the \<^verbatim>\<open>ethers\<close> library are parameters. They work on hex strings
  and throw on a malformed argument: the result is \<open>Inl\<close> of the error or \<open>Inr\<close> of
  the value.
\<close>

record ethers =
  keccak256 :: "string \<Rightarrow> string + string"
  getCreate2Address :: "string \<Rightarrow> string \<Rightarrow> string \<Rightarrow> string + string"
  concat_ethers :: "string list \<Rightarrow> string + string"
  dataSlice :: "string \<Rightarrow> nat \<Rightarrow> string + string"
  getAddress :: "string \<Rightarrow> string + string"
  abiEncode :: "string list \<Rightarrow> string list \<Rightarrow> string + string"

definition getCreate3Salt :: "ethers \<Rightarrow> string \<Rightarrow> string \<Rightarrow> string + string" where
  "getCreate3Salt E refName userSalt =
     (case abiEncode E [''string'', ''bytes32''] [refName, userSalt] of
        Inl e \<Rightarrow> Inl e
      | Inr encoded \<Rightarrow> keccak256 E encoded)"

definition proxyBytecode :: string where
  "proxyBytecode = ''0x67363d3d37363d34f03d5260086018f3''"

definition getCreate3Address :: "ethers \<Rightarrow> string \<Rightarrow> string \<Rightarrow> string + string" where
  "getCreate3Address E deployer salt =
     (case keccak256 E proxyBytecode of
        Inl e \<Rightarrow> Inl e
      | Inr bytecodeHash \<Rightarrow>
     (case getCreate2Address E deployer salt bytecodeHash of
        Inl e \<Rightarrow> Inl e
      | Inr proxyAddress \<Rightarrow>
     (case concat_ethers E [''0xd694'', proxyAddress, ''0x01''] of
        Inl e \<Rightarrow> Inl e
      | Inr packed \<Rightarrow>
     (case keccak256 E packed of
        Inl e \<Rightarrow> Inl e
      | Inr addressHash \<Rightarrow>
     (case dataSlice E addressHash 12 of
        Inl e \<Rightarrow> Inl e
      | Inr last20Bytes \<Rightarrow> getAddress E last20Bytes)))))"

definition getTargetAddress :: "ethers \<Rightarrow> string \<Rightarrow> string \<Rightarrow> string \<Rightarrow> string + string" where
  "getTargetAddress E managerAddress refName userSalt =
     (case getCreate3Salt E refName userSalt of
        Inl e \<Rightarrow> Inl e
      | Inr targetSalt \<Rightarrow> getCreate3Address E managerAddress targetSalt)"

section \<open>Small inputs for concrete evaluations\<close>

definition demoRender :: "string \<Rightarrow> string \<Rightarrow> string \<Rightarrow> ParsedVariable \<Rightarrow> string" where
  "demoRender refName addr fnName vars =
     refName @ ''<'' @ addr @ ''>.'' @ fnName
     @ (case vars of Scalar s \<Rightarrow> ''('' @ s @ '')'' | Nested vs \<Rightarrow> ''(...)'')"

definition demoInputs :: "ActionInput list" where
  "demoInputs =
     [\<lparr>decodedAction =
         \<lparr>referenceName = ''Token'', functionName = ''mint'', variables = Scalar ''7'',
          address = ''0x11''\<rparr>,
       index = ''0''\<rparr>,
      \<lparr>decodedAction =
         \<lparr>referenceName = ''Vault'', functionName = ''init'',
          variables = Nested [Scalar ''a'', Scalar ''b'', Scalar ''c'', Scalar ''d''],
          address = ''0x22''\<rparr>,
       index = ''1''\<rparr>]"

definition toyEthers :: ethers where
  "toyEthers =
     \<lparr>keccak256 = (\<lambda>d. Inr (''k'' @ d)),
      getCreate2Address = (\<lambda>deployer salt h. Inr (''c2'' @ deployer @ salt @ h)),
      concat_ethers = (\<lambda>ds. Inr (concat ds)),
      dataSlice = (\<lambda>d n. Inr (drop n d)),
      getAddress = (\<lambda>d. if d = [] then Inl ''invalid address'' else Inr d),
      abiEncode = (\<lambda>ts vs. if length ts = length vs then Inr (concat vs) else Inl ''types/values length mismatch'')\<rparr>"

section \<open>cli/propose/index.ts\<close>

record NewConfig =
  orgId :: string
  projectName :: string
  owners :: "string list"
  threshold :: string
  saltNonce :: string

record InitialState =
  isExecuting :: bool

text \<open>
  A \<^verbatim>\<open>NetworkConfig\<close>, with the fields that \<^verbatim>\<open>propose\<close> reads. The chain id is a
  decimal string, which the code converts with \<^verbatim>\<open>Number\<close> and \<^verbatim>\<open>BigInt\<close>.
\<close>

record NetworkConfig =
  chainId :: string
  actionInputs :: "ActionInput list"
  newConfig :: NewConfig
  safeAddress :: string
  moduleAddress :: string
  safeInitData :: string
  initialState :: InitialState

datatype SphinxLeafType = APPROVE | OTHER_LEAF nat

record SphinxLeaf =
  leafType :: SphinxLeafType
  chainId :: int

record SphinxLeafWithProof =
  leaf :: SphinxLeaf
  siblingPath :: "string list"

record SphinxMerkleTree =
  root :: string
  leavesWithProofs :: "SphinxLeafWithProof list"

record ProjectDeployment =
  chainId :: int
  deploymentId :: string
  name :: string
  isExecuting :: bool

record ChainStatus =
  chainId :: int
  numLeaves :: nat

record ProposalTree =
  root :: string
  chainStatus :: "ChainStatus list"

record ProposalRequest =
  apiKey :: string
  orgId :: string
  isTestnet :: bool
  chainIds :: "int list"
  deploymentName :: string
  owners :: "string list"
  threshold :: int
  safeAddress :: string
  moduleAddress :: string
  safeInitData :: string
  safeInitSaltNonce :: string
  projectDeployments :: "ProjectDeployment list"
  gasEstimates :: "string list"
  diff :: string
  compilerConfigId :: "string option"
  deploymentConfigId :: "string option"
  tree :: ProposalTree

record ProposeArgs =
  scriptPath :: string
  confirm :: bool
  isTestnetArg :: bool
  isDryRun :: bool
  silent :: bool

text \<open>
  What \<^verbatim>\<open>propose\<close> gets from its environment and its collaborators: the file
  system, the process environment, the network configs that
  \<^verbatim>\<open>buildNetworkConfigArray\<close> makes from the collected transactions, the Merkle tree
  builder, the simulation, the preview, the serialised deployment config, the store of
  the back end, the constant \<^verbatim>\<open>WEBSITE_URL\<close>, and JavaScript's \<^verbatim>\<open>Number\<close> and \<^verbatim>\<open>BigInt\<close> on decimal strings.
  They are taken to return.
\<close>

record sphinxContext =
  isFile :: bool
  SPHINX_API_KEY :: "string option"
  collected :: "NetworkConfig list"
  makeSphinxMerkleTree :: "NetworkConfig list \<Rightarrow> SphinxMerkleTree"
  getNetworkGasEstimate :: "string \<Rightarrow> string"
  getPreviewString :: "NetworkConfig list \<Rightarrow> bool \<Rightarrow> string"
  deploymentConfigJson :: "NetworkConfig list \<Rightarrow> SphinxMerkleTree \<Rightarrow> string"
  storeDeploymentConfig :: "string \<Rightarrow> string \<Rightarrow> string \<Rightarrow> string"
  WEBSITE_URL :: string
  Number_js :: "string \<Rightarrow> int"
  BigInt_js :: "string \<Rightarrow> int"

datatype proposeEvent =
    PE_compile
  | PE_spinnerStart string
  | PE_spinnerSucceed string
  | PE_consoleError string
  | PE_consoleLog string
  | PE_makeSphinxMerkleTree
  | PE_getNetworkGasEstimate string
  | PE_prompt string
  | PE_storeDeploymentConfig string string string
  | PE_relayProposal ProposalRequest

record ProposeOutput =
  proposalRequest :: ProposalRequest
  deploymentConfigData :: string
  networkConfigArray :: "NetworkConfig list"
  merkleTree :: SphinxMerkleTree

datatype proposeOutcome =
    Threw string | Exited nat | ReturnedEmpty | ReturnedProposal ProposeOutput

text \<open>
  The end of \<^verbatim>\<open>buildNetworkConfigArray\<close>: the result is empty when every network
  config has no action input.
\<close>

record BuildResult =
  networkConfigArrayOpt :: "NetworkConfig list option"
  isEmpty :: bool

definition buildNetworkConfigArray :: "NetworkConfig list \<Rightarrow> BuildResult" where
  "buildNetworkConfigArray cfgs =
     (let empty = list_all (\<lambda>networkConfig. length (actionInputs networkConfig) = 0) cfgs
      in if empty then \<lparr>networkConfigArrayOpt = None, isEmpty = True\<rparr>
         else \<lparr>networkConfigArrayOpt = Some cfgs, isEmpty = False\<rparr>)"

text \<open>
  Modelled from the spec: \<^verbatim>\<open>elementsEqual\<close> (imported from \<^verbatim>\<open>@sphinx-labs/core\<close>) is
  not among the sources. The spec's cross-chain consistency check: the configs that are
  expected to be identical across chains must be identical, every element is compared
  with the first.
\<close>

definition elementsEqual :: "'a list \<Rightarrow> bool" where
  "elementsEqual ary = list_all (\<lambda>e. e = hd ary) ary"

record ShouldBeEqual =
  newConfig :: NewConfig
  safeAddress :: string
  moduleAddress :: string
  safeInitData :: string

definition shouldBeEqualOf :: "NetworkConfig \<Rightarrow> ShouldBeEqual" where
  "shouldBeEqualOf networkConfig =
     \<lparr>newConfig = NetworkConfig.newConfig networkConfig,
      safeAddress = NetworkConfig.safeAddress networkConfig,
      moduleAddress = NetworkConfig.moduleAddress networkConfig,
      safeInitData = NetworkConfig.safeInitData networkConfig\<rparr>"

definition multipleApprovalMessage :: "string \<Rightarrow> string" where
  "multipleApprovalMessage c =
     ''Found multiple approval leaves for chain '' @ c @ ''. Should never happen.''"

text \<open>The approval leaves of the chain of a network config, as the filter selects them.\<close>

definition approvalLeaves ::
  "sphinxContext \<Rightarrow> SphinxMerkleTree \<Rightarrow> NetworkConfig \<Rightarrow> SphinxLeafWithProof list" where
  "approvalLeaves ctx mt networkConfig =
     filter (\<lambda>l. leafType (leaf l) = APPROVE
                 \<and> SphinxLeaf.chainId (leaf l)
                     = BigInt_js ctx (NetworkConfig.chainId networkConfig))
            (leavesWithProofs mt)"

definition getProjectDeploymentForChain ::
  "sphinxContext \<Rightarrow> SphinxMerkleTree \<Rightarrow> NetworkConfig \<Rightarrow> string + ProjectDeployment option" where
  "getProjectDeploymentForChain ctx mt networkConfig =
     (let leaves = approvalLeaves ctx mt networkConfig
      in if length leaves = 0 then Inr None
         else if length leaves > 1 then
           Inl (multipleApprovalMessage (NetworkConfig.chainId networkConfig))
         else
           Inr (Some \<lparr>ProjectDeployment.chainId = Number_js ctx (NetworkConfig.chainId networkConfig),
                      deploymentId = SphinxMerkleTree.root mt,
                      name = projectName (NetworkConfig.newConfig networkConfig),
                      isExecuting = InitialState.isExecuting (initialState networkConfig)\<rparr>))"

text \<open>
  The loop over the network configs that fills \<^verbatim>\<open>projectDeployments\<close>,
  \<^verbatim>\<open>chainStatus\<close> and \<^verbatim>\<open>chainIds\<close>; the three arrays are the accumulator.
\<close>

fun assembleLoop ::
  "sphinxContext \<Rightarrow> SphinxMerkleTree \<Rightarrow> NetworkConfig list \<Rightarrow>
   ProjectDeployment list \<times> ChainStatus list \<times> int list \<Rightarrow>
   string + (ProjectDeployment list \<times> ChainStatus list \<times> int list)" where
  "assembleLoop ctx mt [] acc = Inr acc"
| "assembleLoop ctx mt (networkConfig # rest) (pds, cs, ids) =
     (if length (actionInputs networkConfig) = 0 then assembleLoop ctx mt rest (pds, cs, ids)
      else
        (case getProjectDeploymentForChain ctx mt networkConfig of
           Inl e \<Rightarrow> Inl e
         | Inr projectDeployment \<Rightarrow>
             assembleLoop ctx mt rest
               ((case projectDeployment of None \<Rightarrow> pds | Some pd \<Rightarrow> pds @ [pd]),
                cs @ [\<lparr>ChainStatus.chainId = Number_js ctx (NetworkConfig.chainId networkConfig),
                       numLeaves = length (actionInputs networkConfig) + 1\<rparr>],
                ids @ [Number_js ctx (NetworkConfig.chainId networkConfig)])))"

definition fileMissingMessage :: "string \<Rightarrow> string" where
  "fileMissingMessage path =
     ''File does not exist at: '' @ path @ [CHR 0x0A]
     @ ''Please make sure this is a valid file path.''"

text \<open>The message of the spinner after the relay; the colouring of the URL is left out.\<close>

definition proposedMessage :: "string \<Rightarrow> string" where
  "proposedMessage url =
     ''Proposal succeeded! Go to '' @ url @ '' to approve the deployment.''"

definition inconsistentMessage :: string where
  "inconsistentMessage =
     ''Detected different Safe or SphinxModule addresses for different chains. This is currently unsupported.''
     @ ''Please use the same Safe and SphinxModule on all chains.''"

text \<open>
  The part of \<^verbatim>\<open>propose\<close> from the consistency check to the return; \<open>key\<close> is the
  API key, \<open>cfgs\<close> the network configs, \<open>mt\<close> the Merkle tree. On an empty array
  the destructuring of \<^verbatim>\<open>networkConfigArray[0]\<close> is a \<^verbatim>\<open>TypeError\<close>;
  \<^verbatim>\<open>buildNetworkConfigArray\<close> returns no empty array.
\<close>

definition proposeFinish ::
  "sphinxContext \<Rightarrow> ProposeArgs \<Rightarrow> string \<Rightarrow> NetworkConfig list \<Rightarrow> SphinxMerkleTree \<Rightarrow> string list \<Rightarrow>
   proposeOutcome \<times> proposeEvent list" where
  "proposeFinish ctx args key cfgs mt estimates =
     (if \<not> elementsEqual (map shouldBeEqualOf cfgs) then (Threw inconsistentMessage, [])
      else
        (case cfgs of
           [] \<Rightarrow> (Threw ''TypeError'', [])
         | first # _ \<Rightarrow>
        (case assembleLoop ctx mt cfgs ([], [], []) of
           Inl e \<Rightarrow> (Threw e, [])
         | Inr (pds, cs, ids) \<Rightarrow>
             (let nc = NetworkConfig.newConfig first;
                  request =
                    \<lparr>apiKey = key,
                     ProposalRequest.orgId = NewConfig.orgId nc,
                     isTestnet = isTestnetArg args,
                     chainIds = ids,
                     deploymentName = projectName nc,
                     ProposalRequest.owners = NewConfig.owners nc,
                     ProposalRequest.threshold = Number_js ctx (NewConfig.threshold nc),
                     ProposalRequest.safeAddress = NetworkConfig.safeAddress first,
                     ProposalRequest.moduleAddress = NetworkConfig.moduleAddress first,
                     ProposalRequest.safeInitData = NetworkConfig.safeInitData first,
                     safeInitSaltNonce = saltNonce nc,
                     projectDeployments = pds,
                     gasEstimates = estimates,
                     diff = getPreviewString ctx cfgs False,
                     compilerConfigId = None,
                     deploymentConfigId = None,
                     tree = \<lparr>ProposalTree.root = SphinxMerkleTree.root mt, chainStatus = cs\<rparr>\<rparr>;
                  configData = deploymentConfigJson ctx cfgs mt
              in if isDryRun args then
                   (ReturnedProposal
                      \<lparr>proposalRequest = request, deploymentConfigData = configData,
                       networkConfigArray = cfgs, merkleTree = mt\<rparr>,
                    [PE_spinnerSucceed ''Proposal dry run succeeded.''])
                 else
                   (let configId = storeDeploymentConfig ctx key (NewConfig.orgId nc) configData;
                        request' = request\<lparr>deploymentConfigId := Some configId,
                                           compilerConfigId := Some configId\<rparr>
                    in (ReturnedProposal
                          \<lparr>proposalRequest = request', deploymentConfigData = configData,
                           networkConfigArray = cfgs, merkleTree = mt\<rparr>,
                        [PE_storeDeploymentConfig key (NewConfig.orgId nc) configData,
                         PE_relayProposal request',
                         PE_spinnerSucceed (proposedMessage (WEBSITE_URL ctx))]))))))"

definition propose :: "sphinxContext \<Rightarrow> ProposeArgs \<Rightarrow> proposeOutcome \<times> proposeEvent list" where
  "propose ctx args =
     (if \<not> isFile ctx then (Threw (fileMissingMessage (scriptPath args)), [])
      else
        (case SPHINX_API_KEY ctx of
           None \<Rightarrow>
             (Exited 1,
              [PE_consoleError
                 ''You must specify a 'SPHINX_API_KEY' environment variable.''])
         | Some key \<Rightarrow>
        (if key = [] then
           (Exited 1,
            [PE_consoleError ''You must specify a 'SPHINX_API_KEY' environment variable.''])
         else
           (let pre = [PE_compile, PE_spinnerStart ''Collecting transactions...'',
                       PE_spinnerSucceed ''Collected transactions.'',
                       PE_spinnerStart ''Building proposal...''];
                built = buildNetworkConfigArray (collected ctx)
            in if isEmpty built then
                 (ReturnedEmpty,
                  pre @ [PE_spinnerSucceed
                           ''Skipping proposal because there is nothing to execute on any chain.''])
               else
                 (case networkConfigArrayOpt built of
                    None \<Rightarrow>
                      (Threw ''NetworkConfig or ConfigArtifacts not defined. Should never happen.'',
                       pre)
                  | Some cfgs \<Rightarrow>
                      (let mt = makeSphinxMerkleTree ctx cfgs;
                           simulated =
                             filter (\<lambda>networkConfig. length (actionInputs networkConfig) > 0)
                               cfgs;
                           estimates =
                             map (\<lambda>networkConfig.
                                    getNetworkGasEstimate ctx (NetworkConfig.chainId networkConfig))
                               simulated;
                           mid =
                             [PE_makeSphinxMerkleTree, PE_spinnerSucceed ''Built proposal.'',
                              PE_spinnerStart ''Running simulation...'']
                             @ map (\<lambda>networkConfig.
                                      PE_getNetworkGasEstimate
                                        (NetworkConfig.chainId networkConfig))
                                 simulated
                             @ [PE_spinnerSucceed ''Simulation succeeded.'']
                             @ (if confirm args \<or> isDryRun args then
                                  (if \<not> silent args then
                                     [PE_consoleLog (getPreviewString ctx cfgs False)]
                                   else [])
                                else [PE_prompt (getPreviewString ctx cfgs True)])
                             @ [if isDryRun args then PE_spinnerStart ''Finishing dry run...''
                                else PE_spinnerStart ''Proposing...'']
                       in case proposeFinish ctx args key cfgs mt estimates of
                            (r, es) \<Rightarrow> (r, pre @ mid @ es)))))))"

text \<open>The events that hand the proposal to the back end.\<close>

fun isSubmission :: "proposeEvent \<Rightarrow> bool" where
  "isSubmission (PE_storeDeploymentConfig k org d) = True"
| "isSubmission (PE_relayProposal request) = True"
| "isSubmission e = False"

text \<open>The proposal request of an outcome, when \<^verbatim>\<open>propose\<close> returns one.\<close>

definition returnedRequest :: "proposeOutcome \<Rightarrow> ProposalRequest option" where
  "returnedRequest r =
     (case r of ReturnedProposal out \<Rightarrow> Some (proposalRequest out) | _ \<Rightarrow> None)"

section \<open>A small proposal for concrete evaluations\<close>

definition decimalOf :: "string \<Rightarrow> int" where
  "decimalOf s = foldl (\<lambda>acc c. acc * 10 + (int (of_char c) - 48)) 0 s"

definition demoNewConfig :: "string \<Rightarrow> NewConfig" where
  "demoNewConfig t =
     \<lparr>NewConfig.orgId = ''org'', NewConfig.projectName = ''demo'',
      NewConfig.owners = [''0xa'', ''0xb''], NewConfig.threshold = t,
      NewConfig.saltNonce = ''0''\<rparr>"

definition demoNetworkConfig :: "string \<Rightarrow> nat \<Rightarrow> string \<Rightarrow> NetworkConfig" where
  "demoNetworkConfig c n t =
     \<lparr>NetworkConfig.chainId = c, NetworkConfig.actionInputs = take n (demoInputs @ demoInputs),
      NetworkConfig.newConfig = demoNewConfig t, NetworkConfig.safeAddress = ''0x5afe'',
      NetworkConfig.moduleAddress = ''0x30d'', NetworkConfig.safeInitData = ''0x'',
      NetworkConfig.initialState = \<lparr>InitialState.isExecuting = False\<rparr>\<rparr>"

definition demoTree :: SphinxMerkleTree where
  "demoTree =
     \<lparr>SphinxMerkleTree.root = ''0xroot'',
      leavesWithProofs =
        [\<lparr>leaf = \<lparr>leafType = APPROVE, SphinxLeaf.chainId = 10\<rparr>, siblingPath = []\<rparr>,
         \<lparr>leaf = \<lparr>leafType = OTHER_LEAF 1, SphinxLeaf.chainId = 10\<rparr>, siblingPath = []\<rparr>,
         \<lparr>leaf = \<lparr>leafType = APPROVE, SphinxLeaf.chainId = 7\<rparr>, siblingPath = []\<rparr>,
         \<lparr>leaf = \<lparr>leafType = APPROVE, SphinxLeaf.chainId = 7\<rparr>, siblingPath = []\<rparr>]\<rparr>"

definition demoContext :: "NetworkConfig list \<Rightarrow> sphinxContext" where
  "demoContext cfgs =
     \<lparr>isFile = True, SPHINX_API_KEY = Some ''key'', collected = cfgs,
      makeSphinxMerkleTree = (\<lambda>cs. demoTree),
      getNetworkGasEstimate = (\<lambda>c. ''gas''),
      getPreviewString = (\<lambda>cs b. ''preview''),
      deploymentConfigJson = (\<lambda>cs t. ''{}''),
      storeDeploymentConfig = (\<lambda>k org d. ''cid''),
      WEBSITE_URL = ''https://sphinx.example'',
      Number_js = decimalOf, BigInt_js = decimalOf\<rparr>"

definition demoArgs :: ProposeArgs where
  "demoArgs =
     \<lparr>scriptPath = ''script/Demo.s.sol'', confirm = True, isTestnetArg = True,
      isDryRun = False, silent = True\<rparr>"

section \<open>monitorExecution\<close>

text \<open>
  The members of \<^verbatim>\<open>ChugSplashBundleStatus\<close> that \<^verbatim>\<open>monitorExecution\<close> names, and the
  other members of the enum by their number.
\<close>

datatype ChugSplashBundleStatus = APPROVED | COMPLETED | CANCELLED | OTHER_STATUS nat

datatype ChugSplashActionType = SET_STORAGE | DEPLOY_IMPLEMENTATION | SET_IMPLEMENTATION

record ChugSplashBundleState =
  status :: ChugSplashBundleStatus
  actionsExecuted :: nat
  selectedExecutor :: string

record ChugSplashAction =
  actionType :: ChugSplashActionType

record BundledChugSplashAction =
  action :: ChugSplashAction

record ChugSplashActionBundle =
  actions :: "BundledChugSplashAction list"

datatype spinnerEvent = S_start string | S_succeed string | S_fail string

datatype 'a promise = Resolved 'a | Rejected string | Pending

text \<open>
  What \<^verbatim>\<open>monitorExecution\<close> gets from its environment: the project and network
  names, the number of contracts of the config, the answers of the chain (the state of
  the bundle at the \<open>n\<close>-th call of \<^verbatim>\<open>ChugSplashManager.bundles\<close>, the amount to deposit
  in the \<open>n\<close>-th iteration), the helpers of \<^verbatim>\<open>@chugsplash/core\<close> and the printing of
  numbers in template literals. The calls are taken to return.
\<close>

record monitorEnv =
  projectName :: string
  networkName :: string
  numContracts :: nat
  bundles :: "nat \<Rightarrow> ChugSplashBundleState"
  getAmountToDeposit :: "nat \<Rightarrow> int"
  getCurrentChugSplashActionType :: "ChugSplashActionBundle \<Rightarrow> nat \<Rightarrow> ChugSplashActionType"
  getFinalDeploymentTxnHash :: string
  EXECUTION_BUFFER_MULTIPLIER :: int
  showNumber :: "int \<Rightarrow> string"
  showStatus :: "ChugSplashBundleStatus \<Rightarrow> string"

definition AddressZero :: string where
  "AddressZero = ''0x0000000000000000000000000000000000000000''"

definition getNumDeployedImplementations :: "ChugSplashActionBundle \<Rightarrow> nat \<Rightarrow> nat" where
  "getNumDeployedImplementations bundle executed =
     length (filter (\<lambda>a. actionType (action a) = DEPLOY_IMPLEMENTATION)
               (take executed (actions bundle)))"

definition insufficientFundsMessage :: "monitorEnv \<Rightarrow> int \<Rightarrow> string" where
  "insufficientFundsMessage E amountToDeposit =
     projectName E
     @ '' has insufficient funds to complete the deployment. Please report this error to improve our deployment cost estimation.''
     @ [CHR 0x0A]
     @ ''Run the following command to add funds to your deployment so it can be completed:''
     @ [CHR 0x0A, CHR 0x0A]
     @ ''npx hardhat chugsplash-fund --network '' @ networkName E @ '' --amount ''
     @ showNumber E (amountToDeposit * EXECUTION_BUFFER_MULTIPLIER E) @ '' <configPath>''
     @ [CHR 0x0A] @ ''        ''"

definition cancelledMessage :: "monitorEnv \<Rightarrow> string" where
  "cancelledMessage E = projectName E @ '' was cancelled.''"

text \<open>
  The spinner messages of one iteration when an executor is selected, and the new value
  of the local \<^verbatim>\<open>actionType\<close> (\<open>None\<close> while it is undefined).
\<close>

definition reportProgress ::
  "monitorEnv \<Rightarrow> ChugSplashActionBundle \<Rightarrow> ChugSplashBundleState \<Rightarrow> ChugSplashActionType option \<Rightarrow>
   ChugSplashActionType option \<times> spinnerEvent list" where
  "reportProgress E bundle bundleState lastType =
     (if selectedExecutor bundleState \<noteq> AddressZero then
        (let currActionType =
               getCurrentChugSplashActionType E bundle (actionsExecuted bundleState);
             changed =
               (if lastType \<noteq> Some currActionType then
                  (if currActionType = SET_STORAGE then
                     [S_succeed ''Executor has claimed the project.'',
                      S_start ''Executor is setting the state variables...'']
                   else if currActionType = DEPLOY_IMPLEMENTATION then
                     [S_succeed ''State variables have been set.'']
                   else if currActionType = SET_IMPLEMENTATION then
                     [S_succeed ''Contracts have been deployed.'',
                      S_start
                        ''Executor is linking the proxies with their implementation contracts...'']
                   else [])
                else []);
             deploying =
               (if currActionType = DEPLOY_IMPLEMENTATION then
                  [S_start
                     (''Executor is deploying the contracts... [''
                        @ showNumber E
                            (int (getNumDeployedImplementations bundle
                                    (actionsExecuted bundleState)))
                        @ ''/'' @ showNumber E (int (numContracts E)) @ '']'')]
                else [])
         in (Some currActionType, changed @ deploying))
      else (lastType, []))"

datatype loopExit = LoopDone ChugSplashBundleState | LoopThrew string | LoopRunning

text \<open>
  The loop \<^verbatim>\<open>while (bundleState.status === ChugSplashBundleStatus.APPROVED)\<close>. One
  unit of fuel is one iteration (one second of waiting); \<open>n\<close> counts the calls of
  \<^verbatim>\<open>bundles\<close> made so far.
\<close>

fun monitorLoop ::
  "monitorEnv \<Rightarrow> ChugSplashActionBundle \<Rightarrow> nat \<Rightarrow> nat \<Rightarrow> ChugSplashBundleState \<Rightarrow>
   ChugSplashActionType option \<Rightarrow> loopExit \<times> spinnerEvent list" where
  "monitorLoop E bundle 0 n bundleState lastType =
     (if status bundleState = APPROVED then (LoopRunning, []) else (LoopDone bundleState, []))"
| "monitorLoop E bundle (Suc fuel) n bundleState lastType =
     (if status bundleState = APPROVED then
        (let amountToDeposit = getAmountToDeposit E n in
         if amountToDeposit > 0 then
           (LoopThrew (insufficientFundsMessage E amountToDeposit),
            [S_fail ''Project has insufficient funds to complete the deployment.''])
         else
           (case reportProgress E bundle bundleState lastType of
              (lastType', es) \<Rightarrow>
                (case monitorLoop E bundle fuel (Suc n) (bundles E (Suc n)) lastType' of
                   (r, es') \<Rightarrow> (r, es @ es'))))
      else (LoopDone bundleState, []))"

text \<open>The result is \<open>Resolved None\<close> when the function ends without a return value.\<close>

definition monitorExecution ::
  "monitorEnv \<Rightarrow> ChugSplashActionBundle \<Rightarrow> nat \<Rightarrow> string option promise \<times> spinnerEvent list" where
  "monitorExecution E bundle fuel =
     (case monitorLoop E bundle fuel 0 (bundles E 0) None of
        (LoopRunning, es) \<Rightarrow> (Pending, S_start ''Waiting for executor...'' # es)
      | (LoopThrew m, es) \<Rightarrow> (Rejected m, S_start ''Waiting for executor...'' # es)
      | (LoopDone bundleState, es) \<Rightarrow>
          (if status bundleState = COMPLETED then
             (Resolved (Some (getFinalDeploymentTxnHash E)),
              S_start ''Waiting for executor...'' # es
                @ [S_succeed (''Finished executing '' @ projectName E @ ''.''),
                   S_start ''Retrieving deployment info...'',
                   S_succeed ''Retrieved deployment info.''])
           else if status bundleState = CANCELLED then
             (Rejected (cancelledMessage E),
              S_start ''Waiting for executor...'' # es @ [S_fail (cancelledMessage E)])
           else
             (Resolved None,
              S_start ''Waiting for executor...'' # es
                @ [S_fail (''Project was never active. Current status: ''
                             @ showStatus E (status bundleState))])))"


section \<open>A small chain for concrete evaluations of \<^verbatim>\<open>monitorExecution\<close>\<close>

text \<open>
  The \<open>n\<close>-th call of \<^verbatim>\<open>bundles\<close> answers with the \<open>n\<close>-th status of the list, and
  with status number 5 after the end of the list; the amount to deposit is the same in
  every iteration.
\<close>

definition demoMonitorEnv :: "ChugSplashBundleStatus list \<Rightarrow> int \<Rightarrow> monitorEnv" where
  "demoMonitorEnv sts amount =
     \<lparr>projectName = ''demo'', networkName = ''goerli'', numContracts = 1,
      bundles = (\<lambda>n. \<lparr>status = (if n < length sts then sts ! n else OTHER_STATUS 5),
                       actionsExecuted = 0, selectedExecutor = AddressZero\<rparr>),
      getAmountToDeposit = (\<lambda>n. amount),
      getCurrentChugSplashActionType = (\<lambda>b n. SET_STORAGE),
      getFinalDeploymentTxnHash = ''0xhash'',
      EXECUTION_BUFFER_MULTIPLIER = 2,
      showNumber = (\<lambda>i. ''#''),
      showStatus = (\<lambda>s. ''?'')\<rparr>"
section \<open>Solidity values and checked arithmetic\<close>

text \<open>
  \<^verbatim>\<open>Sphinx.sol\<close> is compiled with \<^verbatim>\<open>pragma solidity ^0.8.0\<close>: arithmetic on
  \<^verbatim>\<open>uint256\<close> is checked, an overflow or underflow is a \<^verbatim>\<open>Panic(0x11)\<close> revert.
  A \<^verbatim>\<open>uint256\<close> is a \<open>nat\<close> here and every operation that can leave the range
  returns \<open>None\<close> for the panic. Division by a non-zero literal never panics.
\<close>

type_synonym uint256 = nat
type_synonym bytes32 = "256 word"
type_synonym address = "160 word"
type_synonym bytes = "8 word list"

definition MAX_UINT256 :: nat where
  "MAX_UINT256 = 2 ^ 256 - 1"

definition checked_add :: "uint256 \<Rightarrow> uint256 \<Rightarrow> uint256 option" where
  "checked_add a b = (if a + b \<le> MAX_UINT256 then Some (a + b) else None)"

definition checked_sub :: "uint256 \<Rightarrow> uint256 \<Rightarrow> uint256 option" where
  "checked_sub a b = (if b \<le> a then Some (a - b) else None)"

definition checked_mul :: "uint256 \<Rightarrow> uint256 \<Rightarrow> uint256 option" where
  "checked_mul a b = (if a * b \<le> MAX_UINT256 then Some (a * b) else None)"

text \<open>Big-endian reading of a byte string as an unsigned integer.\<close>

definition be_nat :: "bytes \<Rightarrow> nat" where
  "be_nat bs = foldl (\<lambda>acc b. acc * 256 + unat b) 0 bs"

section \<open>Data types of the deployment executor\<close>

datatype SphinxActionType = SET_STORAGE | DEPLOY_CONTRACT | CALL

record RawSphinxAction =
  actionType :: SphinxActionType
  index :: uint256
  data :: bytes

record BundledSphinxAction =
  action :: RawSphinxAction
  siblings :: "bytes32 list"

datatype DeploymentStatus =
    EMPTY | APPROVED | PROXIES_INITIATED | COMPLETED | CANCELLED | FAILED
  | INITIAL_ACTIONS_EXECUTED | SET_STORAGE_ACTIONS_EXECUTED

text \<open>
  Of the \<^verbatim>\<open>DeploymentState\<close> struct the executor reads \<^verbatim>\<open>status\<close> and
  \<^verbatim>\<open>actionsExecuted\<close> only.
\<close>

record DeploymentState =
  status :: DeploymentStatus
  actionsExecuted :: uint256

text \<open>
  The fields of a \<^verbatim>\<open>SphinxTarget\<close> are never read by the executor, which copies
  the struct into the arguments of the upgrade calls: it is an opaque payload.
\<close>

datatype SphinxTarget = SphinxTarget bytes

record BundledSphinxTarget =
  target :: SphinxTarget
  targetSiblings :: "bytes32 list"

record HumanReadableAction =
  reason :: string
  actionIndex :: uint256

datatype AuthLeafType =
    SETUP | PROPOSE | UPGRADE_MANAGER_AND_AUTH_IMPL | APPROVE_DEPLOYMENT
  | CANCEL_ACTIVE_DEPLOYMENT | OTHER_LEAF_TYPE nat

record AuthLeaf =
  leafIndex :: uint256
  leafData :: bytes

record BundledAuthLeaf =
  leaf :: AuthLeaf
  leafTypeEnum :: AuthLeafType
  leafProof :: "bytes32 list"

record SphinxActionBundle =
  bundleRoot :: bytes32
  actions :: "BundledSphinxAction list"

record SphinxTargetBundle =
  targetRoot :: bytes32
  targets :: "BundledSphinxTarget list"

record BundleInfo =
  networkName :: string
  configUri :: string
  authLeafs :: "BundledAuthLeaf list"
  actionBundle :: SphinxActionBundle
  targetBundle :: SphinxTargetBundle
  humanReadableActions :: "HumanReadableAction list"

text \<open>Of the \<^verbatim>\<open>SphinxConfig\<close> the deployment reads these three fields.\<close>

record SphinxConfig =
  owners :: "address list"
  threshold :: uint256
  projectName :: string

record Wallet =
  addr :: address
  privateKey :: uint256

datatype SphinxMode =
  Default | Collect | LiveNetworkBroadcast | LocalNetworkBroadcast | Proposal

section \<open>Outcomes, events and the external world\<close>

text \<open>
  A Solidity function either returns or reverts; a loop whose exit depends on what the
  chain answers is run with fuel, and \<open>OutOfFuel\<close> is the run that has not ended yet.
  Every external call the executor makes is recorded as an event, in call order, so that
  a property of "what is submitted" is a property of the event list.
\<close>

datatype 'a outcome = Returned 'a | Reverted string | OutOfFuel

datatype event =
    E_findMaxBatchSize "BundledSphinxAction list" uint256
  | E_executeInitialActions "RawSphinxAction list" "bytes32 list list" uint256 bool bytes
  | E_setStorage "RawSphinxAction list" "bytes32 list list" uint256
  | E_initiateUpgrade "SphinxTarget list" "bytes32 list list" uint256
  | E_finalizeUpgrade "SphinxTarget list" "bytes32 list list" uint256
  | E_claimDeployment uint256
  | E_authCall AuthLeafType uint256 bytes32 AuthLeaf "bytes list" "bytes32 list"
  | E_authFactoryDeploy uint256 bytes string
  | E_authFactoryDeployFFI bytes string string
  | E_stopBroadcast
  | E_startBroadcast address
  | E_store address bytes32 bytes32
  | E_tryFfi "string list"
  | E_consoleLog string

text \<open>
  The contracts and cheatcodes that \<^verbatim>\<open>Sphinx.sol\<close> calls (the \<^verbatim>\<open>ISphinxManager\<close>,
  \<^verbatim>\<open>ISphinxAuth\<close> and \<^verbatim>\<open>ISphinxAuthFactory\<close> contracts, the simulation behind
  \<^verbatim>\<open>findMaxBatchSize\<close>, the \<^verbatim>\<open>vm\<close> cheatcodes) are parameters: a record of
  functions over a world state \<open>'w\<close>. A view call reads the world, a transaction maps it
  to the next world or reverts (\<open>None\<close>). The low-level call of
  \<^verbatim>\<open>executeInitialActions\<close> never reverts the caller: it answers with its success flag
  and its return data. The model has no memory: \<open>memoryAfter\<close> stands for the bytes of
  memory that follow the return data of that call, which the executor reads when the
  return data is shorter than 36 bytes.
\<close>

record 'w chain =
  activeDeploymentId :: "'w \<Rightarrow> bytes32"
  deployments :: "'w \<Rightarrow> bytes32 \<Rightarrow> DeploymentState"
  findMaxBatchSize :: "'w \<Rightarrow> BundledSphinxAction list \<Rightarrow> uint256 \<Rightarrow> uint256 option"
  executeInitialActions ::
    "RawSphinxAction list \<Rightarrow> bytes32 list list \<Rightarrow> uint256 \<Rightarrow> 'w \<Rightarrow> (bool \<times> bytes) \<times> 'w"
  memoryAfter :: "'w \<Rightarrow> bytes \<Rightarrow> bytes"
  setStorage :: "RawSphinxAction list \<Rightarrow> bytes32 list list \<Rightarrow> uint256 \<Rightarrow> 'w \<Rightarrow> 'w option"
  initiateUpgrade :: "SphinxTarget list \<Rightarrow> bytes32 list list \<Rightarrow> uint256 \<Rightarrow> 'w \<Rightarrow> 'w option"
  finalizeUpgrade :: "SphinxTarget list \<Rightarrow> bytes32 list list \<Rightarrow> uint256 \<Rightarrow> 'w \<Rightarrow> 'w option"
  claimDeployment :: "uint256 \<Rightarrow> 'w \<Rightarrow> 'w option"
  authThreshold :: "'w \<Rightarrow> uint256"
  authStatesLeafsExecuted :: "'w \<Rightarrow> bytes32 \<Rightarrow> uint256"
  authCall ::
    "AuthLeafType \<Rightarrow> uint256 \<Rightarrow> bytes32 \<Rightarrow> AuthLeaf \<Rightarrow> bytes list \<Rightarrow> bytes32 list \<Rightarrow> 'w \<Rightarrow>
     'w option"
  hasRole :: "'w \<Rightarrow> bytes32 \<Rightarrow> address \<Rightarrow> bool"
  authFactoryAuths :: "'w \<Rightarrow> bytes32 \<Rightarrow> address"
  authFactoryDeploy :: "uint256 \<Rightarrow> bytes \<Rightarrow> string \<Rightarrow> 'w \<Rightarrow> 'w option"
  authFactoryDeployFFI :: "bytes \<Rightarrow> string \<Rightarrow> string \<Rightarrow> 'w \<Rightarrow> 'w option"
  readCallersMsgSender :: "'w \<Rightarrow> address"
  blockGaslimit :: "'w \<Rightarrow> uint256"
  vmStore :: "address \<Rightarrow> bytes32 \<Rightarrow> bytes32 \<Rightarrow> 'w \<Rightarrow> 'w"
  vmTryFfi :: "string list \<Rightarrow> 'w \<Rightarrow> (int \<times> string) \<times> 'w"
  vmToStringAddress :: "address \<Rightarrow> string"
  vmToStringBytes32 :: "bytes32 \<Rightarrow> string"
  sortAddresses :: "address list \<Rightarrow> address list"
  encodeAuthData :: "address list \<Rightarrow> uint256 \<Rightarrow> bytes"
  authSaltOf :: "bytes \<Rightarrow> string \<Rightarrow> bytes32"
  proposerRole :: bytes32
  getDeploymentId :: "SphinxActionBundle \<Rightarrow> SphinxTargetBundle \<Rightarrow> string \<Rightarrow> bytes32"
  getSphinxAuthAddress :: "SphinxConfig \<Rightarrow> address"
  getSphinxWalletsSortedByAddress :: "uint256 \<Rightarrow> Wallet list"
  signMetaTxnForAuthRoot :: "uint256 \<Rightarrow> bytes32 \<Rightarrow> bytes"
  authAccessControlRoleSlotKey :: bytes32
  getMappingValueSlotKey :: "bytes32 \<Rightarrow> bytes32 \<Rightarrow> bytes32"

section \<open>Helpers of SphinxUtils\<close>

text \<open>
  Modelled from the spec: \<^verbatim>\<open>SphinxUtils.removeExecutedActions\<close> is not among the
  sources. The spec's resume rule: actions that \<^verbatim>\<open>actionsExecuted\<close> already covers
  are skipped, only actions with \<^verbatim>\<open>index >= actionsExecuted\<close> remain, in their order.
\<close>

definition removeExecutedActions ::
  "BundledSphinxAction list \<Rightarrow> uint256 \<Rightarrow> BundledSphinxAction list" where
  "removeExecutedActions as n = filter (\<lambda>a. n \<le> index (action a)) as"

text \<open>
  Modelled from the spec: \<^verbatim>\<open>SphinxUtils.inefficientSlice\<close> is not among the sources.
  The spec's batch is the contiguous run \<^verbatim>\<open>actions[start..end)\<close>; a range that leaves
  the array is a panic.
\<close>

definition inefficientSlice :: "'a list \<Rightarrow> nat \<Rightarrow> nat \<Rightarrow> 'a list option" where
  "inefficientSlice xs start end =
     (if start \<le> end \<and> end \<le> length xs then Some (take (end - start) (drop start xs))
      else None)"

text \<open>
  Modelled from the spec: \<^verbatim>\<open>SphinxUtils.disassembleActions\<close> is not among the sources.
  The spec's \<^verbatim>\<open>toRaw\<close>: the raw action of every bundled action, beside its proof.
\<close>

definition disassembleActions ::
  "BundledSphinxAction list \<Rightarrow> RawSphinxAction list \<times> bytes32 list list" where
  "disassembleActions batch = (map action batch, map siblings batch)"

text \<open>
  Modelled from the spec: \<^verbatim>\<open>SphinxUtils.splitActions\<close> is not among the sources.
  The spec's two batched phases: the storage-setting actions, and all the others
  (deploy and call), each in the order of the bundle.
\<close>

definition splitActions ::
  "BundledSphinxAction list \<Rightarrow> BundledSphinxAction list \<times> BundledSphinxAction list" where
  "splitActions as =
     (filter (\<lambda>a. actionType (action a) \<noteq> SET_STORAGE) as,
      filter (\<lambda>a. actionType (action a) = SET_STORAGE) as)"

section \<open>Reverts\<close>

text \<open>
  A revert undoes every state change of the run: the world of a function that reverts is
  the world in which it started. The events stay, as the record of what was attempted.
\<close>

definition rollback :: "'w \<Rightarrow> 'a outcome \<times> 'w \<times> event list \<Rightarrow> 'a outcome \<times> 'w \<times> event list" where
  "rollback w run =
     (case run of
        (Returned x, w', es) \<Rightarrow> (Returned x, w', es)
      | (Reverted s, w', es) \<Rightarrow> (Reverted s, w, es)
      | (OutOfFuel, w', es) \<Rightarrow> (OutOfFuel, w', es))"

section \<open>sphinxExecuteBatchActions\<close>

text \<open>
  \<^verbatim>\<open>failureIndex := mload(add(result, 0x24))\<close>: the 32 bytes of memory that start
  36 bytes behind \<^verbatim>\<open>result\<close>, read big-endian. In memory the length word (32 bytes)
  is followed by the return data and then by whatever memory holds behind it
  (\<open>behind\<close>); memory that was never written reads as zero. With return data of at
  least 36 bytes this is the word behind the 4-byte selector; with shorter return data
  the bytes of \<open>behind\<close> are read.
\<close>

definition failureIndex :: "bytes \<Rightarrow> bytes \<Rightarrow> uint256" where
  "failureIndex result behind = be_nat (take 32 (drop 4 (result @ behind) @ replicate 32 0))"

text \<open>The budget expression of the call of \<^verbatim>\<open>findMaxBatchSize\<close>.\<close>

definition batchGasBudget :: "uint256 \<Rightarrow> uint256 option" where
  "batchGasBudget bufferedGasLimit =
     (case checked_mul bufferedGasLimit 20 of
        None \<Rightarrow> None
      | Some p \<Rightarrow> checked_sub bufferedGasLimit (p div 100))"

text \<open>
  The submission of one batch: \<^verbatim>\<open>setStorage\<close> is an ordinary external call, whose
  revert reverts the executor; \<^verbatim>\<open>executeInitialActions\<close> is a low-level call, whose
  failure makes the executor return \<^verbatim>\<open>(FAILED, failureIndex)\<close>; a failed call has
  changed nothing on the chain. The first component is the early exit, if any.
\<close>

definition submitBatch ::
  "'w chain \<Rightarrow> bool \<Rightarrow> uint256 \<Rightarrow> RawSphinxAction list \<Rightarrow> bytes32 list list \<Rightarrow> 'w \<Rightarrow>
   (DeploymentStatus \<times> uint256) outcome option \<times> 'w \<times> event list" where
  "submitBatch C isSetStorageActionArray bufferedGasLimit rawActions proofs w =
     (if isSetStorageActionArray then
        (case setStorage C rawActions proofs bufferedGasLimit w of
           None \<Rightarrow>
             (Some (Reverted ''setStorage''), w,
              [E_setStorage rawActions proofs bufferedGasLimit])
         | Some w' \<Rightarrow> (None, w', [E_setStorage rawActions proofs bufferedGasLimit]))
      else
        (case executeInitialActions C rawActions proofs bufferedGasLimit w of
           ((success, result), w') \<Rightarrow>
             (if \<not> success then
                (Some (Returned (FAILED, failureIndex result (memoryAfter C w result))), w,
                 [E_executeInitialActions rawActions proofs bufferedGasLimit success result])
              else
                (None, w',
                 [E_executeInitialActions rawActions proofs bufferedGasLimit success result]))))"

text \<open>
  The \<^verbatim>\<open>while (executed < filteredActions.length)\<close> loop. One unit of fuel is one
  iteration. The result is the outcome, the world after the run and the events of the
  run.
\<close>

fun batchLoop ::
  "'w chain \<Rightarrow> nat \<Rightarrow> bool \<Rightarrow> uint256 \<Rightarrow> bytes32 \<Rightarrow> BundledSphinxAction list \<Rightarrow> uint256 \<Rightarrow>
   DeploymentState \<Rightarrow> 'w \<Rightarrow> (DeploymentStatus \<times> uint256) outcome \<times> 'w \<times> event list" where
  "batchLoop C 0 isSetStorageActionArray bufferedGasLimit adi filteredActions executed state w =
     (if \<not> executed < length filteredActions then (Returned (status state, 0), w, [])
      else (OutOfFuel, w, []))"
| "batchLoop C (Suc fuel) isSetStorageActionArray bufferedGasLimit adi filteredActions executed
     state w =
     (if \<not> executed < length filteredActions then (Returned (status state, 0), w, [])
      else
        (case inefficientSlice filteredActions executed (length filteredActions) of
           None \<Rightarrow> (Reverted ''Panic'', w, [])
         | Some rest \<Rightarrow>
        (case batchGasBudget bufferedGasLimit of
           None \<Rightarrow> (Reverted ''Panic'', w, [])
         | Some budget \<Rightarrow>
        (case findMaxBatchSize C w rest budget of
           None \<Rightarrow> (Reverted ''findMaxBatchSize'', w, [E_findMaxBatchSize rest budget])
         | Some batchSize \<Rightarrow>
        (case checked_add executed batchSize of
           None \<Rightarrow> (Reverted ''Panic'', w, [E_findMaxBatchSize rest budget])
         | Some end \<Rightarrow>
        (case inefficientSlice filteredActions executed end of
           None \<Rightarrow> (Reverted ''Panic'', w, [E_findMaxBatchSize rest budget])
         | Some batch \<Rightarrow>
        (case disassembleActions batch of (rawActions, proofs) \<Rightarrow>
        (case submitBatch C isSetStorageActionArray bufferedGasLimit rawActions proofs w of
           (Some exit, w', es) \<Rightarrow> (exit, w', E_findMaxBatchSize rest budget # es)
         | (None, w', es) \<Rightarrow>
             (let state' = deployments C w' adi in
              if status state' = FAILED then
                (Returned (status state', 0), w', E_findMaxBatchSize rest budget # es)
              else
                (case batchLoop C fuel isSetStorageActionArray bufferedGasLimit adi
                        filteredActions end state' w' of
                   (r, w'', es') \<Rightarrow>
                     rollback w (r, w'', E_findMaxBatchSize rest budget # es @ es')))))))))))"

definition sphinxExecuteBatchActions ::
  "'w chain \<Rightarrow> nat \<Rightarrow> BundledSphinxAction list \<Rightarrow> bool \<Rightarrow> uint256 \<Rightarrow> 'w \<Rightarrow>
   (DeploymentStatus \<times> uint256) outcome \<times> 'w \<times> event list" where
  "sphinxExecuteBatchActions C fuel bundledActions isSetStorageActionArray bufferedGasLimit w =
     rollback w
       (let adi = activeDeploymentId C w;
            state = deployments C w adi;
            filteredActions = removeExecutedActions bundledActions (actionsExecuted state)
        in if length filteredActions = 0 then (Returned (status state, 0), w, [])
           else batchLoop C fuel isSetStorageActionArray bufferedGasLimit adi filteredActions 0
                  state w)"


section \<open>sphinxExecuteDeployment\<close>

definition emptyAction :: HumanReadableAction where
  "emptyAction = \<lparr>reason = [], actionIndex = 0\<rparr>"

text \<open>
  The gas limit of every batch transaction, from the block gas limit. The product is
  checked.
\<close>

definition bufferedGasLimitOf :: "uint256 \<Rightarrow> uint256 option" where
  "bufferedGasLimitOf blockGasLimit =
     (case checked_mul (blockGasLimit div 2) 120 of
        None \<Rightarrow> None
      | Some p \<Rightarrow> Some (p div 100))"

text \<open>
  The second part of \<^verbatim>\<open>sphinxExecuteDeployment\<close>, after the initial actions: the
  upgrade is initiated, the storage actions are run (their result is dropped), the
  upgrade is finalized.
\<close>

definition upgradePhases ::
  "'w chain \<Rightarrow> nat \<Rightarrow> BundleInfo \<Rightarrow> BundledSphinxAction list \<Rightarrow> uint256 \<Rightarrow> 'w \<Rightarrow>
   (bool \<times> HumanReadableAction) outcome \<times> 'w \<times> event list" where
  "upgradePhases C fuel bundleInfo setStorageActions bufferedGasLimit w1 =
     (let tgts = map target (targets (targetBundle bundleInfo));
          proofs = map targetSiblings (targets (targetBundle bundleInfo))
      in case initiateUpgrade C tgts proofs 1000000 w1 of
           None \<Rightarrow> (Reverted ''initiateUpgrade'', w1, [E_initiateUpgrade tgts proofs 1000000])
         | Some w2 \<Rightarrow>
        (case sphinxExecuteBatchActions C fuel setStorageActions True bufferedGasLimit w2 of
           (Reverted s, w3, es) \<Rightarrow>
             (Reverted s, w1, E_initiateUpgrade tgts proofs 1000000 # es)
         | (OutOfFuel, w3, es) \<Rightarrow>
             (OutOfFuel, w3, E_initiateUpgrade tgts proofs 1000000 # es)
         | (Returned r, w3, es) \<Rightarrow>
        (case finalizeUpgrade C tgts proofs 1000000 w3 of
           None \<Rightarrow>
             (Reverted ''finalizeUpgrade'', w1,
              E_initiateUpgrade tgts proofs 1000000 # es
                @ [E_finalizeUpgrade tgts proofs 1000000])
         | Some w4 \<Rightarrow>
             (Returned (True, emptyAction), w4,
              E_initiateUpgrade tgts proofs 1000000 # es
                @ [E_finalizeUpgrade tgts proofs 1000000]))))"

definition sphinxExecuteDeployment ::
  "'w chain \<Rightarrow> nat \<Rightarrow> BundleInfo \<Rightarrow> uint256 \<Rightarrow> 'w \<Rightarrow>
   (bool \<times> HumanReadableAction) outcome \<times> 'w \<times> event list" where
  "sphinxExecuteDeployment C fuel bundleInfo blockGasLimit w =
     rollback w
     (case splitActions (actions (actionBundle bundleInfo)) of (initialActions, setStorageActions) \<Rightarrow>
     (case bufferedGasLimitOf blockGasLimit of
        None \<Rightarrow> (Reverted ''Panic'', w, [])
      | Some bufferedGasLimit \<Rightarrow>
     (case sphinxExecuteBatchActions C fuel initialActions False bufferedGasLimit w of
        (Reverted s, w1, es1) \<Rightarrow> (Reverted s, w1, es1)
      | (OutOfFuel, w1, es1) \<Rightarrow> (OutOfFuel, w1, es1)
      | (Returned (st, failedActionIndex), w1, es1) \<Rightarrow>
          (if st = FAILED then
             (if failedActionIndex < length (humanReadableActions bundleInfo) then
                (Returned (False, humanReadableActions bundleInfo ! failedActionIndex), w1, es1)
              else (Reverted ''Panic'', w1, es1))
           else if st = COMPLETED then (Returned (True, emptyAction), w1, es1)
           else
             (case upgradePhases C fuel bundleInfo setStorageActions bufferedGasLimit w1 of
                (r, w2, es2) \<Rightarrow> (r, w2, es1 @ es2))))))"

section \<open>sphinxDeployOnNetwork\<close>

text \<open>
  Sequencing of two steps: the second runs in the world the first leaves, when the first
  returns; a revert of either ends the run and rolls the world back to the start of the
  sequence. The events are appended.
\<close>

definition andThen ::
  "('w \<Rightarrow> 'a outcome \<times> 'w \<times> event list) \<Rightarrow> ('a \<Rightarrow> 'w \<Rightarrow> 'b outcome \<times> 'w \<times> event list) \<Rightarrow>
   'w \<Rightarrow> 'b outcome \<times> 'w \<times> event list" where
  "andThen m f w =
     rollback w
       (case m w of
          (Returned x, w1, es) \<Rightarrow> (case f x w1 of (r, w2, es') \<Rightarrow> (r, w2, es @ es'))
        | (Reverted s, w1, es) \<Rightarrow> (Reverted s, w1, es)
        | (OutOfFuel, w1, es) \<Rightarrow> (OutOfFuel, w1, es))"

definition ret :: "'a \<Rightarrow> 'w \<Rightarrow> 'a outcome \<times> 'w \<times> event list" where
  "ret x w = (Returned x, w, [])"

definition emit :: "event \<Rightarrow> 'w \<Rightarrow> unit outcome \<times> 'w \<times> event list" where
  "emit e w = (Returned (), w, [e])"

text \<open>A transaction: the event is recorded, and a revert of the callee reverts the caller.\<close>

definition tx ::
  "event \<Rightarrow> string \<Rightarrow> ('w \<Rightarrow> 'w option) \<Rightarrow> 'w \<Rightarrow> unit outcome \<times> 'w \<times> event list" where
  "tx e callee f w =
     (case f w of None \<Rightarrow> (Reverted callee, w, [e]) | Some w' \<Rightarrow> (Returned (), w', [e]))"

definition sphinxRegisterProject ::
  "'w chain \<Rightarrow> SphinxConfig \<Rightarrow> SphinxMode \<Rightarrow> string \<Rightarrow> address \<Rightarrow> 'w \<Rightarrow>
   unit outcome \<times> 'w \<times> event list" where
  "sphinxRegisterProject C sphinxConfig sphinxMode rpcUrl msgSender w =
     (let sortedOwners = sortAddresses C (owners sphinxConfig);
          authData = encodeAuthData C sortedOwners (threshold sphinxConfig);
          authSalt = authSaltOf C authData (projectName sphinxConfig);
          isRegistered = (authFactoryAuths C w authSalt \<noteq> 0);
          deploy = tx (E_authFactoryDeploy 2000000 authData (projectName sphinxConfig))
                     ''authFactory.deploy''
                     (authFactoryDeploy C 2000000 authData (projectName sphinxConfig))
      in if \<not> isRegistered then
           (if sphinxMode = LocalNetworkBroadcast then
              andThen (emit E_stopBroadcast)
                (\<lambda>_. andThen deploy
                (\<lambda>_. andThen
                   (tx (E_authFactoryDeployFFI authData (projectName sphinxConfig) rpcUrl)
                      ''authFactoryDeployFFI''
                      (authFactoryDeployFFI C authData (projectName sphinxConfig) rpcUrl))
                (\<lambda>_. emit (E_startBroadcast msgSender)))) w
            else deploy w)
         else ret () w)"

definition sphinxGrantRoleInAuthContract ::
  "'w chain \<Rightarrow> SphinxConfig \<Rightarrow> SphinxMode \<Rightarrow> bytes32 \<Rightarrow> address \<Rightarrow> string \<Rightarrow> 'w \<Rightarrow>
   unit outcome \<times> 'w \<times> event list" where
  "sphinxGrantRoleInAuthContract C sphinxConfig sphinxMode role account rpcUrl w =
     (let auth = getSphinxAuthAddress C sphinxConfig in
      if \<not> hasRole C w role account then
        (let roleSlotKey = getMappingValueSlotKey C (authAccessControlRoleSlotKey C) role;
             memberSlotKey = getMappingValueSlotKey C roleSlotKey (ucast account)
         in andThen
              (\<lambda>w0. (Returned (), vmStore C auth memberSlotKey 1 w0,
                      [E_store auth memberSlotKey 1]))
              (\<lambda>_ w1.
                 if sphinxMode = LocalNetworkBroadcast then
                   (let inputs =
                      [''cast'', ''rpc'', ''--rpc-url'', rpcUrl, ''hardhat_setStorageAt'',
                       vmToStringAddress C auth, vmToStringBytes32 C memberSlotKey,
                       vmToStringBytes32 C 1]
                    in case vmTryFfi C inputs w1 of
                         ((exitCode, stderr), w2) \<Rightarrow>
                           (if exitCode \<noteq> 0 then (Reverted stderr, w2, [E_tryFfi inputs])
                            else (Returned (), w2, [E_tryFfi inputs])))
                 else ret () w1) w)
      else ret () w)"

text \<open>
  The loop \<^verbatim>\<open>for (i = 0; i < currentOwnerThreshold; i++)\<close> over the generated wallets:
  each is granted the owner role and signs the auth root. \<^verbatim>\<open>wallets[i]\<close> out of range
  is a panic.
\<close>

fun ownerSignatureLoop ::
  "'w chain \<Rightarrow> SphinxConfig \<Rightarrow> SphinxMode \<Rightarrow> string \<Rightarrow> bytes32 \<Rightarrow> Wallet list \<Rightarrow> nat list \<Rightarrow> 'w \<Rightarrow>
   bytes list outcome \<times> 'w \<times> event list" where
  "ownerSignatureLoop C sphinxConfig sphinxMode rpcUrl authRoot wallets [] w = ret [] w"
| "ownerSignatureLoop C sphinxConfig sphinxMode rpcUrl authRoot wallets (i # rest) w =
     (if i < length wallets then
        (case sphinxGrantRoleInAuthContract C sphinxConfig sphinxMode 0 (addr (wallets ! i))
                rpcUrl w of
           (Returned _, w1, es) \<Rightarrow>
             (case ownerSignatureLoop C sphinxConfig sphinxMode rpcUrl authRoot wallets rest w1 of
                (Returned sigs, w2, es') \<Rightarrow>
                  (Returned
                     (signMetaTxnForAuthRoot C (privateKey (wallets ! i)) authRoot # sigs),
                   w2, es @ es')
              | (Reverted s, w2, es') \<Rightarrow> (Reverted s, w, es @ es')
              | (OutOfFuel, w2, es') \<Rightarrow> (OutOfFuel, w2, es @ es'))
         | (Reverted s, w1, es) \<Rightarrow> (Reverted s, w, es)
         | (OutOfFuel, w1, es) \<Rightarrow> (OutOfFuel, w1, es))
      else (Reverted ''Panic'', w, []))"

definition ownerSignatures ::
  "'w chain \<Rightarrow> SphinxConfig \<Rightarrow> SphinxMode \<Rightarrow> bytes32 \<Rightarrow> bytes \<Rightarrow> string \<Rightarrow> 'w \<Rightarrow>
   bytes list outcome \<times> 'w \<times> event list" where
  "ownerSignatures C sphinxConfig sphinxMode authRoot metaTxnSignature rpcUrl w =
     (if sphinxMode = LiveNetworkBroadcast then ret [metaTxnSignature] w
      else if sphinxMode = LocalNetworkBroadcast \<or> sphinxMode = Proposal then
        (let currentOwnerThreshold = authThreshold C w;
             wallets = getSphinxWalletsSortedByAddress C currentOwnerThreshold
         in ownerSignatureLoop C sphinxConfig sphinxMode rpcUrl authRoot wallets
              [0..<currentOwnerThreshold] w)
      else ret [] w)"

definition authTx ::
  "'w chain \<Rightarrow> AuthLeafType \<Rightarrow> uint256 \<Rightarrow> bytes32 \<Rightarrow> AuthLeaf \<Rightarrow> bytes list \<Rightarrow> bytes32 list \<Rightarrow> 'w \<Rightarrow>
   unit outcome \<times> 'w \<times> event list" where
  "authTx C kind gas authRoot lf sigs pf =
     tx (E_authCall kind gas authRoot lf sigs pf) ''auth''
        (authCall C kind gas authRoot lf sigs pf)"

text \<open>
  The body of the loop over the auth leafs, for a leaf that is not skipped. The result is
  the local \<^verbatim>\<open>deploymentState.status\<close>, which the approval leaf sets to
  \<^verbatim>\<open>APPROVED\<close>.
\<close>

definition executeLeaf ::
  "'w chain \<Rightarrow> SphinxConfig \<Rightarrow> SphinxMode \<Rightarrow> bytes32 \<Rightarrow> bytes \<Rightarrow> string \<Rightarrow> address \<Rightarrow> bytes list \<Rightarrow>
   BundledAuthLeaf \<Rightarrow> DeploymentStatus \<Rightarrow> 'w \<Rightarrow> DeploymentStatus outcome \<times> 'w \<times> event list" where
  "executeLeaf C sphinxConfig sphinxMode authRoot metaTxnSignature rpcUrl msgSender
     ownerSignatureArray l st w =
     (case leafTypeEnum l of
        SETUP \<Rightarrow>
          andThen (authTx C SETUP 3000000 authRoot (leaf l) ownerSignatureArray (leafProof l))
            (\<lambda>_. ret st) w
      | PROPOSE \<Rightarrow>
          (if sphinxMode = LiveNetworkBroadcast then
             andThen
               (authTx C PROPOSE 1000000 authRoot (leaf l) ownerSignatureArray (leafProof l))
               (\<lambda>_. ret st) w
           else if sphinxMode = Proposal \<or> sphinxMode = LocalNetworkBroadcast then
             andThen
               (sphinxGrantRoleInAuthContract C sphinxConfig sphinxMode (proposerRole C)
                  msgSender rpcUrl)
               (\<lambda>_. andThen
                  (authTx C PROPOSE 1000000 authRoot (leaf l) [metaTxnSignature] (leafProof l))
               (\<lambda>_. ret st)) w
           else ret st w)
      | UPGRADE_MANAGER_AND_AUTH_IMPL \<Rightarrow>
          andThen
            (authTx C UPGRADE_MANAGER_AND_AUTH_IMPL 1000000 authRoot (leaf l)
               ownerSignatureArray (leafProof l))
            (\<lambda>_. ret st) w
      | APPROVE_DEPLOYMENT \<Rightarrow>
          andThen
            (authTx C APPROVE_DEPLOYMENT 1000000 authRoot (leaf l) ownerSignatureArray
               (leafProof l))
            (\<lambda>_. ret APPROVED) w
      | CANCEL_ACTIVE_DEPLOYMENT \<Rightarrow>
          andThen
            (authTx C CANCEL_ACTIVE_DEPLOYMENT 1000000 authRoot (leaf l) ownerSignatureArray
               (leafProof l))
            (\<lambda>_. ret st) w
      | OTHER_LEAF_TYPE _ \<Rightarrow>
          (Reverted ''Unsupported auth leaf type. Should never happen.'', w, []))"

text \<open>
  The loop over \<^verbatim>\<open>_bundleInfo.authLeafs\<close>; \<^verbatim>\<open>leafsExecuted\<close> is read once, before
  the loop.
\<close>

fun authLeafLoop ::
  "'w chain \<Rightarrow> SphinxConfig \<Rightarrow> SphinxMode \<Rightarrow> bytes32 \<Rightarrow> bytes \<Rightarrow> string \<Rightarrow> address \<Rightarrow> bytes list \<Rightarrow>
   uint256 \<Rightarrow> BundledAuthLeaf list \<Rightarrow> DeploymentStatus \<Rightarrow> 'w \<Rightarrow>
   DeploymentStatus outcome \<times> 'w \<times> event list" where
  "authLeafLoop C sphinxConfig sphinxMode authRoot metaTxnSignature rpcUrl msgSender
     ownerSignatureArray leafsExecuted [] st w = ret st w"
| "authLeafLoop C sphinxConfig sphinxMode authRoot metaTxnSignature rpcUrl msgSender
     ownerSignatureArray leafsExecuted (l # ls) st w =
     (if leafsExecuted > leafIndex (leaf l) then
        authLeafLoop C sphinxConfig sphinxMode authRoot metaTxnSignature rpcUrl msgSender
          ownerSignatureArray leafsExecuted ls st w
      else
        (case executeLeaf C sphinxConfig sphinxMode authRoot metaTxnSignature rpcUrl msgSender
                ownerSignatureArray l st w of
           (Returned st', w1, es) \<Rightarrow>
             (case authLeafLoop C sphinxConfig sphinxMode authRoot metaTxnSignature rpcUrl
                     msgSender ownerSignatureArray leafsExecuted ls st' w1 of
                (r, w2, es') \<Rightarrow> rollback w (r, w2, es @ es'))
         | (Reverted s, w1, es) \<Rightarrow> (Reverted s, w, es)
         | (OutOfFuel, w1, es) \<Rightarrow> (OutOfFuel, w1, es)))"

text \<open>The block \<^verbatim>\<open>if (deploymentState.status == DeploymentStatus.EMPTY)\<close>.\<close>

definition approvalPhase ::
  "'w chain \<Rightarrow> SphinxConfig \<Rightarrow> SphinxMode \<Rightarrow> bytes32 \<Rightarrow> BundleInfo \<Rightarrow> bytes \<Rightarrow> string \<Rightarrow> address \<Rightarrow>
   DeploymentStatus \<Rightarrow> 'w \<Rightarrow> DeploymentStatus outcome \<times> 'w \<times> event list" where
  "approvalPhase C sphinxConfig sphinxMode authRoot bundleInfo metaTxnSignature rpcUrl msgSender
     st =
     andThen (ownerSignatures C sphinxConfig sphinxMode authRoot metaTxnSignature rpcUrl)
       (\<lambda>ownerSignatureArray w.
          authLeafLoop C sphinxConfig sphinxMode authRoot metaTxnSignature rpcUrl msgSender
            ownerSignatureArray (authStatesLeafsExecuted C w authRoot) (authLeafs bundleInfo)
            st w)"

text \<open>The block that claims and executes the deployment, and reverts when it failed.\<close>

definition failedDeploymentPrefix :: string where
  "failedDeploymentPrefix =
     ''Sphinx: failed to execute deployment because the following action reverted: ''"

definition executionPhase ::
  "'w chain \<Rightarrow> SphinxMode \<Rightarrow> nat \<Rightarrow> BundleInfo \<Rightarrow> 'w \<Rightarrow> unit outcome \<times> 'w \<times> event list" where
  "executionPhase C sphinxMode fuel bundleInfo =
     andThen
       (if sphinxMode = Proposal \<or> sphinxMode = LocalNetworkBroadcast then
          tx (E_claimDeployment 1000000) ''claimDeployment'' (claimDeployment C 1000000)
        else ret ())
       (\<lambda>_. andThen (\<lambda>w. sphinxExecuteDeployment C fuel bundleInfo (blockGaslimit C w) w)
       (\<lambda>(executionSuccess, readableAction) w.
          if \<not> executionSuccess then
            (Reverted (failedDeploymentPrefix @ reason readableAction), w, [])
          else ret () w))"

definition sphinxDeployOnNetwork ::
  "'w chain \<Rightarrow> SphinxConfig \<Rightarrow> SphinxMode \<Rightarrow> nat \<Rightarrow> bytes32 \<Rightarrow> BundleInfo \<Rightarrow> bytes \<Rightarrow> string \<Rightarrow> 'w \<Rightarrow>
   unit outcome \<times> 'w \<times> event list" where
  "sphinxDeployOnNetwork C sphinxConfig sphinxMode fuel authRoot bundleInfo metaTxnSignature
     rpcUrl w =
     (let msgSender = readCallersMsgSender C w in
      if length (authLeafs bundleInfo) = 0 then
        emit (E_consoleLog
                (''Sphinx: Nothing to execute on '' @ networkName bundleInfo
                   @ ''. Exiting early.'')) w
      else
        andThen (sphinxRegisterProject C sphinxConfig sphinxMode rpcUrl msgSender)
          (\<lambda>_ w1.
             let deploymentId =
                   getDeploymentId C (actionBundle bundleInfo) (targetBundle bundleInfo)
                     (configUri bundleInfo);
                 deploymentState = deployments C w1 deploymentId
             in if status deploymentState = COMPLETED then
                  emit (E_consoleLog
                          (''Sphinx: Deployment was already completed on ''
                             @ networkName bundleInfo @ ''. Exiting early.'')) w1
                else
                  andThen
                    (if status deploymentState = EMPTY then
                       approvalPhase C sphinxConfig sphinxMode authRoot bundleInfo
                         metaTxnSignature rpcUrl msgSender (status deploymentState)
                     else ret (status deploymentState))
                    (\<lambda>st.
                       if st = APPROVED \<or> st = INITIAL_ACTIONS_EXECUTED
                          \<or> st = PROXIES_INITIATED \<or> st = SET_STORAGE_ACTIONS_EXECUTED
                       then executionPhase C sphinxMode fuel bundleInfo
                       else ret ()) w1) w)"

section \<open>Observations of a run\<close>

definition outcomeOf :: "'a \<times> 'w \<times> event list \<Rightarrow> 'a" where
  "outcomeOf run = fst run"

definition worldOf :: "'a \<times> 'w \<times> event list \<Rightarrow> 'w" where
  "worldOf run = fst (snd run)"

definition evs :: "'a \<times> 'w \<times> event list \<Rightarrow> event list" where
  "evs run = snd (snd run)"

text \<open>The gas budgets passed to \<^verbatim>\<open>findMaxBatchSize\<close>, in call order.\<close>

fun budgetOf :: "event \<Rightarrow> uint256 list" where
  "budgetOf (E_findMaxBatchSize as b) = [b]"
| "budgetOf e = []"

definition budgetsPassed :: "event list \<Rightarrow> uint256 list" where
  "budgetsPassed es = concat (map budgetOf es)"

text \<open>
  The raw actions submitted to the manager (by \<^verbatim>\<open>executeInitialActions\<close> or by
  \<^verbatim>\<open>setStorage\<close>), in submission order.
\<close>

fun submittedOf :: "event \<Rightarrow> RawSphinxAction list" where
  "submittedOf (E_executeInitialActions rawActions proofs gas success result) = rawActions"
| "submittedOf (E_setStorage rawActions proofs gas) = rawActions"
| "submittedOf e = []"

definition submittedActions :: "event list \<Rightarrow> RawSphinxAction list" where
  "submittedActions es = concat (map submittedOf es)"

fun initialOf :: "event \<Rightarrow> RawSphinxAction list" where
  "initialOf (E_executeInitialActions rawActions proofs gas success result) = rawActions"
| "initialOf e = []"

definition submittedInitial :: "event list \<Rightarrow> RawSphinxAction list" where
  "submittedInitial es = concat (map initialOf es)"

fun storageOf :: "event \<Rightarrow> RawSphinxAction list" where
  "storageOf (E_setStorage rawActions proofs gas) = rawActions"
| "storageOf e = []"

definition submittedStorage :: "event list \<Rightarrow> RawSphinxAction list" where
  "submittedStorage es = concat (map storageOf es)"

text \<open>The auth leafs submitted to the auth contract.\<close>

fun leafOf :: "event \<Rightarrow> AuthLeaf list" where
  "leafOf (E_authCall kind gas authRoot lf sigs pf) = [lf]"
| "leafOf e = []"

definition submittedLeafs :: "event list \<Rightarrow> AuthLeaf list" where
  "submittedLeafs es = concat (map leafOf es)"

text \<open>
  The phase of a manager transaction: 1 for a batch of initial actions, 2 for
  \<^verbatim>\<open>initiateUpgrade\<close>, 3 for a batch of storage actions, 4 for
  \<^verbatim>\<open>finalizeUpgrade\<close>. The batch-size simulation is no transaction.
\<close>

fun phaseOf :: "event \<Rightarrow> nat list" where
  "phaseOf (E_executeInitialActions rawActions proofs gas success result) = [1]"
| "phaseOf (E_initiateUpgrade tgts proofs gas) = [2]"
| "phaseOf (E_setStorage rawActions proofs gas) = [3]"
| "phaseOf (E_finalizeUpgrade tgts proofs gas) = [4]"
| "phaseOf e = []"

definition phases :: "event list \<Rightarrow> nat list" where
  "phases es = concat (map phaseOf es)"

text \<open>
  A budget \<open>b\<close> that leaves at most \<open>pct\<close> percent of headroom below the raw block
  gas limit.
\<close>

definition withinHeadroom :: "nat \<Rightarrow> uint256 \<Rightarrow> uint256 \<Rightarrow> bool" where
  "withinHeadroom pct blockGasLimit b =
     (blockGasLimit - (blockGasLimit * pct) div 100 \<le> b \<and> b \<le> blockGasLimit)"

text \<open>
  The actions of the two batched phases that are left to execute in a world: the initial
  actions and the storage actions of the bundle that \<^verbatim>\<open>actionsExecuted\<close> does not
  cover yet.
\<close>

definition remainingInitial :: "'w chain \<Rightarrow> BundleInfo \<Rightarrow> 'w \<Rightarrow> RawSphinxAction list" where
  "remainingInitial C bundleInfo w =
     map action
       (removeExecutedActions (fst (splitActions (actions (actionBundle bundleInfo))))
          (actionsExecuted (deployments C w (activeDeploymentId C w))))"

definition remainingStorage :: "'w chain \<Rightarrow> BundleInfo \<Rightarrow> 'w \<Rightarrow> RawSphinxAction list" where
  "remainingStorage C bundleInfo w =
     map action
       (removeExecutedActions (snd (splitActions (actions (actionBundle bundleInfo))))
          (actionsExecuted (deployments C w (activeDeploymentId C w))))"

text \<open>
  The steps of \<^verbatim>\<open>sphinxExecuteDeployment\<close>, each as a run of its own: the batches of
  initial actions from the start of the deployment; the world in which the storage phase
  starts, which is the world that \<^verbatim>\<open>initiateUpgrade\<close> leaves behind the initial
  actions (\<open>None\<close> when it reverts); the batches of storage actions from a world.
\<close>

definition initialPhase ::
  "'w chain \<Rightarrow> nat \<Rightarrow> BundleInfo \<Rightarrow> uint256 \<Rightarrow> 'w \<Rightarrow>
   (DeploymentStatus \<times> uint256) outcome \<times> 'w \<times> event list" where
  "initialPhase C fuel bundleInfo blockGasLimit w =
     sphinxExecuteBatchActions C fuel (fst (splitActions (actions (actionBundle bundleInfo))))
       False (((blockGasLimit div 2) * 120) div 100) w"

definition storagePhaseStart ::
  "'w chain \<Rightarrow> nat \<Rightarrow> BundleInfo \<Rightarrow> uint256 \<Rightarrow> 'w \<Rightarrow> 'w option" where
  "storagePhaseStart C fuel bundleInfo blockGasLimit w =
     initiateUpgrade C (map target (targets (targetBundle bundleInfo)))
       (map targetSiblings (targets (targetBundle bundleInfo))) 1000000
       (worldOf (initialPhase C fuel bundleInfo blockGasLimit w))"

definition storagePhase ::
  "'w chain \<Rightarrow> nat \<Rightarrow> BundleInfo \<Rightarrow> uint256 \<Rightarrow> 'w \<Rightarrow>
   (DeploymentStatus \<times> uint256) outcome \<times> 'w \<times> event list" where
  "storagePhase C fuel bundleInfo blockGasLimit w2 =
     sphinxExecuteBatchActions C fuel (snd (splitActions (actions (actionBundle bundleInfo))))
       True (((blockGasLimit div 2) * 120) div 100) w2"

section \<open>A small chain for concrete runs\<close>

text \<open>
  The world is the state of the one deployment. The simulation allows two actions in a
  batch. A batch of initial actions that holds the action with index \<open>failAt\<close> reverts
  with a 4-byte selector and the index as a 32-byte big-endian word (\<open>be_bytes 32\<close>); any
  other batch succeeds and leaves the status \<open>afterInitial\<close>. The memory behind the
  return data holds the word 3.
\<close>

fun be_bytes :: "nat \<Rightarrow> nat \<Rightarrow> bytes" where
  "be_bytes 0 n = []"
| "be_bytes (Suc k) n = be_bytes k (n div 256) @ [of_nat (n mod 256)]"

definition revertData :: "nat \<Rightarrow> bytes" where
  "revertData k = [0xde, 0xad, 0xbe, 0xef] @ be_bytes 32 k"

definition demoChain :: "nat option \<Rightarrow> DeploymentStatus \<Rightarrow> DeploymentState chain" where
  "demoChain failAt afterInitial =
     \<lparr>activeDeploymentId = (\<lambda>w. 1),
      deployments = (\<lambda>w i. w),
      findMaxBatchSize = (\<lambda>w as budget. Some (min 2 (length as))),
      executeInitialActions =
        (\<lambda>rawActions proofs gas w.
           if list_ex (\<lambda>a. Some (index a) = failAt) rawActions then
             ((False, revertData (the failAt)), w)
           else
             ((True, []),
              w\<lparr>status := afterInitial,
                actionsExecuted := actionsExecuted w + length rawActions\<rparr>)),
      memoryAfter = (\<lambda>w result. be_bytes 32 3),
      setStorage =
        (\<lambda>rawActions proofs gas w.
           Some (w\<lparr>status := SET_STORAGE_ACTIONS_EXECUTED,
                   actionsExecuted := actionsExecuted w + length rawActions\<rparr>)),
      initiateUpgrade = (\<lambda>tgts proofs gas w. Some (w\<lparr>status := PROXIES_INITIATED\<rparr>)),
      finalizeUpgrade = (\<lambda>tgts proofs gas w. Some (w\<lparr>status := COMPLETED\<rparr>)),
      claimDeployment = (\<lambda>gas w. Some w),
      authThreshold = (\<lambda>w. 1),
      authStatesLeafsExecuted = (\<lambda>w r. 1),
      authCall =
        (\<lambda>kind gas r lf sigs pf w.
           Some (if kind = APPROVE_DEPLOYMENT then w\<lparr>status := APPROVED\<rparr> else w)),
      hasRole = (\<lambda>w r a. True),
      authFactoryAuths = (\<lambda>w s. 1),
      authFactoryDeploy = (\<lambda>gas d n w. Some w),
      authFactoryDeployFFI = (\<lambda>d n u w. Some w),
      readCallersMsgSender = (\<lambda>w. 7),
      blockGaslimit = (\<lambda>w. 30000000),
      vmStore = (\<lambda>a k v w. w),
      vmTryFfi = (\<lambda>inputs w. ((0, []), w)),
      vmToStringAddress = (\<lambda>a. []),
      vmToStringBytes32 = (\<lambda>b. []),
      sortAddresses = (\<lambda>as. as),
      encodeAuthData = (\<lambda>as t. []),
      authSaltOf = (\<lambda>d n. 0),
      proposerRole = 2,
      getDeploymentId = (\<lambda>a t u. 1),
      getSphinxAuthAddress = (\<lambda>c. 3),
      getSphinxWalletsSortedByAddress = (\<lambda>n. replicate n \<lparr>addr = 5, privateKey = 6\<rparr>),
      signMetaTxnForAuthRoot = (\<lambda>k r. []),
      authAccessControlRoleSlotKey = 0,
      getMappingValueSlotKey = (\<lambda>a b. 0)\<rparr>"

text \<open>
  The return data of a revert with \<^verbatim>\<open>Error("boom")\<close>: the selector of
  \<^verbatim>\<open>Error(string)\<close>, the offset 32 of the string, its length 4 and its bytes, padded.
  On \<open>stringRevertChain\<close> every batch of initial actions reverts with it.
\<close>

definition errorStringData :: bytes where
  "errorStringData =
     [0x08, 0xc3, 0x79, 0xa0] @ be_bytes 32 32 @ be_bytes 32 4
     @ [0x62, 0x6f, 0x6f, 0x6d] @ replicate 28 0"

definition stringRevertChain :: "DeploymentState chain" where
  "stringRevertChain =
     (demoChain None INITIAL_ACTIONS_EXECUTED)
       \<lparr>executeInitialActions := (\<lambda>rawActions proofs gas w. ((False, errorStringData), w))\<rparr>"

definition demoAction :: "SphinxActionType \<Rightarrow> nat \<Rightarrow> BundledSphinxAction" where
  "demoAction t i = \<lparr>action = \<lparr>actionType = t, index = i, data = []\<rparr>, siblings = []\<rparr>"

definition demoLeaf :: "AuthLeafType \<Rightarrow> nat \<Rightarrow> BundledAuthLeaf" where
  "demoLeaf t i = \<lparr>leaf = \<lparr>leafIndex = i, leafData = []\<rparr>, leafTypeEnum = t, leafProof = []\<rparr>"

definition demoBundle :: BundleInfo where
  "demoBundle =
     \<lparr>networkName = ''anvil'',
      configUri = ''ipfs://demo'',
      authLeafs = [demoLeaf SETUP 0, demoLeaf PROPOSE 1, demoLeaf APPROVE_DEPLOYMENT 2],
      actionBundle =
        \<lparr>bundleRoot = 0,
         actions = [demoAction DEPLOY_CONTRACT 0, demoAction CALL 1, demoAction CALL 2,
                    demoAction SET_STORAGE 3]\<rparr>,
      targetBundle = \<lparr>targetRoot = 0, targets = []\<rparr>,
      humanReadableActions =
        [\<lparr>reason = ''deploy A'', actionIndex = 0\<rparr>, \<lparr>reason = ''A.init()'', actionIndex = 1\<rparr>,
         \<lparr>reason = ''A.set(7)'', actionIndex = 2\<rparr>, \<lparr>reason = ''slot 0'', actionIndex = 3\<rparr>]\<rparr>"

definition plainBundle :: BundleInfo where
  "plainBundle =
     demoBundle\<lparr>actionBundle :=
       \<lparr>bundleRoot = 0,
        actions = [demoAction DEPLOY_CONTRACT 0, demoAction CALL 1, demoAction CALL 2]\<rparr>\<rparr>"

definition demoConfig :: SphinxConfig where
  "demoConfig = \<lparr>owners = [9], threshold = 1, projectName = ''demo''\<rparr>"

definition approvedWorld :: DeploymentState where
  "approvedWorld = \<lparr>status = APPROVED, actionsExecuted = 0\<rparr>"

definition emptyWorld :: DeploymentState where
  "emptyWorld = \<lparr>status = EMPTY, actionsExecuted = 0\<rparr>"

text \<open>The events of three runs of \<^verbatim>\<open>sphinxExecuteDeployment\<close> on the small chain.\<close>

definition firstBatchEvents :: "event list" where
  "firstBatchEvents =
     [E_findMaxBatchSize
        [demoAction DEPLOY_CONTRACT 0, demoAction CALL 1, demoAction CALL 2] 14400000,
      E_executeInitialActions
        [action (demoAction DEPLOY_CONTRACT 0), action (demoAction CALL 1)]
        [siblings (demoAction DEPLOY_CONTRACT 0), siblings (demoAction CALL 1)]
        18000000 True [],
      E_findMaxBatchSize [demoAction CALL 2] 14400000]"

definition plainRunEvents :: "event list" where
  "plainRunEvents =
     firstBatchEvents
     @ [E_executeInitialActions [action (demoAction CALL 2)] [siblings (demoAction CALL 2)]
          18000000 True []]"

definition upgradeRunEvents :: "event list" where
  "upgradeRunEvents =
     plainRunEvents
     @ [E_initiateUpgrade [] [] 1000000,
        E_findMaxBatchSize [demoAction SET_STORAGE 3] 14400000,
        E_setStorage [action (demoAction SET_STORAGE 3)] [siblings (demoAction SET_STORAGE 3)]
          18000000,
        E_finalizeUpgrade [] [] 1000000]"

definition failingCall :: event where
  "failingCall =
     E_executeInitialActions [action (demoAction CALL 2)] [siblings (demoAction CALL 2)]
       18000000 False (revertData 2)"

definition failedRunEvents :: "event list" where
  "failedRunEvents = firstBatchEvents @ [failingCall]"

definition stringRevertCall :: event where
  "stringRevertCall =
     E_executeInitialActions
       [action (demoAction DEPLOY_CONTRACT 0), action (demoAction CALL 1)]
       [siblings (demoAction DEPLOY_CONTRACT 0), siblings (demoAction CALL 1)]
       18000000 False errorStringData"

definition stringRevertEvents :: "event list" where
  "stringRevertEvents =
     [E_findMaxBatchSize
        [demoAction DEPLOY_CONTRACT 0, demoAction CALL 1, demoAction CALL 2] 14400000,
      stringRevertCall]"

definition approvalEvents :: "event list" where
  "approvalEvents =
     [E_authCall PROPOSE 1000000 0 (leaf (demoLeaf PROPOSE 1)) [[]] [],
      E_authCall APPROVE_DEPLOYMENT 1000000 0 (leaf (demoLeaf APPROVE_DEPLOYMENT 2)) [[]] []]"

section \<open>Facts about the observations\<close>

lemma evs_tuple [simp]: "evs (r, w, es) = es"
  by (simp add: evs_def)

lemma outcomeOf_tuple [simp]: "outcomeOf (r, w, es) = r"
  by (simp add: outcomeOf_def)

lemma worldOf_tuple [simp]: "worldOf (r, w, es) = w"
  by (simp add: worldOf_def)

lemma rollback_simps [simp]:
  "rollback w (Returned x, w', es) = (Returned x, w', es)"
  "rollback w (Reverted s, w', es) = (Reverted s, w, es)"
  "rollback w (OutOfFuel, w', es) = (OutOfFuel, w', es)"
  by (simp_all add: rollback_def)

lemma evs_rollback [simp]: "evs (rollback w run) = evs run"
  by (cases run; cases "fst run") (auto simp: rollback_def evs_def)

lemma outcomeOf_rollback [simp]: "outcomeOf (rollback w run) = outcomeOf run"
  by (cases run; cases "fst run") (auto simp: rollback_def outcomeOf_def)

lemma rollback_eq:
  "rollback w run = (r, w', es) \<Longrightarrow>
   \<exists>w''. run = (r, w'', es) \<and> w' = (case r of Reverted s \<Rightarrow> w | _ \<Rightarrow> w'')"
  by (cases run; cases "fst run") (auto simp: rollback_def)

lemma rollback_Returned:
  "rollback w run = (Returned x, w', es) \<longleftrightarrow> run = (Returned x, w', es)"
  by (cases run; cases "fst run") (auto simp: rollback_def)

lemma budgetsPassed_simps [simp]:
  "budgetsPassed [] = []"
  "budgetsPassed (e # es) = budgetOf e @ budgetsPassed es"
  "budgetsPassed (es @ es') = budgetsPassed es @ budgetsPassed es'"
  by (simp_all add: budgetsPassed_def)

lemma submittedActions_simps [simp]:
  "submittedActions [] = []"
  "submittedActions (e # es) = submittedOf e @ submittedActions es"
  "submittedActions (es @ es') = submittedActions es @ submittedActions es'"
  by (simp_all add: submittedActions_def)

lemma submittedInitial_simps [simp]:
  "submittedInitial [] = []"
  "submittedInitial (e # es) = initialOf e @ submittedInitial es"
  "submittedInitial (es @ es') = submittedInitial es @ submittedInitial es'"
  by (simp_all add: submittedInitial_def)

lemma submittedStorage_simps [simp]:
  "submittedStorage [] = []"
  "submittedStorage (e # es) = storageOf e @ submittedStorage es"
  "submittedStorage (es @ es') = submittedStorage es @ submittedStorage es'"
  by (simp_all add: submittedStorage_def)

lemma submittedLeafs_simps [simp]:
  "submittedLeafs [] = []"
  "submittedLeafs (e # es) = leafOf e @ submittedLeafs es"
  "submittedLeafs (es @ es') = submittedLeafs es @ submittedLeafs es'"
  by (simp_all add: submittedLeafs_def)

lemma phases_simps [simp]:
  "phases [] = []"
  "phases (e # es) = phaseOf e @ phases es"
  "phases (es @ es') = phases es @ phases es'"
  by (simp_all add: phases_def)

section \<open>Facts about the helpers\<close>

lemma inefficientSlice_Some:
  "inefficientSlice xs s e = Some ys \<longleftrightarrow>
   s \<le> e \<and> e \<le> length xs \<and> ys = take (e - s) (drop s xs)"
  by (auto simp: inefficientSlice_def)

lemma disassembleActions_fst:
  "disassembleActions b = (rawA, prfs) \<Longrightarrow> rawA = map action b"
  by (auto simp: disassembleActions_def)

lemma checked_add_Some: "checked_add a b = Some c \<Longrightarrow> c = a + b"
  by (auto simp: checked_add_def split: if_splits)

lemma prefix_take_drop:
  assumes "prefix ys (drop (s + n) xs)"
  shows "prefix (take n (drop s xs) @ ys) (drop s xs)"
proof -
  have a: "take n (drop s xs) @ drop n (drop s xs) = drop s xs"
    by (rule append_take_drop_id)
  have b: "drop n (drop s xs) = drop (s + n) xs"
    by (simp add: add.commute)
  have "prefix (take n (drop s xs) @ ys) (take n (drop s xs) @ drop n (drop s xs))"
    using assms unfolding b by simp
  then show ?thesis unfolding a .
qed

lemma prefix_batch:
  assumes "prefix ys (map f (drop (s + n) xs))"
  shows "prefix (map f (take n (drop s xs)) @ ys) (map f (drop s xs))"
proof -
  have "prefix ys (drop (s + n) (map f xs))"
    using assms by (simp add: drop_map)
  then have "prefix (take n (drop s (map f xs)) @ ys) (drop s (map f xs))"
    by (rule prefix_take_drop)
  then show ?thesis by (simp add: drop_map take_map)
qed

lemma prefix_batch_last: "prefix (map f (take n (drop s xs))) (map f (drop s xs))"
  using prefix_batch [of "[]" f s n xs] by simp

lemma map_batch_rest:
  "map f (take n (drop s xs)) @ map f (drop (s + n) xs) = map f (drop s xs)"
proof -
  have a: "drop n (drop s xs) = drop (s + n) xs"
    by (simp add: add.commute)
  have "map f (take n (drop s xs)) @ map f (drop n (drop s xs)) =
        map f (take n (drop s xs) @ drop n (drop s xs))"
    by (rule map_append [symmetric])
  also have "\<dots> = map f (drop s xs)"
    by (simp only: append_take_drop_id)
  finally show ?thesis unfolding a .
qed

section \<open>The batch loop\<close>

lemma submitBatch_budgets:
  "submitBatch C isSet g rawA prfs w = (x, w', es) \<Longrightarrow> budgetsPassed es = []"
  by (auto simp: submitBatch_def split: if_splits option.splits prod.splits)

lemma submitBatch_submitted:
  "submitBatch C isSet g rawA prfs w = (x, w', es) \<Longrightarrow> submittedActions es = rawA"
  by (auto simp: submitBatch_def split: if_splits option.splits prod.splits)

lemma batchLoop_budgets:
  "batchLoop C fuel isSet g adi fa ex st w = (r, w', es) \<Longrightarrow>
   b \<in> set (budgetsPassed es) \<Longrightarrow> batchGasBudget g = Some b"
proof (induction fuel arbitrary: ex st w r w' es)
  case 0
  then show ?case by (auto split: if_splits)
next
  case (Suc fuel)
  then show ?case
    by (auto split: if_splits option.splits prod.splits simp: Let_def submitBatch_budgets
             dest!: rollback_eq)
qed

lemma batchLoop_prefix:
  "batchLoop C fuel isSet g adi fa ex st w = (r, w', es) \<Longrightarrow>
   prefix (submittedActions es) (map action (drop ex fa))"
proof (induction fuel arbitrary: ex st w r w' es)
  case 0
  then show ?case by (auto split: if_splits)
next
  case (Suc fuel)
  then show ?case
    by (auto split: if_splits option.splits prod.splits
             simp: Let_def submitBatch_submitted inefficientSlice_Some prefix_batch_last
             dest!: disassembleActions_fst checked_add_Some rollback_eq
             intro!: prefix_batch)
qed

lemma batchLoop_complete:
  "batchLoop C fuel isSet g adi fa ex st w = (Returned (s, i), w', es) \<Longrightarrow> s \<noteq> FAILED \<Longrightarrow>
   submittedActions es = map action (drop ex fa)"
proof (induction fuel arbitrary: ex st w w' es)
  case 0
  then show ?case by (auto split: if_splits)
next
  case (Suc fuel)
  then show ?case
    by (auto split: if_splits option.splits prod.splits
             simp: Let_def submitBatch_submitted inefficientSlice_Some submitBatch_def
                   map_batch_rest
             dest!: disassembleActions_fst checked_add_Some rollback_eq)
qed


lemma batchLoop_kinds:
  "batchLoop C fuel isSet g adi fa ex st w = (r, w', es) \<Longrightarrow> e \<in> set es \<Longrightarrow>
   (\<exists>as b. e = E_findMaxBatchSize as b) \<or>
   (isSet \<and> (\<exists>ra ps. e = E_setStorage ra ps g)) \<or>
   (\<not> isSet \<and> (\<exists>ra ps s rs. e = E_executeInitialActions ra ps g s rs))"
proof (induction fuel arbitrary: ex st w r w' es)
  case 0
  then show ?case by (auto split: if_splits)
next
  case (Suc fuel)
  then show ?case
    by (auto split: if_splits option.splits prod.splits simp: Let_def submitBatch_def
             dest!: rollback_eq)
qed

section \<open>sphinxExecuteBatchActions\<close>

lemma sphinxExecuteBatchActions_cases:
  "sphinxExecuteBatchActions C fuel ba isSet g w =
     (let st = deployments C w (activeDeploymentId C w);
          fa = removeExecutedActions ba (actionsExecuted st)
      in if fa = [] then (Returned (status st, 0), w, [])
         else rollback w (batchLoop C fuel isSet g (activeDeploymentId C w) fa 0 st w))"
  by (simp add: sphinxExecuteBatchActions_def Let_def)

lemma sphinxExecuteBatchActions_prefix:
  "sphinxExecuteBatchActions C fuel ba isSet g w = (r, w', es) \<Longrightarrow>
   prefix (submittedActions es)
     (map action (removeExecutedActions ba
        (actionsExecuted (deployments C w (activeDeploymentId C w)))))"
  using batchLoop_prefix [of C fuel isSet g "activeDeploymentId C w" _ 0 _ w r _ es]
  by (auto simp: sphinxExecuteBatchActions_cases Let_def split: if_splits dest!: rollback_eq)

lemma sphinxExecuteBatchActions_complete:
  "sphinxExecuteBatchActions C fuel ba isSet g w = (Returned (s, i), w', es) \<Longrightarrow>
   s \<noteq> FAILED \<Longrightarrow>
   submittedActions es =
     map action (removeExecutedActions ba
        (actionsExecuted (deployments C w (activeDeploymentId C w))))"
  using batchLoop_complete [of C fuel isSet g "activeDeploymentId C w" _ 0 _ w s i _ es]
  by (auto simp: sphinxExecuteBatchActions_cases Let_def split: if_splits dest!: rollback_eq)

lemma sphinxExecuteBatchActions_budgets:
  "sphinxExecuteBatchActions C fuel ba isSet g w = (r, w', es) \<Longrightarrow>
   b \<in> set (budgetsPassed es) \<Longrightarrow> batchGasBudget g = Some b"
  using batchLoop_budgets [of C fuel isSet g "activeDeploymentId C w" _ 0 _ w r _ es b]
  by (auto simp: sphinxExecuteBatchActions_cases Let_def split: if_splits dest!: rollback_eq)


lemma sphinxExecuteBatchActions_kinds:
  "sphinxExecuteBatchActions C fuel ba isSet g w = (r, w', es) \<Longrightarrow> e \<in> set es \<Longrightarrow>
   (\<exists>as b. e = E_findMaxBatchSize as b) \<or>
   (isSet \<and> (\<exists>ra ps. e = E_setStorage ra ps g)) \<or>
   (\<not> isSet \<and> (\<exists>ra ps s rs. e = E_executeInitialActions ra ps g s rs))"
  using batchLoop_kinds [of C fuel isSet g "activeDeploymentId C w" _ 0 _ w r _ es e]
  by (auto simp: sphinxExecuteBatchActions_cases Let_def split: if_splits dest!: rollback_eq)

section \<open>Concrete runs on the small chain\<close>

lemma demoChain_sel:
  "activeDeploymentId (demoChain f a) w = 1"
  "deployments (demoChain f a) w i = w"
  "findMaxBatchSize (demoChain f a) w as budget = Some (min 2 (length as))"
  "executeInitialActions (demoChain f a) rawA prfs gas w =
     (if list_ex (\<lambda>x. Some (index x) = f) rawA then ((False, revertData (the f)), w)
      else ((True, []), w\<lparr>status := a, actionsExecuted := actionsExecuted w + length rawA\<rparr>))"
  "memoryAfter (demoChain f a) w result = be_bytes 32 3"
  "setStorage (demoChain f a) rawA prfs gas w =
     Some (w\<lparr>status := SET_STORAGE_ACTIONS_EXECUTED,
             actionsExecuted := actionsExecuted w + length rawA\<rparr>)"
  "initiateUpgrade (demoChain f a) tgts prfs gas w = Some (w\<lparr>status := PROXIES_INITIATED\<rparr>)"
  "finalizeUpgrade (demoChain f a) tgts prfs gas w = Some (w\<lparr>status := COMPLETED\<rparr>)"
  "claimDeployment (demoChain f a) gas w = Some w"
  "authThreshold (demoChain f a) w = 1"
  "authStatesLeafsExecuted (demoChain f a) w r = 1"
  "authCall (demoChain f a) kind gas r lf sigs pf w =
     Some (if kind = APPROVE_DEPLOYMENT then w\<lparr>status := APPROVED\<rparr> else w)"
  "hasRole (demoChain f a) w r ad = True"
  "authFactoryAuths (demoChain f a) w s = 1"
  "readCallersMsgSender (demoChain f a) w = 7"
  "blockGaslimit (demoChain f a) w = 30000000"
  "sortAddresses (demoChain f a) ads = ads"
  "encodeAuthData (demoChain f a) ads t = []"
  "authSaltOf (demoChain f a) d nm = 0"
  "proposerRole (demoChain f a) = 2"
  "getDeploymentId (demoChain f a) ab tb u = 1"
  "getSphinxAuthAddress (demoChain f a) c = 3"
  "getSphinxWalletsSortedByAddress (demoChain f a) n = replicate n \<lparr>addr = 5, privateKey = 6\<rparr>"
  "signMetaTxnForAuthRoot (demoChain f a) k r = []"
  by (simp_all add: demoChain_def)

lemma demoAction_sel:
  "index (action (demoAction t i)) = i"
  "actionType (action (demoAction t i)) = t"
  by (simp_all add: demoAction_def)

lemma demoLeaf_sel:
  "leafIndex (leaf (demoLeaf t i)) = i"
  "leafTypeEnum (demoLeaf t i) = t"
  "leafProof (demoLeaf t i) = []"
  by (simp_all add: demoLeaf_def)

lemma demoBundle_sel:
  "actions (actionBundle demoBundle) =
     [demoAction DEPLOY_CONTRACT 0, demoAction CALL 1, demoAction CALL 2,
      demoAction SET_STORAGE 3]"
  "targets (targetBundle demoBundle) = []"
  "humanReadableActions demoBundle =
        [\<lparr>reason = ''deploy A'', actionIndex = 0\<rparr>, \<lparr>reason = ''A.init()'', actionIndex = 1\<rparr>,
         \<lparr>reason = ''A.set(7)'', actionIndex = 2\<rparr>, \<lparr>reason = ''slot 0'', actionIndex = 3\<rparr>]"
  "authLeafs demoBundle = [demoLeaf SETUP 0, demoLeaf PROPOSE 1, demoLeaf APPROVE_DEPLOYMENT 2]"
  "networkName demoBundle = ''anvil''"
  "configUri demoBundle = ''ipfs://demo''"
  by (simp_all add: demoBundle_def)

lemma plainBundle_sel:
  "actions (actionBundle plainBundle) =
     [demoAction DEPLOY_CONTRACT 0, demoAction CALL 1, demoAction CALL 2]"
  "targets (targetBundle plainBundle) = []"
  "humanReadableActions plainBundle = humanReadableActions demoBundle"
  "authLeafs plainBundle = authLeafs demoBundle"
  "networkName plainBundle = ''anvil''"
  by (simp_all add: plainBundle_def demoBundle_def)

lemma approvedWorld_sel:
  "status approvedWorld = APPROVED" "actionsExecuted approvedWorld = 0"
  by (simp_all add: approvedWorld_def)

lemma emptyWorld_sel: "status emptyWorld = EMPTY" "actionsExecuted emptyWorld = 0"
  by (simp_all add: emptyWorld_def)

lemma be_nat_snoc: "be_nat (bs @ [b]) = be_nat bs * 256 + unat b"
  by (simp add: be_nat_def)

lemma length_be_bytes [simp]: "length (be_bytes k n) = k"
  by (induction k arbitrary: n) auto

lemma unat_byte: "unat (of_nat (n mod 256) :: 8 word) = n mod 256"
  by (simp add: unat_of_nat)

lemma be_nat_be_bytes: "be_nat (be_bytes k n) = n mod 256 ^ k"
proof (induction k arbitrary: n)
  case 0
  then show ?case by (simp add: be_nat_def)
next
  case (Suc k)
  have "be_nat (be_bytes (Suc k) n) = (n div 256) mod 256 ^ k * 256 + n mod 256"
    by (simp add: be_nat_snoc Suc.IH unat_byte)
  also have "\<dots> = n mod (256 * 256 ^ k)"
    by (simp add: mod_mult2_eq mult.commute)
  finally show ?case by simp
qed

text \<open>
  With return data of at least 36 bytes the index that \<^verbatim>\<open>sphinxExecuteBatchActions\<close>
  reads is the 32-byte word behind the first four bytes, whatever memory holds behind
  the data: the first argument of an ABI-encoded error.
\<close>

lemma failureIndex_long:
  assumes "36 \<le> length result"
  shows "failureIndex result behind = be_nat (take 32 (drop 4 result))"
proof -
  from assms have "take 32 (drop 4 (result @ behind) @ replicate 32 0) = take 32 (drop 4 result)"
    by simp
  then show ?thesis by (simp only: failureIndex_def)
qed

lemma failureIndex_decodes:
  assumes "length selector = 4"
  shows "failureIndex (selector @ be_bytes 32 n @ rest) behind = n mod 2 ^ 256"
proof -
  have "take 32 (drop 4 ((selector @ be_bytes 32 n @ rest) @ behind) @ replicate 32 0)
          = be_bytes 32 n"
    using assms by simp
  then have "failureIndex (selector @ be_bytes 32 n @ rest) behind = n mod 256 ^ 32"
    by (simp only: failureIndex_def be_nat_be_bytes)
  also have "(256::nat) ^ 32 = 2 ^ 256"
    by simp
  finally show ?thesis .
qed

lemma failureIndex_revertData: "failureIndex (revertData 2) behind = 2"
proof -
  have "failureIndex ([0xde, 0xad, 0xbe, 0xef] @ be_bytes 32 2 @ []) behind = 2 mod 2 ^ 256"
    by (rule failureIndex_decodes) simp
  then show ?thesis by (simp add: revertData_def)
qed

lemma failureIndex_errorStringData: "failureIndex errorStringData behind = 32"
proof -
  have "failureIndex ([0x08, 0xc3, 0x79, 0xa0] @ be_bytes 32 32
          @ (be_bytes 32 4 @ [0x62, 0x6f, 0x6f, 0x6d] @ replicate 28 0)) behind = 32 mod 2 ^ 256"
    by (rule failureIndex_decodes) simp
  then show ?thesis by (simp add: errorStringData_def)
qed

lemma length_revertData [simp]: "length (revertData k) = 36"
  by (simp add: revertData_def)

lemma length_errorStringData [simp]: "length errorStringData = 100"
  by (simp add: errorStringData_def)


lemma revertWord_errorStringData: "be_nat (take 32 (drop 4 errorStringData)) = 32"
  using failureIndex_long [of errorStringData "[]"] failureIndex_errorStringData [of "[]"]
  by simp

lemma stringRevertChain_sel:
  "executeInitialActions stringRevertChain rawA prfs gas w = ((False, errorStringData), w)"
  "activeDeploymentId stringRevertChain w = 1"
  "deployments stringRevertChain w i = w"
  "findMaxBatchSize stringRevertChain w as budget = Some (min 2 (length as))"
  "memoryAfter stringRevertChain w result = be_bytes 32 3"
  "hasRole stringRevertChain w r ad = True"
  "authFactoryAuths stringRevertChain w s = 1"
  "readCallersMsgSender stringRevertChain w = 7"
  "blockGaslimit stringRevertChain w = 30000000"
  "sortAddresses stringRevertChain ads = ads"
  "encodeAuthData stringRevertChain ads t = []"
  "authSaltOf stringRevertChain d nm = 0"
  "getDeploymentId stringRevertChain ab tb u = 1"
  by (simp_all add: stringRevertChain_def demoChain_sel)

lemmas eval_defs = inefficientSlice_def batchGasBudget_def checked_mul_def checked_sub_def
  checked_add_def MAX_UINT256_def disassembleActions_def submitBatch_def
  sphinxExecuteBatchActions_def removeExecutedActions_def bufferedGasLimitOf_def
  splitActions_def upgradePhases_def sphinxExecuteDeployment_def

lemmas deploy_defs = sphinxDeployOnNetwork_def sphinxRegisterProject_def approvalPhase_def
  executionPhase_def ownerSignatures_def executeLeaf_def authTx_def tx_def andThen_def ret_def
  emit_def sphinxGrantRoleInAuthContract_def

lemmas demo_sels = demoChain_sel demoAction_sel demoLeaf_sel demoBundle_sel plainBundle_sel
  approvedWorld_sel emptyWorld_sel failureIndex_revertData stringRevertChain_sel
  failureIndex_errorStringData

lemmas demo_events = firstBatchEvents_def plainRunEvents_def upgradeRunEvents_def
  failedRunEvents_def failingCall_def approvalEvents_def stringRevertEvents_def
  stringRevertCall_def

lemma demo_plain_run:
  "sphinxExecuteDeployment (demoChain None COMPLETED) (Suc (Suc (Suc 0))) plainBundle 30000000
     approvedWorld =
   (Returned (True, emptyAction), approvedWorld\<lparr>status := COMPLETED, actionsExecuted := 3\<rparr>,
    plainRunEvents)"
  by (simp add: demo_sels eval_defs demo_events)

lemma demo_upgrade_run:
  "sphinxExecuteDeployment (demoChain None INITIAL_ACTIONS_EXECUTED) (Suc (Suc (Suc 0)))
     demoBundle 30000000 approvedWorld =
   (Returned (True, emptyAction), approvedWorld\<lparr>status := COMPLETED, actionsExecuted := 4\<rparr>,
    upgradeRunEvents)"
  by (simp add: demo_sels eval_defs demo_events)


lemma demo_events_budgets:
  "budgetsPassed plainRunEvents = [14400000, 14400000]"
  "budgetsPassed upgradeRunEvents = [14400000, 14400000, 14400000]"
  by (simp_all add: demo_events)

lemma demo_events_phases:
  "phases plainRunEvents = [1, 1]"
  "phases upgradeRunEvents = [1, 1, 2, 3, 4]"
  "phases failedRunEvents = [1, 1]"
  by (simp_all add: demo_events)

section \<open>The gas budget of the batch-size search\<close>

lemma upgradePhases_budgets:
  "upgradePhases C fuel bi ssa g w = (r, w', es) \<Longrightarrow>
   b \<in> set (budgetsPassed es) \<Longrightarrow> batchGasBudget g = Some b"
  by (auto simp: upgradePhases_def Let_def
           split: option.splits prod.splits outcome.splits
           dest: sphinxExecuteBatchActions_budgets)

lemma sphinxExecuteDeployment_budgets:
  "sphinxExecuteDeployment C fuel bi bgl w = (r, w', es) \<Longrightarrow>
   b \<in> set (budgetsPassed es) \<Longrightarrow>
   \<exists>g. bufferedGasLimitOf bgl = Some g \<and> batchGasBudget g = Some b"
  by (auto simp: sphinxExecuteDeployment_def Let_def
           split: option.splits prod.splits outcome.splits if_splits
           dest!: rollback_eq
           dest: sphinxExecuteBatchActions_budgets upgradePhases_budgets)

lemma budget_bound:
  fixes bgl :: nat
  defines "g \<equiv> (bgl div 2 * 120) div 100"
  shows "100 * (g - (g * 20) div 100) \<le> 48 * bgl + 100"
proof -
  have a: "2 * (bgl div 2) \<le> bgl" by simp
  have b: "100 * g \<le> bgl div 2 * 120"
    unfolding g_def by (simp add: mult.commute)
  have "g * 20 = 100 * ((g * 20) div 100) + (g * 20) mod 100"
    by (rule mult_div_mod_eq [symmetric])
  moreover have "(g * 20) mod 100 < 100" by simp
  ultimately have c: "g * 20 < 100 * ((g * 20) div 100) + 100" by linarith
  from a b c show ?thesis by linarith
qed

lemma budget_arith:
  assumes "bufferedGasLimitOf bgl = Some g" and "batchGasBudget g = Some b"
  shows "(bgl div 2) * 120 \<le> MAX_UINT256 \<and> g = ((bgl div 2) * 120) div 100 \<and>
         b = g - (g * 20) div 100"
  using assms
  by (auto simp: bufferedGasLimitOf_def batchGasBudget_def checked_mul_def checked_sub_def
           split: option.splits if_splits)

text \<open>
  Claim C2, as amended. Every gas budget that a run of \<^verbatim>\<open>sphinxExecuteDeployment\<close>
  passes to \<^verbatim>\<open>findMaxBatchSize\<close> equals
  \<^verbatim>\<open>bufferedGasLimit - (bufferedGasLimit * 20) / 100\<close> with
  \<^verbatim>\<open>bufferedGasLimit = ((blockGasLimit / 2) * 120) / 100\<close> in integer arithmetic, and
  the call is only made when the checked product does not overflow. The budget is 20%
  below the buffered gas limit, which is 60% of the raw block gas limit: it is at most
  48% of the raw block gas limit (up to rounding), not 80% of it.
\<close>

theorem findMaxBatchSize_budget:
  assumes "b \<in> set (budgetsPassed (evs (sphinxExecuteDeployment C fuel bundleInfo blockGasLimit w)))"
  shows "(blockGasLimit div 2) * 120 \<le> MAX_UINT256 \<and>
         (let bufferedGasLimit = ((blockGasLimit div 2) * 120) div 100
          in b = bufferedGasLimit - (bufferedGasLimit * 20) div 100) \<and>
         100 * b \<le> 48 * blockGasLimit + 100"
proof -
  obtain r w' es where run: "sphinxExecuteDeployment C fuel bundleInfo blockGasLimit w = (r, w', es)"
    by (cases "sphinxExecuteDeployment C fuel bundleInfo blockGasLimit w") auto
  with assms have mem: "b \<in> set (budgetsPassed es)" by simp
  from sphinxExecuteDeployment_budgets [OF run mem]
  obtain g where g: "bufferedGasLimitOf blockGasLimit = Some g" "batchGasBudget g = Some b"
    by blast
  from budget_arith [OF g]
  have a: "(blockGasLimit div 2) * 120 \<le> MAX_UINT256"
    and b: "b = ((blockGasLimit div 2) * 120) div 100
                - (((blockGasLimit div 2) * 120) div 100 * 20) div 100"
    by auto
  from b budget_bound [of blockGasLimit] have "100 * b \<le> 48 * blockGasLimit + 100" by simp
  with a b show ?thesis by (simp add: Let_def)
qed

text \<open>
  Claim C2 as stated fails: with a block gas limit of 30,000,000 the budget passed is
  14,400,000, which is not the raw limit less 20% of headroom (24,000,000), and not
  even the raw limit less 50%.
\<close>

theorem findMaxBatchSize_budget_counterexample:
  "14400000 \<in> set (budgetsPassed (evs (sphinxExecuteDeployment (demoChain None INITIAL_ACTIONS_EXECUTED)
       (Suc (Suc (Suc 0))) demoBundle 30000000 approvedWorld))) \<and>
   \<not> withinHeadroom 20 30000000 14400000 \<and> \<not> withinHeadroom 50 30000000 14400000"
  by (simp add: demo_upgrade_run demo_events_budgets withinHeadroom_def)

text \<open>
  A run on the small chain with a block gas limit of 30,000,000: the budget passed is
  14,400,000.
\<close>

theorem findMaxBatchSize_budget_witness:
  "14400000 \<in> set (budgetsPassed (evs (sphinxExecuteDeployment (demoChain None INITIAL_ACTIONS_EXECUTED)
       (Suc (Suc (Suc 0))) demoBundle 30000000 approvedWorld))) \<and>
   ((30000000 div 2) * 120 \<le> MAX_UINT256 \<and>
    (let bufferedGasLimit = ((30000000 div 2) * 120) div 100
     in (14400000::nat) = bufferedGasLimit - (bufferedGasLimit * 20) div 100) \<and>
    100 * 14400000 \<le> 48 * 30000000 + (100::nat))"
proof -
  have h: "14400000 \<in> set (budgetsPassed (evs (sphinxExecuteDeployment
       (demoChain None INITIAL_ACTIONS_EXECUTED) (Suc (Suc (Suc 0))) demoBundle 30000000 approvedWorld)))"
    by (simp add: demo_upgrade_run demo_events_budgets)
  from h findMaxBatchSize_budget [OF h] show ?thesis by (rule conjI)
qed

section \<open>The phases of sphinxExecuteDeployment\<close>

lemma batch_initial_events:
  assumes "sphinxExecuteBatchActions C fuel ba False g w = (r, w', es)"
  shows "submittedInitial es = submittedActions es" and "submittedStorage es = []"
    and "set (phases es) \<subseteq> {1}"
proof -
  have k: "\<And>e. e \<in> set es \<Longrightarrow>
      (\<exists>as b. e = E_findMaxBatchSize as b) \<or> (\<exists>ra ps s rs. e = E_executeInitialActions ra ps g s rs)"
    using sphinxExecuteBatchActions_kinds [OF assms] by blast
  have "map initialOf es = map submittedOf es"
  proof (rule map_cong [OF refl])
    fix x assume "x \<in> set es"
    from k [OF this] show "initialOf x = submittedOf x" by auto
  qed
  then show "submittedInitial es = submittedActions es"
    unfolding submittedInitial_def submittedActions_def by (rule arg_cong)
  have "\<And>e. e \<in> set es \<Longrightarrow> storageOf e = []"
    using k by fastforce
  then show "submittedStorage es = []"
    by (simp add: submittedStorage_def)
  have "\<And>e. e \<in> set es \<Longrightarrow> set (phaseOf e) \<subseteq> {1}"
    using k by fastforce
  then show "set (phases es) \<subseteq> {1}"
    by (auto simp: phases_def)
qed

lemma batch_storage_events:
  assumes "sphinxExecuteBatchActions C fuel ba True g w = (r, w', es)"
  shows "submittedStorage es = submittedActions es" and "submittedInitial es = []"
    and "set (phases es) \<subseteq> {3}"
proof -
  have k: "\<And>e. e \<in> set es \<Longrightarrow>
      (\<exists>as b. e = E_findMaxBatchSize as b) \<or> (\<exists>ra ps. e = E_setStorage ra ps g)"
    using sphinxExecuteBatchActions_kinds [OF assms] by blast
  have "map storageOf es = map submittedOf es"
  proof (rule map_cong [OF refl])
    fix x assume "x \<in> set es"
    from k [OF this] show "storageOf x = submittedOf x" by auto
  qed
  then show "submittedStorage es = submittedActions es"
    unfolding submittedStorage_def submittedActions_def by (rule arg_cong)
  have "\<And>e. e \<in> set es \<Longrightarrow> initialOf e = []"
    using k by fastforce
  then show "submittedInitial es = []"
    by (simp add: submittedInitial_def)
  have "\<And>e. e \<in> set es \<Longrightarrow> set (phaseOf e) \<subseteq> {3}"
    using k by fastforce
  then show "set (phases es) \<subseteq> {3}"
    by (auto simp: phases_def)
qed

lemma sorted_constant: "set ps \<subseteq> {k::nat} \<Longrightarrow> sorted ps"
  by (induction ps) auto

lemma sorted_phase3: "set ps \<subseteq> {3::nat} \<Longrightarrow> sorted (2 # ps @ [4]) \<and> sorted (2 # ps)"
  by (auto simp: sorted_append sorted_constant)

lemma count_phase3:
  "set ps \<subseteq> {3::nat} \<Longrightarrow> count_list ps 2 = 0 \<and> count_list ps 4 = 0"
  by (induction ps) auto

lemma upgradePhases_events:
  assumes "upgradePhases C fuel bi ssa g w = (r, w', es)"
  shows "sorted (phases es) \<and> set (phases es) \<subseteq> {2, 3, 4} \<and>
         count_list (phases es) 2 = 1 \<and> count_list (phases es) 4 \<le> 1 \<and>
         ((\<exists>a. r = Returned a) \<longrightarrow> count_list (phases es) 4 = 1) \<and>
         submittedInitial es = [] \<and>
         (\<exists>n. prefix (submittedStorage es) (map action (removeExecutedActions ssa n)))"
proof (cases "initiateUpgrade C (map target (targets (targetBundle bi)))
                (map targetSiblings (targets (targetBundle bi))) 1000000 w")
  case None
  with assms show ?thesis by (auto simp: upgradePhases_def Let_def)
next
  case (Some w2)
  obtain r3 w3 es3 where b: "sphinxExecuteBatchActions C fuel ssa True g w2 = (r3, w3, es3)"
    by (cases "sphinxExecuteBatchActions C fuel ssa True g w2") auto
  note ev = batch_storage_events [OF b]
  have p: "prefix (submittedStorage es3)
             (map action (removeExecutedActions ssa
                (actionsExecuted (deployments C w2 (activeDeploymentId C w2)))))"
    using sphinxExecuteBatchActions_prefix [OF b] ev(1) by simp
  have c: "count_list (phases es3) 2 = 0" "count_list (phases es3) 4 = 0"
    using count_phase3 [OF ev(3)] by auto
  have s: "sorted (2 # phases es3 @ [4])" "sorted (2 # phases es3)"
    using sorted_phase3 [OF ev(3)] by auto
  show ?thesis
  proof (cases r3)
    case (Returned x)
    with assms Some b ev p c s show ?thesis
      by (cases "finalizeUpgrade C (map target (targets (targetBundle bi)))
                (map targetSiblings (targets (targetBundle bi))) 1000000 w3")
         (auto simp: upgradePhases_def Let_def)
  next
    case (Reverted x)
    with assms Some b ev p c s show ?thesis
      by (auto simp: upgradePhases_def Let_def)
  next
    case OutOfFuel
    with assms Some b ev p c s show ?thesis
      by (auto simp: upgradePhases_def Let_def)
  qed
qed

lemma sorted_wrt_prefix: "prefix xs ys \<Longrightarrow> sorted_wrt P ys \<Longrightarrow> sorted_wrt P xs"
  by (auto simp: prefix_def sorted_wrt_append)

lemma sorted_submitted:
  assumes "prefix sub (map action (removeExecutedActions (filter Q as) n))"
    and "sorted_wrt (<) (map (\<lambda>a. index (action a)) as)"
  shows "sorted_wrt (<) (map index sub)"
proof -
  have "sorted_wrt (\<lambda>a b. index (action a) < index (action b)) as"
    using assms(2) by (simp add: sorted_wrt_map)
  then have "sorted_wrt (\<lambda>a b. index (action a) < index (action b))
               (removeExecutedActions (filter Q as) n)"
    unfolding removeExecutedActions_def by (intro sorted_wrt_filter)
  then have "sorted_wrt (\<lambda>a b. index a < index b)
               (map action (removeExecutedActions (filter Q as) n))"
    by (simp add: sorted_wrt_map)
  with assms(1) have "sorted_wrt (\<lambda>a b. index a < index b) sub"
    by (rule sorted_wrt_prefix)
  then show ?thesis by (simp add: sorted_wrt_map)
qed

lemma count_phase1:
  "set ps \<subseteq> {1::nat} \<Longrightarrow> count_list ps 2 = 0 \<and> count_list ps 4 = 0 \<and> 2 \<notin> set ps \<and> 4 \<notin> set ps"
  by (induction ps) auto

lemma sorted_phases_append:
  assumes "set ps \<subseteq> {1::nat}" and "sorted qs" and "set qs \<subseteq> {2, 3, 4}"
  shows "sorted (ps @ qs)"
proof -
  have "x \<le> y" if "x \<in> set ps" and "y \<in> set qs" for x y
  proof -
    from that assms have "x = 1" and "y \<in> {2, 3, 4}" by auto
    then show ?thesis by auto
  qed
  moreover have "sorted ps" using assms(1) by (rule sorted_constant)
  ultimately show ?thesis using assms(2) by (simp add: sorted_append)
qed

lemma count_list_pos: "0 < count_list xs x \<longleftrightarrow> x \<in> set xs"
  by (induction xs) auto

lemma phase_order_shape:
  assumes run: "sphinxExecuteDeployment C fuel bundleInfo blockGasLimit w = (r, w', es)"
  shows "sorted (phases es) \<and>
         count_list (phases es) 2 \<le> 1 \<and> count_list (phases es) 4 \<le> count_list (phases es) 2 \<and>
         prefix (submittedInitial es)
           (map action (removeExecutedActions (fst (splitActions (actions (actionBundle bundleInfo))))
              (actionsExecuted (deployments C w (activeDeploymentId C w))))) \<and>
         (\<exists>n. prefix (submittedStorage es)
           (map action (removeExecutedActions
              (snd (splitActions (actions (actionBundle bundleInfo)))) n))) \<and>
         (2 \<in> set (phases es) \<or> (\<exists>a. r = Returned (True, a)) \<longrightarrow>
            submittedInitial es =
              map action (removeExecutedActions
                (fst (splitActions (actions (actionBundle bundleInfo))))
                (actionsExecuted (deployments C w (activeDeploymentId C w))))) \<and>
         ((\<exists>a. r = Returned (True, a)) \<longrightarrow> count_list (phases es) 4 = count_list (phases es) 2) \<and>
         (sorted_wrt (<) (map (\<lambda>a. index (action a)) (actions (actionBundle bundleInfo))) \<longrightarrow>
            sorted_wrt (<) (map index (submittedInitial es)) \<and>
            sorted_wrt (<) (map index (submittedStorage es)))"
proof -
  define ini where "ini = fst (splitActions (actions (actionBundle bundleInfo)))"
  define sto where "sto = snd (splitActions (actions (actionBundle bundleInfo)))"
  define n0 where "n0 = actionsExecuted (deployments C w (activeDeploymentId C w))"
  have split: "splitActions (actions (actionBundle bundleInfo)) = (ini, sto)"
    by (simp add: ini_def sto_def)
  have shape: "sorted (phases es) \<and>
         count_list (phases es) 2 \<le> 1 \<and> count_list (phases es) 4 \<le> count_list (phases es) 2 \<and>
         prefix (submittedInitial es) (map action (removeExecutedActions ini n0)) \<and>
         (\<exists>n. prefix (submittedStorage es) (map action (removeExecutedActions sto n))) \<and>
         (2 \<in> set (phases es) \<or> (\<exists>a. r = Returned (True, a)) \<longrightarrow>
            submittedInitial es = map action (removeExecutedActions ini n0)) \<and>
         ((\<exists>a. r = Returned (True, a)) \<longrightarrow> count_list (phases es) 4 = count_list (phases es) 2)"
  proof (cases "bufferedGasLimitOf blockGasLimit")
    case None
    with run split show ?thesis by (auto simp: sphinxExecuteDeployment_def dest!: rollback_eq)
  next
    case (Some g)
    obtain r1 w1 es1 where b: "sphinxExecuteBatchActions C fuel ini False g w = (r1, w1, es1)"
      by (cases "sphinxExecuteBatchActions C fuel ini False g w") auto
    note ev = batch_initial_events [OF b]
    have p: "prefix (submittedInitial es1) (map action (removeExecutedActions ini n0))"
      using sphinxExecuteBatchActions_prefix [OF b] ev(1) by (simp add: n0_def)
    note c = count_phase1 [OF ev(3)]
    have s: "sorted (phases es1)" using ev(3) by (rule sorted_constant)
    show ?thesis
    proof (cases r1)
      case (Reverted x)
      with run split Some b have "es = es1" "r = Reverted x"
        by (auto simp: sphinxExecuteDeployment_def dest!: rollback_eq)
      with ev p c s show ?thesis by auto
    next
      case OutOfFuel
      with run split Some b have "es = es1" "r = OutOfFuel"
        by (auto simp: sphinxExecuteDeployment_def dest!: rollback_eq)
      with ev p c s show ?thesis by auto
    next
      case (Returned x)
      obtain st idx where x: "x = (st, idx)" by (cases x) auto
      show ?thesis
      proof (cases "st = FAILED")
        case True
        with run split Some b Returned x have "es = es1" "\<forall>a. r \<noteq> Returned (True, a)"
          by (auto simp: sphinxExecuteDeployment_def split: if_splits dest!: rollback_eq)
        with ev p c s show ?thesis by auto
      next
        case False
        have full: "submittedInitial es1 = map action (removeExecutedActions ini n0)"
          using sphinxExecuteBatchActions_complete [OF b [unfolded Returned x] False] ev(1)
          by (simp add: n0_def)
        show ?thesis
        proof (cases "st = COMPLETED")
          case True
          with run split Some b Returned x False have "es = es1"
            by (auto simp: sphinxExecuteDeployment_def dest!: rollback_eq)
          with ev p c s full show ?thesis by auto
        next
          case notc: False
          obtain r2 w2 es2 where u: "upgradePhases C fuel bundleInfo sto g w1 = (r2, w2, es2)"
            by (cases "upgradePhases C fuel bundleInfo sto g w1") auto
          from run split Some b Returned x False notc u
          have e: "es = es1 @ es2" "r = r2"
            by (auto simp: sphinxExecuteDeployment_def dest!: rollback_eq)
          note up = upgradePhases_events [OF u]
          have so: "sorted (phases es1 @ phases es2)"
            using ev(3) up by (intro sorted_phases_append) auto
          from up obtain n where
            pn: "prefix (submittedStorage es2) (map action (removeExecutedActions sto n))"
            by blast
          have "prefix (submittedStorage es) (map action (removeExecutedActions sto n))"
            using pn ev(2) e by simp
          then have ex: "\<exists>n. prefix (submittedStorage es) (map action (removeExecutedActions sto n))"
            by blast
          from e ev c s full up so ex show ?thesis by auto
        qed
      qed
    qed
  qed
  have ord: "sorted_wrt (<) (map (\<lambda>a. index (action a)) (actions (actionBundle bundleInfo))) \<longrightarrow>
            sorted_wrt (<) (map index (submittedInitial es)) \<and>
            sorted_wrt (<) (map index (submittedStorage es))"
  proof
    assume srt: "sorted_wrt (<) (map (\<lambda>a. index (action a)) (actions (actionBundle bundleInfo)))"
    from shape have p1: "prefix (submittedInitial es) (map action (removeExecutedActions ini n0))"
      by blast
    from shape obtain n where
      p2: "prefix (submittedStorage es) (map action (removeExecutedActions sto n))" by blast
    have "sorted_wrt (<) (map index (submittedInitial es))"
      using p1 srt unfolding ini_def splitActions_def fst_conv by (rule sorted_submitted)
    moreover have "sorted_wrt (<) (map index (submittedStorage es))"
      using p2 srt unfolding sto_def splitActions_def snd_conv by (rule sorted_submitted)
    ultimately show "sorted_wrt (<) (map index (submittedInitial es)) \<and>
            sorted_wrt (<) (map index (submittedStorage es))" ..
  qed
  from shape ord show ?thesis unfolding ini_def sto_def n0_def by blast
qed



lemma bufferedGasLimitOf_Some:
  assumes "bufferedGasLimitOf bgl = Some g"
  shows "g = ((bgl div 2) * 120) div 100"
proof -
  from assms obtain p where p: "checked_mul (bgl div 2) 120 = Some p" and g: "g = p div 100"
    by (auto simp: bufferedGasLimitOf_def split: option.splits)
  from p have "p = (bgl div 2) * 120"
    by (simp add: checked_mul_def split: if_splits)
  with g show ?thesis by (simp only:)
qed

lemma bufferedGasLimitOf_None:
  "bufferedGasLimitOf bgl = None \<Longrightarrow> \<not> (bgl div 2) * 120 \<le> MAX_UINT256"
  by (auto simp: bufferedGasLimitOf_def checked_mul_def split: option.splits if_splits)

text \<open>
  The storage phase inside \<^verbatim>\<open>upgradePhases\<close>: what is submitted is what the batches
  of storage actions submit from the world that \<^verbatim>\<open>initiateUpgrade\<close> leaves, and
  \<^verbatim>\<open>finalizeUpgrade\<close> is only called when these batches have returned.
\<close>

lemma upgradePhases_storage:
  assumes run: "upgradePhases C fuel bi ssa g w = (r, w', es)"
  shows "initiateUpgrade C (map target (targets (targetBundle bi)))
           (map targetSiblings (targets (targetBundle bi))) 1000000 w = None \<Longrightarrow>
         submittedStorage es = [] \<and> 4 \<notin> set (phases es)"
    and "initiateUpgrade C (map target (targets (targetBundle bi)))
           (map targetSiblings (targets (targetBundle bi))) 1000000 w = Some w2 \<Longrightarrow>
         prefix (submittedStorage es)
           (map action (removeExecutedActions ssa
              (actionsExecuted (deployments C w2 (activeDeploymentId C w2))))) \<and>
         (4 \<in> set (phases es) \<longrightarrow>
            (\<exists>s i. outcomeOf (sphinxExecuteBatchActions C fuel ssa True g w2) = Returned (s, i) \<and>
               (s \<noteq> FAILED \<longrightarrow>
                  submittedStorage es =
                    map action (removeExecutedActions ssa
                      (actionsExecuted (deployments C w2 (activeDeploymentId C w2)))))))"
proof -
  assume "initiateUpgrade C (map target (targets (targetBundle bi)))
           (map targetSiblings (targets (targetBundle bi))) 1000000 w = None"
  with run show "submittedStorage es = [] \<and> 4 \<notin> set (phases es)"
    by (auto simp: upgradePhases_def Let_def)
next
  assume i: "initiateUpgrade C (map target (targets (targetBundle bi)))
           (map targetSiblings (targets (targetBundle bi))) 1000000 w = Some w2"
  obtain r3 w3 es3 where b: "sphinxExecuteBatchActions C fuel ssa True g w2 = (r3, w3, es3)"
    by (cases "sphinxExecuteBatchActions C fuel ssa True g w2") auto
  note ev = batch_storage_events [OF b]
  have p: "prefix (submittedStorage es3)
             (map action (removeExecutedActions ssa
                (actionsExecuted (deployments C w2 (activeDeploymentId C w2)))))"
    using sphinxExecuteBatchActions_prefix [OF b] ev(1) by simp
  have n4: "4 \<notin> set (phases es3)" using ev(3) by auto
  have sub: "submittedStorage es = submittedStorage es3"
    using run i b
    by (auto simp: upgradePhases_def Let_def split: outcome.splits option.splits)
  have fin: "\<exists>s i. r3 = Returned (s, i)" if "4 \<in> set (phases es)"
    using run i b n4 that
    by (auto simp: upgradePhases_def Let_def split: outcome.splits option.splits)
  have full: "submittedStorage es3 =
                map action (removeExecutedActions ssa
                  (actionsExecuted (deployments C w2 (activeDeploymentId C w2))))"
    if "r3 = Returned (s, i)" and "s \<noteq> FAILED" for s i
    using sphinxExecuteBatchActions_complete [OF b [unfolded that(1)] that(2)] ev(1) by simp
  from p sub fin full b
  show "prefix (submittedStorage es)
           (map action (removeExecutedActions ssa
              (actionsExecuted (deployments C w2 (activeDeploymentId C w2))))) \<and>
         (4 \<in> set (phases es) \<longrightarrow>
            (\<exists>s i. outcomeOf (sphinxExecuteBatchActions C fuel ssa True g w2) = Returned (s, i) \<and>
               (s \<noteq> FAILED \<longrightarrow>
                  submittedStorage es =
                    map action (removeExecutedActions ssa
                      (actionsExecuted (deployments C w2 (activeDeploymentId C w2)))))))"
    by auto
qed

text \<open>
  The steps of a run of \<^verbatim>\<open>sphinxExecuteDeployment\<close>: it ends after the initial
  actions when their status is \<^verbatim>\<open>FAILED\<close> or \<^verbatim>\<open>COMPLETED\<close>; otherwise
  \<^verbatim>\<open>initiateUpgrade\<close> is called once; the storage actions submitted are a prefix of the
  storage actions left in the world where the storage phase starts, and all of them when
  \<^verbatim>\<open>finalizeUpgrade\<close> is called, unless the status read back behind a storage batch is
  \<^verbatim>\<open>FAILED\<close>.
\<close>

lemma phase_order_steps:
  assumes run: "sphinxExecuteDeployment C fuel bundleInfo blockGasLimit w = (r, w', es)"
  shows "(outcomeOf (initialPhase C fuel bundleInfo blockGasLimit w) = Returned (st, i) \<and>
          (st = FAILED \<or> st = COMPLETED) \<longrightarrow>
            2 \<notin> set (phases es) \<and> 4 \<notin> set (phases es) \<and> submittedStorage es = []) \<and>
         ((blockGasLimit div 2) * 120 \<le> MAX_UINT256 \<and>
          outcomeOf (initialPhase C fuel bundleInfo blockGasLimit w) = Returned (st, i) \<and>
          st \<noteq> FAILED \<and> st \<noteq> COMPLETED \<longrightarrow> count_list (phases es) 2 = 1) \<and>
         (storagePhaseStart C fuel bundleInfo blockGasLimit w = Some w2 \<longrightarrow>
            prefix (submittedStorage es) (remainingStorage C bundleInfo w2)) \<and>
         (4 \<in> set (phases es) \<longrightarrow>
            (\<exists>w3 s j. storagePhaseStart C fuel bundleInfo blockGasLimit w = Some w3 \<and>
               outcomeOf (storagePhase C fuel bundleInfo blockGasLimit w3) = Returned (s, j) \<and>
               (s \<noteq> FAILED \<longrightarrow> submittedStorage es = remainingStorage C bundleInfo w3)))"
proof -
  define ini where "ini = fst (splitActions (actions (actionBundle bundleInfo)))"
  define sto where "sto = snd (splitActions (actions (actionBundle bundleInfo)))"
  have split: "splitActions (actions (actionBundle bundleInfo)) = (ini, sto)"
    by (simp add: ini_def sto_def)
  show ?thesis
  proof (cases "bufferedGasLimitOf blockGasLimit")
    case None
    with run split have "es = []"
      by (auto simp: sphinxExecuteDeployment_def dest!: rollback_eq)
    with bufferedGasLimitOf_None [OF None] show ?thesis by simp
  next
    case (Some g)
    note g = bufferedGasLimitOf_Some [OF Some]
    obtain r1 w1 es1 where b: "sphinxExecuteBatchActions C fuel ini False g w = (r1, w1, es1)"
      by (cases "sphinxExecuteBatchActions C fuel ini False g w") auto
    have ip: "initialPhase C fuel bundleInfo blockGasLimit w = (r1, w1, es1)"
      using b unfolding initialPhase_def ini_def g .
    have sps: "storagePhaseStart C fuel bundleInfo blockGasLimit w =
                 initiateUpgrade C (map target (targets (targetBundle bundleInfo)))
                   (map targetSiblings (targets (targetBundle bundleInfo))) 1000000 w1"
      by (simp add: storagePhaseStart_def ip)
    note ev = batch_initial_events [OF b]
    note c = count_phase1 [OF ev(3)]
    have early: ?thesis if e: "es = es1" and o: "\<And>x j. r1 = Returned (x, j) \<Longrightarrow>
        x = FAILED \<or> x = COMPLETED"
    proof -
      from e ev c have "2 \<notin> set (phases es)" "4 \<notin> set (phases es)" "submittedStorage es = []"
        by auto
      moreover have "\<not> (outcomeOf (initialPhase C fuel bundleInfo blockGasLimit w) = Returned (st, i)
          \<and> st \<noteq> FAILED \<and> st \<noteq> COMPLETED)"
        using o [of st i] by (auto simp: ip)
      ultimately show ?thesis by auto
    qed
    show ?thesis
    proof (cases r1)
      case (Reverted x)
      with run split Some b have "es = es1"
        by (auto simp: sphinxExecuteDeployment_def dest!: rollback_eq)
      then show ?thesis using Reverted by (intro early) auto
    next
      case OutOfFuel
      with run split Some b have "es = es1"
        by (auto simp: sphinxExecuteDeployment_def dest!: rollback_eq)
      then show ?thesis using OutOfFuel by (intro early) auto
    next
      case (Returned x)
      obtain st0 idx where x: "x = (st0, idx)" by (cases x) auto
      show ?thesis
      proof (cases "st0 = FAILED \<or> st0 = COMPLETED")
        case True
        with run split Some b Returned x have "es = es1"
          by (auto simp: sphinxExecuteDeployment_def split: if_splits dest!: rollback_eq)
        then show ?thesis using Returned x True by (intro early) auto
      next
        case False
        obtain r2 w2' es2 where u: "upgradePhases C fuel bundleInfo sto g w1 = (r2, w2', es2)"
          by (cases "upgradePhases C fuel bundleInfo sto g w1") auto
        from run split Some b Returned x False u have e: "es = es1 @ es2"
          by (auto simp: sphinxExecuteDeployment_def dest!: rollback_eq)
        note up = upgradePhases_events [OF u]
        note us = upgradePhases_storage [OF u]
        have n1: "\<not> (outcomeOf (initialPhase C fuel bundleInfo blockGasLimit w) = Returned (st, i)
            \<and> (st = FAILED \<or> st = COMPLETED))"
          using False by (auto simp: ip Returned x)
        have n2: "count_list (phases es) 2 = 1"
          using e c up by simp
        have n3: "prefix (submittedStorage es) (remainingStorage C bundleInfo w2)"
          if "storagePhaseStart C fuel bundleInfo blockGasLimit w = Some w2"
          using us(2) [OF that [unfolded sps]] e ev(2)
          by (simp add: remainingStorage_def sto_def)
        have n4: "\<exists>w3 s j. storagePhaseStart C fuel bundleInfo blockGasLimit w = Some w3 \<and>
               outcomeOf (storagePhase C fuel bundleInfo blockGasLimit w3) = Returned (s, j) \<and>
               (s \<noteq> FAILED \<longrightarrow> submittedStorage es = remainingStorage C bundleInfo w3)"
          if f: "4 \<in> set (phases es)"
        proof (cases "initiateUpgrade C (map target (targets (targetBundle bundleInfo)))
                   (map targetSiblings (targets (targetBundle bundleInfo))) 1000000 w1")
          case None
          from us(1) [OF None] f e c show ?thesis by auto
        next
          case (Some w3)
          from f e c have "4 \<in> set (phases es2)" by auto
          with us(2) [OF Some] obtain s j where
            o: "outcomeOf (sphinxExecuteBatchActions C fuel sto True g w3) = Returned (s, j)"
            and k: "s \<noteq> FAILED \<longrightarrow> submittedStorage es2 =
                    map action (removeExecutedActions sto
                      (actionsExecuted (deployments C w3 (activeDeploymentId C w3))))"
            by blast
          have "outcomeOf (storagePhase C fuel bundleInfo blockGasLimit w3) = Returned (s, j)"
            using o unfolding storagePhase_def sto_def g .
          moreover have "s \<noteq> FAILED \<longrightarrow> submittedStorage es = remainingStorage C bundleInfo w3"
            using k e ev(2) by (simp add: remainingStorage_def sto_def)
          ultimately show ?thesis using Some sps by auto
        qed
        from n1 n2 n3 n4 show ?thesis by blast
      qed
    qed
  qed
qed

text \<open>
  Claim C3, as amended. The manager transactions of a run of
  \<^verbatim>\<open>sphinxExecuteDeployment\<close> never leave the phase order: batches of initial
  actions, then \<^verbatim>\<open>initiateUpgrade\<close>, then batches of storage actions, then
  \<^verbatim>\<open>finalizeUpgrade\<close>. \<^verbatim>\<open>initiateUpgrade\<close> is called at most once, and only after
  every initial action that was not executed before has been submitted;
  \<^verbatim>\<open>finalizeUpgrade\<close> is called at most once and only after \<^verbatim>\<open>initiateUpgrade\<close>.
  The actions submitted in a phase are a prefix of the not yet executed actions of that
  phase, in the order of the bundle: batching chooses boundaries and never reorders, so
  a bundle in index order is executed in index order. The upgrade phases are not part of
  every run: when the status behind the initial actions is \<^verbatim>\<open>FAILED\<close> or
  \<^verbatim>\<open>COMPLETED\<close> the run ends there, with no \<^verbatim>\<open>initiateUpgrade\<close>, no storage action
  and no \<^verbatim>\<open>finalizeUpgrade\<close>; with any other status \<^verbatim>\<open>initiateUpgrade\<close> is called
  exactly once. The storage actions submitted are a prefix of those left in the world
  where the storage phase starts, and when \<^verbatim>\<open>finalizeUpgrade\<close> is called they are all
  of them, unless the status read back behind a storage batch is \<^verbatim>\<open>FAILED\<close>. A run
  that returns success has submitted all remaining initial actions, and has called
  \<^verbatim>\<open>finalizeUpgrade\<close> exactly when it has called \<^verbatim>\<open>initiateUpgrade\<close>.
\<close>

theorem deployment_phase_order:
  assumes run: "sphinxExecuteDeployment C fuel bundleInfo blockGasLimit w = (r, w', es)"
  shows "sorted (phases es) \<and>
         count_list (phases es) 2 \<le> 1 \<and> count_list (phases es) 4 \<le> count_list (phases es) 2 \<and>
         prefix (submittedInitial es)
           (map action (removeExecutedActions (fst (splitActions (actions (actionBundle bundleInfo))))
              (actionsExecuted (deployments C w (activeDeploymentId C w))))) \<and>
         (\<exists>n. prefix (submittedStorage es)
           (map action (removeExecutedActions
              (snd (splitActions (actions (actionBundle bundleInfo)))) n))) \<and>
         (2 \<in> set (phases es) \<or> (\<exists>a. r = Returned (True, a)) \<longrightarrow>
            submittedInitial es =
              map action (removeExecutedActions
                (fst (splitActions (actions (actionBundle bundleInfo))))
                (actionsExecuted (deployments C w (activeDeploymentId C w))))) \<and>
         ((\<exists>a. r = Returned (True, a)) \<longrightarrow> count_list (phases es) 4 = count_list (phases es) 2) \<and>
         (sorted_wrt (<) (map (\<lambda>a. index (action a)) (actions (actionBundle bundleInfo))) \<longrightarrow>
            sorted_wrt (<) (map index (submittedInitial es)) \<and>
            sorted_wrt (<) (map index (submittedStorage es))) \<and>
         (outcomeOf (initialPhase C fuel bundleInfo blockGasLimit w) = Returned (st, i) \<and>
          (st = FAILED \<or> st = COMPLETED) \<longrightarrow>
            2 \<notin> set (phases es) \<and> 4 \<notin> set (phases es) \<and> submittedStorage es = []) \<and>
         ((blockGasLimit div 2) * 120 \<le> MAX_UINT256 \<and>
          outcomeOf (initialPhase C fuel bundleInfo blockGasLimit w) = Returned (st, i) \<and>
          st \<noteq> FAILED \<and> st \<noteq> COMPLETED \<longrightarrow> count_list (phases es) 2 = 1) \<and>
         (storagePhaseStart C fuel bundleInfo blockGasLimit w = Some w2 \<longrightarrow>
            prefix (submittedStorage es) (remainingStorage C bundleInfo w2)) \<and>
         (4 \<in> set (phases es) \<longrightarrow>
            (\<exists>w3 s j. storagePhaseStart C fuel bundleInfo blockGasLimit w = Some w3 \<and>
               outcomeOf (storagePhase C fuel bundleInfo blockGasLimit w3) = Returned (s, j) \<and>
               (s \<noteq> FAILED \<longrightarrow> submittedStorage es = remainingStorage C bundleInfo w3)))"
  using phase_order_shape [OF run] phase_order_steps [OF run, of st i w2]
  by (intro conjI) blast+


lemma demo_initial_phase:
  "initialPhase (demoChain None INITIAL_ACTIONS_EXECUTED) (Suc (Suc (Suc 0))) demoBundle
     30000000 approvedWorld =
   (Returned (INITIAL_ACTIONS_EXECUTED, 0),
    approvedWorld\<lparr>status := INITIAL_ACTIONS_EXECUTED, actionsExecuted := 3\<rparr>, plainRunEvents)"
  by (simp add: initialPhase_def demo_sels eval_defs demo_events)

lemma demo_storage_start:
  "storagePhaseStart (demoChain None INITIAL_ACTIONS_EXECUTED) (Suc (Suc (Suc 0))) demoBundle
     30000000 approvedWorld =
   Some (approvedWorld\<lparr>status := PROXIES_INITIATED, actionsExecuted := 3\<rparr>)"
  by (simp add: storagePhaseStart_def demo_initial_phase demo_sels)

lemma demo_storage_phase:
  "outcomeOf (storagePhase (demoChain None INITIAL_ACTIONS_EXECUTED) (Suc (Suc (Suc 0)))
     demoBundle 30000000 (approvedWorld\<lparr>status := PROXIES_INITIATED, actionsExecuted := 3\<rparr>)) =
   Returned (SET_STORAGE_ACTIONS_EXECUTED, 0)"
  by (simp add: storagePhase_def demo_sels eval_defs)

lemma demo_remaining_storage:
  "remainingStorage (demoChain None INITIAL_ACTIONS_EXECUTED) demoBundle
     (approvedWorld\<lparr>status := PROXIES_INITIATED, actionsExecuted := 3\<rparr>) =
   [action (demoAction SET_STORAGE 3)]"
  by (simp add: remainingStorage_def demo_sels eval_defs)

text \<open>
  A run on the small chain that goes through all four phases: two batches of initial
  actions, the start of the upgrade, one batch of storage actions, the end of the
  upgrade. The status behind the initial actions is neither \<^verbatim>\<open>FAILED\<close> nor
  \<^verbatim>\<open>COMPLETED\<close>, \<^verbatim>\<open>initiateUpgrade\<close> is called once, and the one storage action
  left is submitted before \<^verbatim>\<open>finalizeUpgrade\<close>.
\<close>

theorem deployment_phase_order_witness:
  "sphinxExecuteDeployment (demoChain None INITIAL_ACTIONS_EXECUTED) (Suc (Suc (Suc 0)))
     demoBundle 30000000 approvedWorld =
     (Returned (True, emptyAction), approvedWorld\<lparr>status := COMPLETED, actionsExecuted := 4\<rparr>,
      upgradeRunEvents) \<and>
   phases upgradeRunEvents = [1, 1, 2, 3, 4] \<and>
   sorted_wrt (<) (map (\<lambda>a. index (action a)) (actions (actionBundle demoBundle))) \<and>
   submittedInitial upgradeRunEvents =
     [action (demoAction DEPLOY_CONTRACT 0), action (demoAction CALL 1),
      action (demoAction CALL 2)] \<and>
   submittedStorage upgradeRunEvents = [action (demoAction SET_STORAGE 3)] \<and>
   sorted_wrt (<) (map index (submittedInitial upgradeRunEvents)) \<and>
   sorted_wrt (<) (map index (submittedStorage upgradeRunEvents)) \<and>
   (30000000 div 2) * 120 \<le> MAX_UINT256 \<and>
   outcomeOf (initialPhase (demoChain None INITIAL_ACTIONS_EXECUTED) (Suc (Suc (Suc 0)))
     demoBundle 30000000 approvedWorld) = Returned (INITIAL_ACTIONS_EXECUTED, 0) \<and>
   count_list (phases upgradeRunEvents) 2 = 1 \<and>
   storagePhaseStart (demoChain None INITIAL_ACTIONS_EXECUTED) (Suc (Suc (Suc 0))) demoBundle
     30000000 approvedWorld =
     Some (approvedWorld\<lparr>status := PROXIES_INITIATED, actionsExecuted := 3\<rparr>) \<and>
   4 \<in> set (phases upgradeRunEvents) \<and>
   submittedStorage upgradeRunEvents =
     remainingStorage (demoChain None INITIAL_ACTIONS_EXECUTED) demoBundle
       (approvedWorld\<lparr>status := PROXIES_INITIATED, actionsExecuted := 3\<rparr>)"
proof -
  let ?C = "demoChain None INITIAL_ACTIONS_EXECUTED"
  let ?w2 = "approvedWorld\<lparr>status := PROXIES_INITIATED, actionsExecuted := 3\<rparr>"
  note run = demo_upgrade_run
  have ph: "phases upgradeRunEvents = [1, 1, 2, 3, 4]"
    by (rule demo_events_phases)
  have srt: "sorted_wrt (<) (map (\<lambda>a. index (action a)) (actions (actionBundle demoBundle)))"
    by (simp add: demo_sels)
  have si: "submittedInitial upgradeRunEvents =
     [action (demoAction DEPLOY_CONTRACT 0), action (demoAction CALL 1),
      action (demoAction CALL 2)]"
    by (simp add: demo_events)
  have ss: "submittedStorage upgradeRunEvents = [action (demoAction SET_STORAGE 3)]"
    by (simp add: demo_events)
  have ov: "(30000000 div 2) * 120 \<le> MAX_UINT256"
    by (simp add: MAX_UINT256_def)
  have ip: "outcomeOf (initialPhase ?C (Suc (Suc (Suc 0))) demoBundle 30000000 approvedWorld)
      = Returned (INITIAL_ACTIONS_EXECUTED, 0)"
    by (simp add: demo_initial_phase)
  have f: "4 \<in> set (phases upgradeRunEvents)"
    by (simp add: ph)
  note inst = deployment_phase_order [OF run, of INITIAL_ACTIONS_EXECUTED 0 ?w2]
  from inst srt
  have so: "sorted_wrt (<) (map index (submittedInitial upgradeRunEvents)) \<and>
        sorted_wrt (<) (map index (submittedStorage upgradeRunEvents))"
    by blast
  from inst ov ip have cnt: "count_list (phases upgradeRunEvents) 2 = 1"
    by simp
  from inst f obtain w3 s j where
    a: "storagePhaseStart ?C (Suc (Suc (Suc 0))) demoBundle 30000000 approvedWorld = Some w3"
    and b: "outcomeOf (storagePhase ?C (Suc (Suc (Suc 0))) demoBundle 30000000 w3) = Returned (s, j)"
    and c: "s \<noteq> FAILED \<longrightarrow> submittedStorage upgradeRunEvents = remainingStorage ?C demoBundle w3"
    by blast
  from a have w3: "w3 = ?w2" by (simp add: demo_storage_start)
  from b have "s = SET_STORAGE_ACTIONS_EXECUTED"
    unfolding w3 demo_storage_phase by simp
  with c have all: "submittedStorage upgradeRunEvents = remainingStorage ?C demoBundle ?w2"
    unfolding w3 by simp
  from run ph srt si ss so ov ip cnt demo_storage_start f all show ?thesis by blast
qed

text \<open>
  Claim C3 as stated fails: on a chain whose deployment is approved and not completed,
  where the initial actions leave the deployment \<^verbatim>\<open>COMPLETED\<close> (a bundle without
  targets and storage actions), the run returns success after the batches of initial
  actions and calls neither \<^verbatim>\<open>initiateUpgrade\<close> nor \<^verbatim>\<open>finalizeUpgrade\<close>.
\<close>

theorem deployment_phase_order_counterexample:
  "status (deployments (demoChain None COMPLETED) approvedWorld
     (activeDeploymentId (demoChain None COMPLETED) approvedWorld)) = APPROVED \<and>
   outcomeOf (sphinxExecuteDeployment (demoChain None COMPLETED) (Suc (Suc (Suc 0)))
     plainBundle 30000000 approvedWorld) = Returned (True, emptyAction) \<and>
   phases (evs (sphinxExecuteDeployment (demoChain None COMPLETED) (Suc (Suc (Suc 0)))
     plainBundle 30000000 approvedWorld)) = [1, 1] \<and>
   count_list (phases (evs (sphinxExecuteDeployment (demoChain None COMPLETED)
     (Suc (Suc (Suc 0))) plainBundle 30000000 approvedWorld))) 2 = 0 \<and>
   count_list (phases (evs (sphinxExecuteDeployment (demoChain None COMPLETED)
     (Suc (Suc (Suc 0))) plainBundle 30000000 approvedWorld))) 4 = 0"
  by (simp add: demo_plain_run demo_events_phases demo_sels)

section \<open>Resuming after a partial run\<close>



lemma tx_evs: "tx e c f w = (r, w', es) \<Longrightarrow> es = [e]"
  by (auto simp: tx_def split: option.splits)

lemma grantRole_leafs:
  "sphinxGrantRoleInAuthContract C cfg mode role acct url w = (r, w', es) \<Longrightarrow>
   submittedLeafs es = [] \<and> submittedInitial es = [] \<and> phases es = [] \<and> budgetsPassed es = []"
  by (auto simp: sphinxGrantRoleInAuthContract_def Let_def andThen_def ret_def
           split: if_splits prod.splits outcome.splits)

lemma executeLeaf_leafs:
  "executeLeaf C cfg mode authRoot sig url sender sigs l st w = (r, w', es) \<Longrightarrow>
   set (submittedLeafs es) \<subseteq> {leaf l} \<and> submittedInitial es = [] \<and> phases es = []"
  by (auto simp: executeLeaf_def authTx_def tx_def andThen_def ret_def
           split: AuthLeafType.splits if_splits prod.splits outcome.splits option.splits
           dest!: grantRole_leafs)

lemma authLeafLoop_leafs:
  "authLeafLoop C cfg mode authRoot sig url sender sigs leafsExecuted leaves st w = (r, w', es) \<Longrightarrow>
   lf \<in> set (submittedLeafs es) \<Longrightarrow>
   leafsExecuted \<le> leafIndex lf \<and> lf \<in> leaf ` set leaves"
proof (induction leaves arbitrary: st w r w' es)
  case Nil
  then show ?case by (simp add: ret_def)
next
  case (Cons l ls)
  show ?case
  proof (cases "leafsExecuted > leafIndex (leaf l)")
    case True
    with Cons show ?thesis by auto
  next
    case False
    obtain r1 w1 es1 where x: "executeLeaf C cfg mode authRoot sig url sender sigs l st w = (r1, w1, es1)"
      by (cases "executeLeaf C cfg mode authRoot sig url sender sigs l st w") auto
    from executeLeaf_leafs [OF x] have sub: "set (submittedLeafs es1) \<subseteq> {leaf l}" by simp
    show ?thesis
    proof (cases r1)
      case (Returned st')
      obtain r2 w2 es2 where y: "authLeafLoop C cfg mode authRoot sig url sender sigs leafsExecuted ls st' w1 = (r2, w2, es2)"
        by (cases "authLeafLoop C cfg mode authRoot sig url sender sigs leafsExecuted ls st' w1") auto
      from Cons.prems False x Returned y have "es = es1 @ es2"
        by (auto dest!: rollback_eq)
      with Cons.prems(2) have "lf \<in> set (submittedLeafs es1) \<or> lf \<in> set (submittedLeafs es2)"
        by simp
      then show ?thesis
      proof
        assume "lf \<in> set (submittedLeafs es1)"
        with sub False show ?thesis by auto
      next
        assume "lf \<in> set (submittedLeafs es2)"
        from Cons.IH [OF y this] show ?thesis by auto
      qed
    next
      case (Reverted s)
      with Cons.prems False x have "es = es1" by simp
      with Cons.prems(2) sub False show ?thesis by auto
    next
      case OutOfFuel
      with Cons.prems False x have "es = es1" by simp
      with Cons.prems(2) sub False show ?thesis by auto
    qed
  qed
qed

text \<open>
  Claim C1. Whatever the chain answers and however long the run lasts, every action that
  \<^verbatim>\<open>sphinxExecuteBatchActions\<close> submits is an action of the bundle whose index is not
  below the \<^verbatim>\<open>actionsExecuted\<close> counter read at the start of the call: no action
  with a lower index is submitted again. Likewise every leaf that the loop over the auth
  leafs submits has an index that is not below \<^verbatim>\<open>leafsExecuted\<close>.
\<close>

theorem resume_skips_executed:
  "(\<forall>a \<in> set (submittedActions (evs (sphinxExecuteBatchActions C fuel bundledActions
          isSetStorageActionArray bufferedGasLimit w))).
      actionsExecuted (deployments C w (activeDeploymentId C w)) \<le> index a \<and>
      a \<in> action ` set bundledActions) \<and>
   (\<forall>lf \<in> set (submittedLeafs (evs (authLeafLoop C sphinxConfig sphinxMode authRoot
          metaTxnSignature rpcUrl msgSender ownerSignatureArray leafsExecuted leaves st w2))).
      leafsExecuted \<le> leafIndex lf \<and> lf \<in> leaf ` set leaves)"
proof (intro conjI ballI)
  fix a
  assume a: "a \<in> set (submittedActions (evs (sphinxExecuteBatchActions C fuel bundledActions
          isSetStorageActionArray bufferedGasLimit w)))"
  obtain r w' es where run: "sphinxExecuteBatchActions C fuel bundledActions
          isSetStorageActionArray bufferedGasLimit w = (r, w', es)"
    by (cases "sphinxExecuteBatchActions C fuel bundledActions
          isSetStorageActionArray bufferedGasLimit w") auto
  from sphinxExecuteBatchActions_prefix [OF run]
  have "set (submittedActions es) \<subseteq> set (map action (removeExecutedActions bundledActions
        (actionsExecuted (deployments C w (activeDeploymentId C w)))))"
    by (rule set_mono_prefix)
  with a run show "actionsExecuted (deployments C w (activeDeploymentId C w)) \<le> index a"
    and "a \<in> action ` set bundledActions"
    by (auto simp: removeExecutedActions_def)
next
  fix lf
  assume l: "lf \<in> set (submittedLeafs (evs (authLeafLoop C sphinxConfig sphinxMode authRoot
          metaTxnSignature rpcUrl msgSender ownerSignatureArray leafsExecuted leaves st w2)))"
  obtain r w' es where run: "authLeafLoop C sphinxConfig sphinxMode authRoot
          metaTxnSignature rpcUrl msgSender ownerSignatureArray leafsExecuted leaves st w2 = (r, w', es)"
    by (cases "authLeafLoop C sphinxConfig sphinxMode authRoot
          metaTxnSignature rpcUrl msgSender ownerSignatureArray leafsExecuted leaves st w2") auto
  with l have "lf \<in> set (submittedLeafs es)" by simp
  from authLeafLoop_leafs [OF run this]
  show "leafsExecuted \<le> leafIndex lf" and "lf \<in> leaf ` set leaves" by auto
qed

lemma demo_resumed_batches:
  "sphinxExecuteBatchActions (demoChain None INITIAL_ACTIONS_EXECUTED) (Suc (Suc (Suc 0)))
     [demoAction DEPLOY_CONTRACT 0, demoAction CALL 1, demoAction CALL 2] False 18000000
     (approvedWorld\<lparr>actionsExecuted := 2\<rparr>) =
   (Returned (INITIAL_ACTIONS_EXECUTED, 0),
    approvedWorld\<lparr>status := INITIAL_ACTIONS_EXECUTED, actionsExecuted := 3\<rparr>,
    [E_findMaxBatchSize [demoAction CALL 2] 14400000,
     E_executeInitialActions [action (demoAction CALL 2)] [siblings (demoAction CALL 2)]
       18000000 True []])"
  by (simp add: demo_sels eval_defs)

lemma demo_resumed_leafs:
  "authLeafLoop (demoChain None INITIAL_ACTIONS_EXECUTED) demoConfig LiveNetworkBroadcast 0 []
     ''url'' 7 [[]] 1 (authLeafs demoBundle) EMPTY emptyWorld =
   (Returned APPROVED, emptyWorld\<lparr>status := APPROVED\<rparr>, approvalEvents)"
  by (simp add: demo_sels eval_defs deploy_defs demo_events)

text \<open>
  A resumed run on the small chain: with two actions executed only the action with
  index 2 is submitted, and with one leaf executed the leaf with index 0 is skipped.
\<close>

theorem resume_skips_executed_witness:
  "submittedActions (evs (sphinxExecuteBatchActions (demoChain None INITIAL_ACTIONS_EXECUTED)
       (Suc (Suc (Suc 0))) [demoAction DEPLOY_CONTRACT 0, demoAction CALL 1, demoAction CALL 2]
       False 18000000 (approvedWorld\<lparr>actionsExecuted := 2\<rparr>))) = [action (demoAction CALL 2)] \<and>
   actionsExecuted (deployments (demoChain None INITIAL_ACTIONS_EXECUTED)
       (approvedWorld\<lparr>actionsExecuted := 2\<rparr>)
       (activeDeploymentId (demoChain None INITIAL_ACTIONS_EXECUTED)
          (approvedWorld\<lparr>actionsExecuted := 2\<rparr>))) = 2 \<and>
   2 \<le> index (action (demoAction CALL 2)) \<and>
   submittedLeafs (evs (authLeafLoop (demoChain None INITIAL_ACTIONS_EXECUTED) demoConfig
       LiveNetworkBroadcast 0 [] ''url'' 7 [[]] 1 (authLeafs demoBundle) EMPTY emptyWorld)) =
     [leaf (demoLeaf PROPOSE 1), leaf (demoLeaf APPROVE_DEPLOYMENT 2)] \<and>
   1 \<le> leafIndex (leaf (demoLeaf PROPOSE 1)) \<and>
   1 \<le> leafIndex (leaf (demoLeaf APPROVE_DEPLOYMENT 2))"
proof -
  let ?C = "demoChain None INITIAL_ACTIONS_EXECUTED"
  let ?w = "approvedWorld\<lparr>actionsExecuted := 2\<rparr>"
  have sa: "submittedActions (evs (sphinxExecuteBatchActions ?C (Suc (Suc (Suc 0)))
       [demoAction DEPLOY_CONTRACT 0, demoAction CALL 1, demoAction CALL 2]
       False 18000000 ?w)) = [action (demoAction CALL 2)]"
    unfolding demo_resumed_batches by simp
  have n: "actionsExecuted (deployments ?C ?w (activeDeploymentId ?C ?w)) = 2"
    by (simp add: demo_sels)
  have sl: "submittedLeafs (evs (authLeafLoop ?C demoConfig
       LiveNetworkBroadcast 0 [] ''url'' 7 [[]] 1 (authLeafs demoBundle) EMPTY emptyWorld)) =
     [leaf (demoLeaf PROPOSE 1), leaf (demoLeaf APPROVE_DEPLOYMENT 2)]"
    unfolding demo_resumed_leafs by (simp add: demo_events)
  note inst = resume_skips_executed [of ?C "Suc (Suc (Suc 0))"
       "[demoAction DEPLOY_CONTRACT 0, demoAction CALL 1, demoAction CALL 2]" False 18000000 ?w
       demoConfig LiveNetworkBroadcast 0 "[]" "''url''" 7 "[[]]" 1 "authLeafs demoBundle"
       EMPTY emptyWorld]
  from inst have "2 \<le> index (action (demoAction CALL 2))"
    unfolding sa n by simp
  moreover from inst have "1 \<le> leafIndex (leaf (demoLeaf PROPOSE 1))"
    and "1 \<le> leafIndex (leaf (demoLeaf APPROVE_DEPLOYMENT 2))"
    unfolding sl by simp_all
  ultimately show ?thesis using sa n sl by blast
qed

section \<open>A reverted batch of initial actions\<close>





















section \<open>Readable actions\<close>

lemma truncateVariable_withinLimits: "withinLimits d n (truncateVariable d n v)"
proof (induction v arbitrary: d)
  case (Scalar s)
  then show ?case by simp
next
  case (Nested vs)
  show ?case
  proof (cases d)
    case 0
    then show ?thesis by simp
  next
    case (Suc d')
    have "withinLimits d' n x" if "x \<in> set (take n (map (truncateVariable d' n) vs))" for x
    proof -
      from that have "x \<in> set (map (truncateVariable d' n) vs)"
        by (rule in_set_takeD)
      then obtain v where "v \<in> set vs" and "x = truncateVariable d' n v" by auto
      with Nested show ?thesis by simp
    qed
    with Suc show ?thesis by (simp add: list_all_iff)
  qed
qed

lemma truncateVariable_id: "withinLimits d n v \<Longrightarrow> truncateVariable d n v = v"
proof (induction v arbitrary: d)
  case (Scalar s)
  then show ?case by simp
next
  case (Nested vs)
  then show ?case
    by (cases d) (auto simp: list_all_iff map_idI)
qed

text \<open>
  Claim C7. For every list of action inputs \<^verbatim>\<open>getReadableActions\<close> returns one entry
  per action, in order: its \<^verbatim>\<open>actionIndex\<close> is that action's index, and its
  \<^verbatim>\<open>reason\<close> is rendered from the reference name, the address, the function name
  and the decoded variables of that action's \<^verbatim>\<open>decodedAction\<close>, truncated at depth 5
  and 3 arguments: the rendered variables are within these limits, and variables that
  are within them are rendered as they are. The function is total and has no effect.
\<close>

theorem readable_actions:
  "length (getReadableActions render inputs) = length inputs \<and>
   map ReadableAction.actionIndex (getReadableActions render inputs) =
     map ActionInput.index inputs \<and>
   map ReadableAction.reason (getReadableActions render inputs) =
     map (\<lambda>a. render (referenceName (decodedAction a)) (address (decodedAction a))
                 (functionName (decodedAction a))
                 (truncateVariable 5 3 (variables (decodedAction a)))) inputs \<and>
   list_all (\<lambda>a. withinLimits 5 3 (truncateVariable 5 3 (variables (decodedAction a))))
     inputs \<and>
   list_all (\<lambda>a. withinLimits 5 3 (variables (decodedAction a)) \<longrightarrow>
                 truncateVariable 5 3 (variables (decodedAction a)) = variables (decodedAction a))
     inputs"
  by (simp add: getReadableActions_def prettyFunctionCall_def Let_def comp_def
        truncateVariable_withinLimits truncateVariable_id list_all_iff)

text \<open>
  Two actions: the variables of the first are within the limits, the four arguments of
  the second are cut to three.
\<close>

theorem readable_actions_witness:
  "map ReadableAction.actionIndex (getReadableActions demoRender demoInputs) = [''0'', ''1''] \<and>
   map ReadableAction.reason (getReadableActions demoRender demoInputs) =
     [''Token<0x11>.mint(7)'', ''Vault<0x22>.init(...)''] \<and>
   withinLimits 5 3 (variables (decodedAction (demoInputs ! 0))) \<and>
   \<not> withinLimits 5 3 (variables (decodedAction (demoInputs ! 1))) \<and>
   truncateVariable 5 3 (variables (decodedAction (demoInputs ! 0))) = Scalar ''7'' \<and>
   truncateVariable 5 3 (variables (decodedAction (demoInputs ! 1))) =
     Nested [Scalar ''a'', Scalar ''b'', Scalar ''c'']"
proof -
  have v: "withinLimits 5 3 (variables (decodedAction (demoInputs ! 0)))"
      "\<not> withinLimits 5 3 (variables (decodedAction (demoInputs ! 1)))"
      "truncateVariable 5 3 (variables (decodedAction (demoInputs ! 0))) = Scalar ''7''"
      "truncateVariable 5 3 (variables (decodedAction (demoInputs ! 1))) =
         Nested [Scalar ''a'', Scalar ''b'', Scalar ''c'']"
    by (simp_all add: demoInputs_def eval_nat_numeral)
  have m: "map ActionInput.index demoInputs = [''0'', ''1'']"
    by (simp add: demoInputs_def)
  have r: "map (\<lambda>a. demoRender (referenceName (decodedAction a)) (address (decodedAction a))
                 (functionName (decodedAction a))
                 (truncateVariable 5 3 (variables (decodedAction a)))) demoInputs =
           [''Token<0x11>.mint(7)'', ''Vault<0x22>.init(...)'']"
    by (simp add: demoInputs_def demoRender_def eval_nat_numeral)
  from readable_actions [of demoRender demoInputs] v show ?thesis
    unfolding m r by blast
qed

section \<open>CREATE3 addresses\<close>

text \<open>
  Claim C8. \<^verbatim>\<open>getTargetAddress\<close> is \<^verbatim>\<open>getCreate3Address\<close> at the salt of
  \<^verbatim>\<open>getCreate3Salt\<close>, which is the hash of the ABI encoding of the reference name and
  the user salt; \<^verbatim>\<open>getCreate3Address\<close> is the checksum address of the bytes from
  offset 12 of the hash of \<^verbatim>\<open>0xd694\<close>, the CREATE2 address of the deployer, the salt
  and the hash of the proxy bytecode, and \<^verbatim>\<open>0x01\<close>. The result depends on the
  arguments only. An error of a library function is the error of the result.
\<close>

theorem target_address:
  "getTargetAddress E managerAddress refName userSalt =
     (case getCreate3Salt E refName userSalt of
        Inl e \<Rightarrow> Inl e
      | Inr targetSalt \<Rightarrow> getCreate3Address E managerAddress targetSalt) \<and>
   getCreate3Salt E refName userSalt =
     (case abiEncode E [''string'', ''bytes32''] [refName, userSalt] of
        Inl e \<Rightarrow> Inl e
      | Inr encoded \<Rightarrow> keccak256 E encoded) \<and>
   (keccak256 E proxyBytecode = Inr bytecodeHash \<and>
    getCreate2Address E deployer salt bytecodeHash = Inr proxyAddress \<and>
    concat_ethers E [''0xd694'', proxyAddress, ''0x01''] = Inr packed \<and>
    keccak256 E packed = Inr addressHash \<and>
    dataSlice E addressHash 12 = Inr last20Bytes \<longrightarrow>
      getCreate3Address E deployer salt = getAddress E last20Bytes) \<and>
   (managerAddress = managerAddress' \<and> refName = refName' \<and> userSalt = userSalt' \<longrightarrow>
      getTargetAddress E managerAddress refName userSalt =
      getTargetAddress E managerAddress' refName' userSalt')"
  by (auto simp: getTargetAddress_def getCreate3Salt_def getCreate3Address_def)

text \<open>An evaluation with toy library functions, where every step succeeds.\<close>

theorem target_address_witness:
  "keccak256 toyEthers proxyBytecode = Inr (''k'' @ proxyBytecode) \<and>
   getCreate2Address toyEthers ''M'' ''kTokenS'' (''k'' @ proxyBytecode) =
     Inr (''c2'' @ ''M'' @ ''kTokenS'' @ ''k'' @ proxyBytecode) \<and>
   getCreate3Salt toyEthers ''Token'' ''S'' = Inr ''kTokenS'' \<and>
   getTargetAddress toyEthers ''M'' ''Token'' ''S'' =
     getCreate3Address toyEthers ''M'' ''kTokenS'' \<and>
   getCreate3Address toyEthers ''M'' ''kTokenS'' =
     getAddress toyEthers
       (drop 12 (''k'' @ ''0xd694'' @ ''c2'' @ ''M'' @ ''kTokenS'' @ ''k'' @ proxyBytecode @ ''0x01''))"
proof -
  have a: "keccak256 toyEthers proxyBytecode = Inr (''k'' @ proxyBytecode)"
    by (simp add: toyEthers_def)
  have b: "getCreate2Address toyEthers ''M'' ''kTokenS'' (''k'' @ proxyBytecode) =
     Inr (''c2'' @ ''M'' @ ''kTokenS'' @ ''k'' @ proxyBytecode)"
    by (simp add: toyEthers_def)
  have c: "concat_ethers toyEthers
             [''0xd694'', ''c2'' @ ''M'' @ ''kTokenS'' @ ''k'' @ proxyBytecode, ''0x01''] =
           Inr (''0xd694'' @ ''c2'' @ ''M'' @ ''kTokenS'' @ ''k'' @ proxyBytecode @ ''0x01'')"
    by (simp add: toyEthers_def)
  have d: "keccak256 toyEthers
             (''0xd694'' @ ''c2'' @ ''M'' @ ''kTokenS'' @ ''k'' @ proxyBytecode @ ''0x01'') =
           Inr (''k'' @ ''0xd694'' @ ''c2'' @ ''M'' @ ''kTokenS'' @ ''k'' @ proxyBytecode @ ''0x01'')"
    by (simp add: toyEthers_def)
  have e: "dataSlice toyEthers
             (''k'' @ ''0xd694'' @ ''c2'' @ ''M'' @ ''kTokenS'' @ ''k'' @ proxyBytecode @ ''0x01'') 12 =
           Inr (drop 12 (''k'' @ ''0xd694'' @ ''c2'' @ ''M'' @ ''kTokenS'' @ ''k'' @ proxyBytecode @ ''0x01''))"
    by (simp add: toyEthers_def)
  have s: "getCreate3Salt toyEthers ''Token'' ''S'' = Inr ''kTokenS''"
    by (simp add: getCreate3Salt_def toyEthers_def)
  note inst = target_address [of toyEthers "''M''" "''Token''" "''S''" "''k'' @ proxyBytecode"
      "''M''" "''kTokenS''" "''c2'' @ ''M'' @ ''kTokenS'' @ ''k'' @ proxyBytecode"
      "''0xd694'' @ ''c2'' @ ''M'' @ ''kTokenS'' @ ''k'' @ proxyBytecode @ ''0x01''"
      "''k'' @ ''0xd694'' @ ''c2'' @ ''M'' @ ''kTokenS'' @ ''k'' @ proxyBytecode @ ''0x01''"
      "drop 12 (''k'' @ ''0xd694'' @ ''c2'' @ ''M'' @ ''kTokenS'' @ ''k'' @ proxyBytecode @ ''0x01'')"
      "''M''" "''Token''" "''S''"]
  from inst a b c d e
  have g: "getCreate3Address toyEthers ''M'' ''kTokenS'' =
     getAddress toyEthers
       (drop 12 (''k'' @ ''0xd694'' @ ''c2'' @ ''M'' @ ''kTokenS'' @ ''k'' @ proxyBytecode @ ''0x01''))"
    by blast
  from inst have "getTargetAddress toyEthers ''M'' ''Token'' ''S'' =
     (case getCreate3Salt toyEthers ''Token'' ''S'' of
        Inl e \<Rightarrow> Inl e
      | Inr targetSalt \<Rightarrow> getCreate3Address toyEthers ''M'' targetSalt)"
    by blast
  then have t: "getTargetAddress toyEthers ''M'' ''Token'' ''S'' =
     getCreate3Address toyEthers ''M'' ''kTokenS''"
    unfolding s by simp
  from a b s t g show ?thesis by blast
qed

section \<open>The proposal\<close>

lemma elementsEqual_iff:
  "elementsEqual xs \<longleftrightarrow> (\<forall>x \<in> set xs. \<forall>y \<in> set xs. x = y)"
proof (cases xs)
  case Nil
  then show ?thesis by (simp add: elementsEqual_def)
next
  case (Cons a as)
  have "(\<forall>e \<in> set (a # as). e = a) \<longleftrightarrow> (\<forall>x \<in> set (a # as). \<forall>y \<in> set (a # as). x = y)"
    by (metis list.set_intros(1))
  with Cons show ?thesis by (simp add: elementsEqual_def list_all_iff)
qed

lemma getProjectDeploymentForChain_chainId:
  "getProjectDeploymentForChain ctx mt c = Inr (Some pd) \<Longrightarrow>
   ProjectDeployment.chainId pd = Number_js ctx (NetworkConfig.chainId c)"
  by (auto simp: getProjectDeploymentForChain_def Let_def split: if_splits)

lemma assembleLoop_acc:
  "assembleLoop ctx mt cfgs (pds0, cs0, ids0) = Inr (pds, cs, ids) \<Longrightarrow>
   cs = cs0 @ map (\<lambda>c. \<lparr>ChainStatus.chainId = Number_js ctx (NetworkConfig.chainId c),
                         numLeaves = length (actionInputs c) + 1\<rparr>)
                (filter (\<lambda>c. length (actionInputs c) \<noteq> 0) cfgs) \<and>
   ids = ids0 @ map (\<lambda>c. Number_js ctx (NetworkConfig.chainId c))
                  (filter (\<lambda>c. length (actionInputs c) \<noteq> 0) cfgs) \<and>
   (\<exists>pds'. pds = pds0 @ pds' \<and>
      set (map ProjectDeployment.chainId pds')
        \<subseteq> set (map (\<lambda>c. Number_js ctx (NetworkConfig.chainId c))
                   (filter (\<lambda>c. length (actionInputs c) \<noteq> 0) cfgs)))"
proof (induction cfgs arbitrary: pds0 cs0 ids0)
  case Nil
  then show ?case by simp
next
  case (Cons c rest)
  show ?case
  proof (cases "length (actionInputs c) = 0")
    case True
    with Cons.prems have "assembleLoop ctx mt rest (pds0, cs0, ids0) = Inr (pds, cs, ids)"
      by simp
    from Cons.IH [OF this] True show ?thesis by simp
  next
    case False
    with Cons.prems obtain pd where
      g: "getProjectDeploymentForChain ctx mt c = Inr pd"
      and l: "assembleLoop ctx mt rest
               ((case pd of None \<Rightarrow> pds0 | Some d \<Rightarrow> pds0 @ [d]),
                cs0 @ [\<lparr>ChainStatus.chainId = Number_js ctx (NetworkConfig.chainId c),
                       numLeaves = length (actionInputs c) + 1\<rparr>],
                ids0 @ [Number_js ctx (NetworkConfig.chainId c)]) = Inr (pds, cs, ids)"
      by (auto split: sum.splits)
    from Cons.IH [OF l] obtain pds' where
      a: "cs = (cs0 @ [\<lparr>ChainStatus.chainId = Number_js ctx (NetworkConfig.chainId c),
                       numLeaves = length (actionInputs c) + 1\<rparr>])
               @ map (\<lambda>c. \<lparr>ChainStatus.chainId = Number_js ctx (NetworkConfig.chainId c),
                         numLeaves = length (actionInputs c) + 1\<rparr>)
                (filter (\<lambda>c. length (actionInputs c) \<noteq> 0) rest)"
      and b: "ids = (ids0 @ [Number_js ctx (NetworkConfig.chainId c)])
               @ map (\<lambda>c. Number_js ctx (NetworkConfig.chainId c))
                  (filter (\<lambda>c. length (actionInputs c) \<noteq> 0) rest)"
      and c: "pds = (case pd of None \<Rightarrow> pds0 | Some d \<Rightarrow> pds0 @ [d]) @ pds'"
      and d: "set (map ProjectDeployment.chainId pds')
        \<subseteq> set (map (\<lambda>c. Number_js ctx (NetworkConfig.chainId c))
                   (filter (\<lambda>c. length (actionInputs c) \<noteq> 0) rest))"
      by blast
    have e: "\<exists>pds''. pds = pds0 @ pds'' \<and>
      set (map ProjectDeployment.chainId pds'')
        \<subseteq> set (map (\<lambda>c. Number_js ctx (NetworkConfig.chainId c))
                   (filter (\<lambda>c. length (actionInputs c) \<noteq> 0) (c # rest)))"
    proof (cases pd)
      case None
      with c d False show ?thesis by auto
    next
      case (Some x)
      with g have "ProjectDeployment.chainId x = Number_js ctx (NetworkConfig.chainId c)"
        by (simp add: getProjectDeploymentForChain_chainId)
      with Some c d False show ?thesis
        by (intro exI [of _ "x # pds'"]) auto
    qed
    from a b e False show ?thesis by simp
  qed
qed

lemma propose_proposal:
  assumes "propose ctx args = (ReturnedProposal out, es)"
  shows "assembleLoop ctx (makeSphinxMerkleTree ctx (collected ctx)) (collected ctx)
           ([], [], []) =
         Inr (projectDeployments (proposalRequest out),
              chainStatus (tree (proposalRequest out)),
              chainIds (proposalRequest out))"
  using assms
  by (auto simp: propose_def proposeFinish_def buildNetworkConfigArray_def Let_def
           split: if_splits option.splits list.splits sum.splits prod.splits)

lemma distinct_count_list: "distinct ys \<Longrightarrow> y \<in> set ys \<Longrightarrow> count_list ys y = 1"
  by (induction ys) (auto simp: count_list_0_iff)

lemma count_list_map: "count_list (map f xs) y = length (filter (\<lambda>x. f x = y) xs)"
  by (induction xs) auto

lemma getProjectDeploymentForChain_error:
  "getProjectDeploymentForChain ctx mt c = Inl e \<Longrightarrow>
   e = multipleApprovalMessage (NetworkConfig.chainId c)"
  by (auto simp: getProjectDeploymentForChain_def Let_def split: if_splits)

lemma assembleLoop_error:
  "assembleLoop ctx mt cfgs acc = Inl e \<Longrightarrow>
   \<exists>c \<in> set cfgs. e = multipleApprovalMessage (NetworkConfig.chainId c)"
proof (induction cfgs arbitrary: acc)
  case Nil
  then show ?case by simp
next
  case (Cons c rest)
  obtain pds cs ids where acc: "acc = (pds, cs, ids)" by (cases acc) auto
  from Cons.prems show ?case
    unfolding acc
    by (auto split: if_splits sum.splits dest: Cons.IH getProjectDeploymentForChain_error)
qed

lemma message_distinct:
  "multipleApprovalMessage x \<noteq> inconsistentMessage"
  "fileMissingMessage p \<noteq> inconsistentMessage"
  "''TypeError'' \<noteq> inconsistentMessage"
  "''NetworkConfig or ConfigArtifacts not defined. Should never happen.'' \<noteq> inconsistentMessage"
  by (simp_all add: inconsistentMessage_def multipleApprovalMessage_def fileMissingMessage_def)

lemma filter_estimates [simp]:
  "filter isSubmission (map (\<lambda>c. PE_getNetworkGasEstimate (f c)) xs) = []"
  by (induction xs) auto

lemma proposeFinish_submission:
  "proposeFinish ctx args key cfgs mt est = (r, es) \<Longrightarrow>
   (\<forall>out. r \<noteq> ReturnedProposal out) \<Longrightarrow> filter isSubmission es = []"
  by (auto simp: proposeFinish_def Let_def
           split: if_splits list.splits sum.splits prod.splits)

lemma proposeFinish_inconsistent:
  "proposeFinish ctx args key cfgs mt est = (r, es) \<Longrightarrow>
   (r = Threw inconsistentMessage) = (\<not> elementsEqual (map shouldBeEqualOf cfgs))"
  by (auto simp: proposeFinish_def Let_def message_distinct
           simp del: assembleLoop.simps
           split: if_splits list.splits sum.splits prod.splits
           dest!: assembleLoop_error)

text \<open>The ways in which \<^verbatim>\<open>propose\<close> ends.\<close>

lemma propose_cases:
  "propose ctx args = (r, es) \<Longrightarrow>
   (\<not> isFile ctx \<and> r = Threw (fileMissingMessage (scriptPath args)) \<and> es = []) \<or>
   (isFile ctx \<and> (SPHINX_API_KEY ctx = None \<or> SPHINX_API_KEY ctx = Some []) \<and> r = Exited 1
      \<and> filter isSubmission es = [] \<and> PE_makeSphinxMerkleTree \<notin> set es) \<or>
   (isFile ctx \<and> (\<exists>key. SPHINX_API_KEY ctx = Some key \<and> key \<noteq> []) \<and>
      list_all (\<lambda>c. length (actionInputs c) = 0) (collected ctx) \<and> r = ReturnedEmpty
      \<and> filter isSubmission es = [] \<and> PE_makeSphinxMerkleTree \<notin> set es) \<or>
   (isFile ctx \<and> \<not> list_all (\<lambda>c. length (actionInputs c) = 0) (collected ctx) \<and>
      (\<exists>key pre es'. SPHINX_API_KEY ctx = Some key \<and> key \<noteq> [] \<and>
         proposeFinish ctx args key (collected ctx)
           (makeSphinxMerkleTree ctx (collected ctx))
           (map (\<lambda>c. getNetworkGasEstimate ctx (NetworkConfig.chainId c))
              (filter (\<lambda>c. length (actionInputs c) > 0) (collected ctx))) = (r, es') \<and>
         es = pre @ es' \<and> filter isSubmission pre = []))"
  by (auto simp: propose_def buildNetworkConfigArray_def Let_def
           split: if_splits option.splits prod.splits)


section \<open>The small proposal, evaluated\<close>

lemma demoContext_sel:
  "isFile (demoContext cfgs) = True"
  "SPHINX_API_KEY (demoContext cfgs) = Some ''key''"
  "collected (demoContext cfgs) = cfgs"
  "makeSphinxMerkleTree (demoContext cfgs) = (\<lambda>cs. demoTree)"
  "getNetworkGasEstimate (demoContext cfgs) = (\<lambda>c. ''gas'')"
  "getPreviewString (demoContext cfgs) = (\<lambda>cs b. ''preview'')"
  "deploymentConfigJson (demoContext cfgs) = (\<lambda>cs t. ''{}'')"
  "storeDeploymentConfig (demoContext cfgs) = (\<lambda>k org d. ''cid'')"
  "Number_js (demoContext cfgs) = decimalOf"
  "BigInt_js (demoContext cfgs) = decimalOf"
  by (simp_all add: demoContext_def)

lemma demoNetworkConfig_sel:
  "NetworkConfig.chainId (demoNetworkConfig c n t) = c"
  "actionInputs (demoNetworkConfig c n t) = take n (demoInputs @ demoInputs)"
  "NetworkConfig.newConfig (demoNetworkConfig c n t) = demoNewConfig t"
  "NetworkConfig.safeAddress (demoNetworkConfig c n t) = ''0x5afe''"
  "NetworkConfig.moduleAddress (demoNetworkConfig c n t) = ''0x30d''"
  "NetworkConfig.safeInitData (demoNetworkConfig c n t) = ''0x''"
  "initialState (demoNetworkConfig c n t) = \<lparr>InitialState.isExecuting = False\<rparr>"
  by (simp_all add: demoNetworkConfig_def)

lemma decimalOf_demo: "decimalOf ''5'' = 5" "decimalOf ''10'' = 10" "decimalOf ''7'' = 7"
  "decimalOf ''2'' = 2" "decimalOf ''3'' = 3"
  by (simp_all add: decimalOf_def)

lemma length_demoInputs: "length demoInputs = 2"
  by (simp add: demoInputs_def)

lemma demo_lengths:
  "length (take 0 (demoInputs @ demoInputs)) = 0"
  "length (take (Suc 0) (demoInputs @ demoInputs)) = 1"
  "length (take 3 (demoInputs @ demoInputs)) = 3"
  by (simp_all add: length_demoInputs)

lemma shouldBeEqualOf_demo:
  "shouldBeEqualOf (demoNetworkConfig c n t) = shouldBeEqualOf (demoNetworkConfig c' n' t')
     \<longleftrightarrow> t = t'"
  by (auto simp: shouldBeEqualOf_def demoNetworkConfig_sel demoNewConfig_def)


lemma demoInputs_nonempty [simp]: "demoInputs \<noteq> []"
  by (simp add: demoInputs_def)

lemmas propose_sels =
  demoContext_sel demoNetworkConfig_sel decimalOf_demo demo_lengths

lemma demo_deployments:
  "getProjectDeploymentForChain (demoContext cfgs) demoTree (demoNetworkConfig ''5'' n t)
     = Inr None"
  "getProjectDeploymentForChain (demoContext cfgs) demoTree (demoNetworkConfig ''10'' n t)
     = Inr (Some \<lparr>ProjectDeployment.chainId = 10, deploymentId = ''0xroot'',
                  name = ''demo'', isExecuting = False\<rparr>)"
  "getProjectDeploymentForChain (demoContext cfgs) demoTree (demoNetworkConfig ''7'' n t)
     = Inl (multipleApprovalMessage ''7'')"
  by (simp_all add: getProjectDeploymentForChain_def approvalLeaves_def propose_sels
      demoTree_def demoNewConfig_def)

text \<open>Chain 5 has no action and chain 10 has three; the configs agree.\<close>

lemma demo_skipping_proposal:
  "\<exists>out es. propose (demoContext [demoNetworkConfig ''5'' 0 ''2'', demoNetworkConfig ''10'' 3 ''2''])
      demoArgs = (ReturnedProposal out, es) \<and>
     chainIds (proposalRequest out) = [10] \<and>
     chainStatus (tree (proposalRequest out)) = [\<lparr>ChainStatus.chainId = 10, numLeaves = 4\<rparr>] \<and>
     map ProjectDeployment.chainId (projectDeployments (proposalRequest out)) = [10]"
  by (simp add: propose_def proposeFinish_def buildNetworkConfigArray_def elementsEqual_def
      shouldBeEqualOf_demo demo_deployments propose_sels length_demoInputs demoArgs_def Let_def)

text \<open>Two network configs for chain 10, both with actions.\<close>

lemma demo_duplicate_proposal:
  "\<exists>out es. propose (demoContext [demoNetworkConfig ''10'' 3 ''2'',
                                     demoNetworkConfig ''10'' (Suc 0) ''2''])
      demoArgs = (ReturnedProposal out, es) \<and>
     chainIds (proposalRequest out) = [10, 10]"
  by (simp add: propose_def proposeFinish_def buildNetworkConfigArray_def elementsEqual_def
      shouldBeEqualOf_demo demo_deployments propose_sels length_demoInputs demoArgs_def Let_def)

text \<open>Both chains have actions, and the thresholds differ.\<close>

lemma demo_divergent_proposal:
  "propose (demoContext [demoNetworkConfig ''5'' (Suc 0) ''2'', demoNetworkConfig ''10'' 3 ''3''])
      demoArgs =
   (Threw inconsistentMessage,
    [PE_compile, PE_spinnerStart ''Collecting transactions...'',
     PE_spinnerSucceed ''Collected transactions.'', PE_spinnerStart ''Building proposal...'',
     PE_makeSphinxMerkleTree, PE_spinnerSucceed ''Built proposal.'',
     PE_spinnerStart ''Running simulation...'', PE_getNetworkGasEstimate ''5'',
     PE_getNetworkGasEstimate ''10'', PE_spinnerSucceed ''Simulation succeeded.'',
     PE_spinnerStart ''Proposing...''])"
  by (simp add: propose_def proposeFinish_def buildNetworkConfigArray_def elementsEqual_def
      shouldBeEqualOf_demo propose_sels demoArgs_def Let_def)

text \<open>No chain has an action, and the thresholds differ.\<close>

lemma demo_empty_proposal:
  "propose (demoContext [demoNetworkConfig ''5'' 0 ''2'', demoNetworkConfig ''10'' 0 ''3''])
      demoArgs =
   (ReturnedEmpty,
    [PE_compile, PE_spinnerStart ''Collecting transactions...'',
     PE_spinnerSucceed ''Collected transactions.'', PE_spinnerStart ''Building proposal...'',
     PE_spinnerSucceed ''Skipping proposal because there is nothing to execute on any chain.''])"
  by (simp add: propose_def buildNetworkConfigArray_def propose_sels Let_def)

section \<open>The cross-chain consistency check\<close>

lemma propose_divergent:
  assumes c: "c1 \<in> set (collected ctx)" "c2 \<in> set (collected ctx)"
    and d: "shouldBeEqualOf c1 \<noteq> shouldBeEqualOf c2"
    and run: "propose ctx args = (r, es)"
  shows "filter isSubmission es = []"
    and "\<forall>out. r \<noteq> ReturnedProposal out"
    and "isFile ctx \<Longrightarrow> SPHINX_API_KEY ctx = Some key \<Longrightarrow> key \<noteq> [] \<Longrightarrow>
         \<not> list_all (\<lambda>c. length (actionInputs c) = 0) (collected ctx) \<Longrightarrow>
         r = Threw inconsistentMessage"
proof -
  from c d have ne: "\<not> elementsEqual (map shouldBeEqualOf (collected ctx))"
    unfolding elementsEqual_iff by force
  have fin: "r = Threw inconsistentMessage \<and> filter isSubmission es' = []"
    if "proposeFinish ctx args k (collected ctx) mt est = (r, es')" for k mt est es'
  proof -
    from proposeFinish_inconsistent [OF that] ne have "r = Threw inconsistentMessage"
      by simp
    moreover from this have "\<forall>out. r \<noteq> ReturnedProposal out" by simp
    from proposeFinish_submission [OF that this] have "filter isSubmission es' = []" .
    ultimately show ?thesis by simp
  qed
  from propose_cases [OF run] fin
  show "filter isSubmission es = []" by auto
  from propose_cases [OF run] fin
  show "\<forall>out. r \<noteq> ReturnedProposal out" by auto
  from propose_cases [OF run] fin
  show "isFile ctx \<Longrightarrow> SPHINX_API_KEY ctx = Some key \<Longrightarrow> key \<noteq> [] \<Longrightarrow>
         \<not> list_all (\<lambda>c. length (actionInputs c) = 0) (collected ctx) \<Longrightarrow>
         r = Threw inconsistentMessage" by auto
qed

lemma propose_consistent:
  assumes e: "\<forall>c1 \<in> set (collected ctx). \<forall>c2 \<in> set (collected ctx).
                shouldBeEqualOf c1 = shouldBeEqualOf c2"
    and run: "propose ctx args = (r, es)"
  shows "elementsEqual (map shouldBeEqualOf (collected ctx))"
    and "r \<noteq> Threw inconsistentMessage"
proof -
  show eq: "elementsEqual (map shouldBeEqualOf (collected ctx))"
    unfolding elementsEqual_iff
  proof (intro ballI)
    fix x y
    assume "x \<in> set (map shouldBeEqualOf (collected ctx))"
      and "y \<in> set (map shouldBeEqualOf (collected ctx))"
    then obtain c1 c2 where "c1 \<in> set (collected ctx)" "x = shouldBeEqualOf c1"
      "c2 \<in> set (collected ctx)" "y = shouldBeEqualOf c2"
      by auto
    with e show "x = y" by blast
  qed
  from propose_cases [OF run]
  have "r = Threw (fileMissingMessage (scriptPath args)) \<or> r = Exited 1 \<or> r = ReturnedEmpty \<or>
        (\<exists>k es'. proposeFinish ctx args k (collected ctx)
           (makeSphinxMerkleTree ctx (collected ctx))
           (map (\<lambda>c. getNetworkGasEstimate ctx (NetworkConfig.chainId c))
              (filter (\<lambda>c. length (actionInputs c) > 0) (collected ctx))) = (r, es'))"
    by blast
  then show "r \<noteq> Threw inconsistentMessage"
  proof (elim disjE conjE exE)
    assume "r = Threw (fileMissingMessage (scriptPath args))"
    then show ?thesis by (simp add: message_distinct(2))
  next
    assume "r = Exited 1"
    then show ?thesis by simp
  next
    assume "r = ReturnedEmpty"
    then show ?thesis by simp
  next
    fix k es'
    assume "proposeFinish ctx args k (collected ctx)
           (makeSphinxMerkleTree ctx (collected ctx))
           (map (\<lambda>c. getNetworkGasEstimate ctx (NetworkConfig.chainId c))
              (filter (\<lambda>c. length (actionInputs c) > 0) (collected ctx))) = (r, es')"
    from proposeFinish_inconsistent [OF this] eq show ?thesis by simp
  qed
qed

text \<open>
  Claim C5, as amended. When two network configs differ in \<^verbatim>\<open>newConfig\<close>,
  \<^verbatim>\<open>safeAddress\<close>, \<^verbatim>\<open>moduleAddress\<close> or \<^verbatim>\<open>safeInitData\<close>, \<^verbatim>\<open>propose\<close> never
  stores the deployment config, never relays the proposal and returns no proposal; when
  it gets as far as the proposal (the script file exists, the API key is set, and some
  chain has an action input) it throws the error of the consistency check. When the
  fields are equal on all chains, the check passes: that error is not thrown.
\<close>

theorem inconsistent_config_rejected:
  "(c1 \<in> set (collected ctx) \<and> c2 \<in> set (collected ctx) \<and>
      shouldBeEqualOf c1 \<noteq> shouldBeEqualOf c2 \<longrightarrow>
      filter isSubmission (snd (propose ctx args)) = [] \<and>
      (\<forall>out. fst (propose ctx args) \<noteq> ReturnedProposal out) \<and>
      (isFile ctx \<and> SPHINX_API_KEY ctx = Some key \<and> key \<noteq> [] \<and>
       \<not> list_all (\<lambda>c. length (actionInputs c) = 0) (collected ctx) \<longrightarrow>
       fst (propose ctx args) = Threw inconsistentMessage)) \<and>
   ((\<forall>c1 \<in> set (collected ctx). \<forall>c2 \<in> set (collected ctx).
        shouldBeEqualOf c1 = shouldBeEqualOf c2) \<longrightarrow>
      elementsEqual (map shouldBeEqualOf (collected ctx)) \<and>
      fst (propose ctx args) \<noteq> Threw inconsistentMessage)"
proof -
  obtain r es where run: "propose ctx args = (r, es)"
    by (cases "propose ctx args") auto
  show ?thesis
  proof (intro conjI impI allI; (elim conjE)?)
    assume c: "c1 \<in> set (collected ctx)" "c2 \<in> set (collected ctx)"
      and d: "shouldBeEqualOf c1 \<noteq> shouldBeEqualOf c2"
    from propose_divergent(1) [OF c d run]
    show "filter isSubmission (snd (propose ctx args)) = []"
      unfolding run by simp
    fix out
    from propose_divergent(2) [OF c d run]
    show "fst (propose ctx args) \<noteq> ReturnedProposal out"
      unfolding run by simp
  next
    assume c: "c1 \<in> set (collected ctx)" "c2 \<in> set (collected ctx)"
      and d: "shouldBeEqualOf c1 \<noteq> shouldBeEqualOf c2"
      and h: "isFile ctx" "SPHINX_API_KEY ctx = Some key" "key \<noteq> []"
        "\<not> list_all (\<lambda>c. length (actionInputs c) = 0) (collected ctx)"
    from propose_divergent(3) [OF c d run h]
    show "fst (propose ctx args) = Threw inconsistentMessage"
      unfolding run by simp
  next
    assume e: "\<forall>c1 \<in> set (collected ctx). \<forall>c2 \<in> set (collected ctx).
                shouldBeEqualOf c1 = shouldBeEqualOf c2"
    from propose_consistent(1) [OF e run]
    show "elementsEqual (map shouldBeEqualOf (collected ctx))" .
    from propose_consistent(2) [OF e run]
    show "fst (propose ctx args) \<noteq> Threw inconsistentMessage"
      unfolding run by simp
  qed
qed

text \<open>
  The claim as the spec states it fails when no chain has an action input: the two
  configs have different thresholds, and \<^verbatim>\<open>propose\<close> returns the empty result
  without an error, because it returns before the check.
\<close>

theorem inconsistent_config_rejected_counterexample:
  "shouldBeEqualOf (demoNetworkConfig ''5'' 0 ''2'')
     \<noteq> shouldBeEqualOf (demoNetworkConfig ''10'' 0 ''3'') \<and>
   fst (propose (demoContext [demoNetworkConfig ''5'' 0 ''2'', demoNetworkConfig ''10'' 0 ''3''])
          demoArgs) = ReturnedEmpty"
  unfolding demo_empty_proposal by (simp add: shouldBeEqualOf_demo)

text \<open>
  Two chains with actions and different thresholds: the error of the check, and nothing
  stored or relayed. The same chains with equal thresholds: the check passes.
\<close>

theorem inconsistent_config_rejected_witness:
  "shouldBeEqualOf (demoNetworkConfig ''5'' (Suc 0) ''2'')
     \<noteq> shouldBeEqualOf (demoNetworkConfig ''10'' 3 ''3'') \<and>
   fst (propose (demoContext [demoNetworkConfig ''5'' (Suc 0) ''2'', demoNetworkConfig ''10'' 3 ''3''])
          demoArgs) = Threw inconsistentMessage \<and>
   filter isSubmission
     (snd (propose (demoContext [demoNetworkConfig ''5'' (Suc 0) ''2'', demoNetworkConfig ''10'' 3 ''3''])
          demoArgs)) = [] \<and>
   elementsEqual (map shouldBeEqualOf
     [demoNetworkConfig ''5'' (Suc 0) ''2'', demoNetworkConfig ''10'' 3 ''2'']) \<and>
   fst (propose (demoContext [demoNetworkConfig ''5'' (Suc 0) ''2'', demoNetworkConfig ''10'' 3 ''2''])
          demoArgs) \<noteq> Threw inconsistentMessage"
proof -
  let ?a = "demoNetworkConfig ''5'' (Suc 0) ''2''"
  let ?b = "demoNetworkConfig ''10'' 3 ''3''"
  let ?b' = "demoNetworkConfig ''10'' 3 ''2''"
  have d: "shouldBeEqualOf ?a \<noteq> shouldBeEqualOf ?b"
    by (simp add: shouldBeEqualOf_demo)
  have h: "isFile (demoContext [?a, ?b]) \<and> SPHINX_API_KEY (demoContext [?a, ?b]) = Some ''key''
           \<and> ''key'' \<noteq> []
           \<and> \<not> list_all (\<lambda>c. length (actionInputs c) = 0) (collected (demoContext [?a, ?b]))"
    by (simp add: propose_sels)
  have m: "?a \<in> set (collected (demoContext [?a, ?b])) \<and> ?b \<in> set (collected (demoContext [?a, ?b]))"
    by (simp add: propose_sels)
  have e: "\<forall>c1 \<in> set (collected (demoContext [?a, ?b'])).
             \<forall>c2 \<in> set (collected (demoContext [?a, ?b'])).
               shouldBeEqualOf c1 = shouldBeEqualOf c2"
    by (simp add: propose_sels shouldBeEqualOf_demo)
  note i1 = inconsistent_config_rejected [of ?a "demoContext [?a, ?b]" ?b demoArgs "''key''"]
  note i2 = inconsistent_config_rejected [of ?a "demoContext [?a, ?b']" ?b' demoArgs "''key''"]
  from i1 d h m have
    "fst (propose (demoContext [?a, ?b]) demoArgs) = Threw inconsistentMessage"
    and "filter isSubmission (snd (propose (demoContext [?a, ?b]) demoArgs)) = []"
    by blast+
  moreover from i2 e have
    "elementsEqual (map shouldBeEqualOf (collected (demoContext [?a, ?b'])))"
    and "fst (propose (demoContext [?a, ?b']) demoArgs) \<noteq> Threw inconsistentMessage"
    by blast+
  ultimately show ?thesis using d by (simp add: propose_sels)
qed

section \<open>The chains of a proposal\<close>

lemma propose_lists:
  assumes "fst (propose ctx args) = ReturnedProposal out"
  shows "chainStatus (tree (proposalRequest out)) =
           map (\<lambda>c. \<lparr>ChainStatus.chainId = Number_js ctx (NetworkConfig.chainId c),
                      numLeaves = length (actionInputs c) + 1\<rparr>)
             (filter (\<lambda>c. length (actionInputs c) \<noteq> 0) (collected ctx))"
    and "chainIds (proposalRequest out) =
           map (\<lambda>c. Number_js ctx (NetworkConfig.chainId c))
             (filter (\<lambda>c. length (actionInputs c) \<noteq> 0) (collected ctx))"
    and "set (map ProjectDeployment.chainId (projectDeployments (proposalRequest out)))
           \<subseteq> set (map (\<lambda>c. Number_js ctx (NetworkConfig.chainId c))
                   (filter (\<lambda>c. length (actionInputs c) \<noteq> 0) (collected ctx)))"
proof -
  obtain r es where run: "propose ctx args = (r, es)"
    by (cases "propose ctx args") auto
  with assms have "propose ctx args = (ReturnedProposal out, es)" by simp
  note a = assembleLoop_acc [OF propose_proposal [OF this]]
  from a [THEN conjunct1]
  show "chainStatus (tree (proposalRequest out)) =
           map (\<lambda>c. \<lparr>ChainStatus.chainId = Number_js ctx (NetworkConfig.chainId c),
                      numLeaves = length (actionInputs c) + 1\<rparr>)
             (filter (\<lambda>c. length (actionInputs c) \<noteq> 0) (collected ctx))"
    unfolding append_Nil .
  from a [THEN conjunct2, THEN conjunct1]
  show "chainIds (proposalRequest out) =
           map (\<lambda>c. Number_js ctx (NetworkConfig.chainId c))
             (filter (\<lambda>c. length (actionInputs c) \<noteq> 0) (collected ctx))"
    unfolding append_Nil .
  from a [THEN conjunct2, THEN conjunct2] obtain pds' where
    "projectDeployments (proposalRequest out) = [] @ pds'"
    and "set (map ProjectDeployment.chainId pds')
           \<subseteq> set (map (\<lambda>c. Number_js ctx (NetworkConfig.chainId c))
                   (filter (\<lambda>c. length (actionInputs c) \<noteq> 0) (collected ctx)))"
    by (elim exE conjE)
  then show "set (map ProjectDeployment.chainId (projectDeployments (proposalRequest out)))
           \<subseteq> set (map (\<lambda>c. Number_js ctx (NetworkConfig.chainId c))
                   (filter (\<lambda>c. length (actionInputs c) \<noteq> 0) (collected ctx)))"
    unfolding append_Nil by (rule ssubst)
qed

lemma propose_empty:
  assumes e: "list_all (\<lambda>c. length (actionInputs c) = 0) (collected ctx)"
    and run: "propose ctx args = (r, es)"
  shows "PE_makeSphinxMerkleTree \<notin> set es"
    and "filter isSubmission es = []"
    and "\<forall>out. r \<noteq> ReturnedProposal out"
    and "isFile ctx \<Longrightarrow> SPHINX_API_KEY ctx = Some key \<Longrightarrow> key \<noteq> [] \<Longrightarrow> r = ReturnedEmpty"
  using propose_cases [OF run] e by auto

lemma assembleLoop_approved:
  "assembleLoop ctx mt cfgs acc = Inr res \<Longrightarrow> c \<in> set cfgs \<Longrightarrow>
   length (actionInputs c) \<noteq> 0 \<Longrightarrow> length (approvalLeaves ctx mt c) \<le> 1"
proof (induction cfgs arbitrary: acc)
  case Nil
  then show ?case by simp
next
  case (Cons d rest)
  obtain pds cs ids where acc: "acc = (pds, cs, ids)" by (cases acc) auto
  show ?case
  proof (cases "length (actionInputs d) = 0")
    case True
    with Cons.prems acc have "assembleLoop ctx mt rest acc = Inr res" and "c \<in> set rest"
      by auto
    from Cons.IH [OF this Cons.prems(3)] show ?thesis .
  next
    case False
    with Cons.prems(1) acc obtain pd acc' where
      g: "getProjectDeploymentForChain ctx mt d = Inr pd"
      and l: "assembleLoop ctx mt rest acc' = Inr res"
      by (auto split: sum.splits)
    show ?thesis
    proof (cases "c = d")
      case True
      with g show ?thesis
        by (auto simp: getProjectDeploymentForChain_def Let_def split: if_splits)
    next
      case False
      with Cons.prems(2) have "c \<in> set rest" by simp
      from Cons.IH [OF l this Cons.prems(3)] show ?thesis .
    qed
  qed
qed

lemma sphinxDeployOnNetwork_nothing:
  "length (authLeafs bundleInfo) = 0 \<Longrightarrow>
   sphinxDeployOnNetwork C sphinxConfig sphinxMode fuel authRoot bundleInfo metaTxnSignature
     rpcUrl w =
   (Returned (), w,
    [E_consoleLog (''Sphinx: Nothing to execute on '' @ networkName bundleInfo
                     @ ''. Exiting early.'')])"
  by (simp add: sphinxDeployOnNetwork_def emit_def Let_def)

text \<open>
  Claim C6. A chain whose list of auth leafs is empty: \<^verbatim>\<open>sphinxDeployOnNetwork\<close>
  returns without a revert, the chain is as it was, and the only thing done is the log
  line. The lists \<^verbatim>\<open>chainStatus\<close> and \<^verbatim>\<open>chainIds\<close> of a returned proposal are made
  from the network configs with at least one action input, in order, and every project
  deployment is the one of such a config. When no network config has an action input,
  \<^verbatim>\<open>propose\<close> builds no Merkle tree, stores and relays nothing and returns no proposal;
  with the script file and the API key present it returns the empty result.
\<close>

theorem empty_chains_skipped:
  "(length (authLeafs bundleInfo) = 0 \<longrightarrow>
      sphinxDeployOnNetwork C sphinxConfig sphinxMode fuel authRoot bundleInfo metaTxnSignature
        rpcUrl w =
      (Returned (), w,
       [E_consoleLog (''Sphinx: Nothing to execute on '' @ networkName bundleInfo
                        @ ''. Exiting early.'')])) \<and>
   (fst (propose ctx args) = ReturnedProposal out \<longrightarrow>
      chainStatus (tree (proposalRequest out)) =
        map (\<lambda>c. \<lparr>ChainStatus.chainId = Number_js ctx (NetworkConfig.chainId c),
                   numLeaves = length (actionInputs c) + 1\<rparr>)
          (filter (\<lambda>c. length (actionInputs c) \<noteq> 0) (collected ctx)) \<and>
      chainIds (proposalRequest out) =
        map (\<lambda>c. Number_js ctx (NetworkConfig.chainId c))
          (filter (\<lambda>c. length (actionInputs c) \<noteq> 0) (collected ctx)) \<and>
      set (map ProjectDeployment.chainId (projectDeployments (proposalRequest out)))
        \<subseteq> set (map (\<lambda>c. Number_js ctx (NetworkConfig.chainId c))
                (filter (\<lambda>c. length (actionInputs c) \<noteq> 0) (collected ctx)))) \<and>
   (list_all (\<lambda>c. length (actionInputs c) = 0) (collected ctx) \<longrightarrow>
      PE_makeSphinxMerkleTree \<notin> set (snd (propose ctx args)) \<and>
      filter isSubmission (snd (propose ctx args)) = [] \<and>
      (\<forall>p. fst (propose ctx args) \<noteq> ReturnedProposal p) \<and>
      (isFile ctx \<and> SPHINX_API_KEY ctx = Some key \<and> key \<noteq> [] \<longrightarrow>
         fst (propose ctx args) = ReturnedEmpty))"
proof (intro conjI impI allI; (elim conjE)?)
  assume "length (authLeafs bundleInfo) = 0"
  then show "sphinxDeployOnNetwork C sphinxConfig sphinxMode fuel authRoot bundleInfo
        metaTxnSignature rpcUrl w =
      (Returned (), w,
       [E_consoleLog (''Sphinx: Nothing to execute on '' @ networkName bundleInfo
                        @ ''. Exiting early.'')])"
    by (rule sphinxDeployOnNetwork_nothing)
next
  assume p: "fst (propose ctx args) = ReturnedProposal out"
  from propose_lists(1) [OF p]
  show "chainStatus (tree (proposalRequest out)) =
        map (\<lambda>c. \<lparr>ChainStatus.chainId = Number_js ctx (NetworkConfig.chainId c),
                   numLeaves = length (actionInputs c) + 1\<rparr>)
          (filter (\<lambda>c. length (actionInputs c) \<noteq> 0) (collected ctx))" .
  from propose_lists(2) [OF p]
  show "chainIds (proposalRequest out) =
        map (\<lambda>c. Number_js ctx (NetworkConfig.chainId c))
          (filter (\<lambda>c. length (actionInputs c) \<noteq> 0) (collected ctx))" .
  from propose_lists(3) [OF p]
  show "set (map ProjectDeployment.chainId (projectDeployments (proposalRequest out)))
        \<subseteq> set (map (\<lambda>c. Number_js ctx (NetworkConfig.chainId c))
                (filter (\<lambda>c. length (actionInputs c) \<noteq> 0) (collected ctx)))" .
next
  assume e: "list_all (\<lambda>c. length (actionInputs c) = 0) (collected ctx)"
  obtain r es where run: "propose ctx args = (r, es)"
    by (cases "propose ctx args") auto
  from propose_empty(1) [OF e run]
  show "PE_makeSphinxMerkleTree \<notin> set (snd (propose ctx args))"
    unfolding run by simp
  from propose_empty(2) [OF e run]
  show "filter isSubmission (snd (propose ctx args)) = []"
    unfolding run by simp
  fix p
  from propose_empty(3) [OF e run]
  show "fst (propose ctx args) \<noteq> ReturnedProposal p"
    unfolding run by simp
next
  assume e: "list_all (\<lambda>c. length (actionInputs c) = 0) (collected ctx)"
    and h: "isFile ctx" "SPHINX_API_KEY ctx = Some key" "key \<noteq> []"
  obtain r es where run: "propose ctx args = (r, es)"
    by (cases "propose ctx args") auto
  from propose_empty(4) [OF e run h]
  show "fst (propose ctx args) = ReturnedEmpty"
    unfolding run by simp
qed

text \<open>
  The scenario of the spec: chain 5 has no action and chain 10 has three. On a bundle
  without auth leafs the deployment only logs; the proposal lists chain 10 alone, with
  four leaves; and with no action on either chain \<^verbatim>\<open>propose\<close> returns the empty
  result.
\<close>

theorem empty_chains_skipped_witness:
  "length (authLeafs (demoBundle\<lparr>authLeafs := []\<rparr>)) = 0 \<and>
   sphinxDeployOnNetwork (demoChain None EMPTY) demoConfig LiveNetworkBroadcast 3 0
     (demoBundle\<lparr>authLeafs := []\<rparr>) [] ''url'' emptyWorld =
   (Returned (), emptyWorld,
    [E_consoleLog ''Sphinx: Nothing to execute on anvil. Exiting early.'']) \<and>
   (\<exists>out. fst (propose (demoContext [demoNetworkConfig ''5'' 0 ''2'',
                                      demoNetworkConfig ''10'' 3 ''2'']) demoArgs)
            = ReturnedProposal out \<and>
      chainStatus (tree (proposalRequest out)) = [\<lparr>ChainStatus.chainId = 10, numLeaves = 4\<rparr>] \<and>
      chainIds (proposalRequest out) = [10] \<and>
      set (map ProjectDeployment.chainId (projectDeployments (proposalRequest out))) \<subseteq> {10}) \<and>
   list_all (\<lambda>c. length (actionInputs c) = 0)
     (collected (demoContext [demoNetworkConfig ''5'' 0 ''2'', demoNetworkConfig ''10'' 0 ''3''])) \<and>
   fst (propose (demoContext [demoNetworkConfig ''5'' 0 ''2'', demoNetworkConfig ''10'' 0 ''3''])
          demoArgs) = ReturnedEmpty \<and>
   PE_makeSphinxMerkleTree \<notin>
     set (snd (propose (demoContext [demoNetworkConfig ''5'' 0 ''2'',
                                     demoNetworkConfig ''10'' 0 ''3'']) demoArgs))"
proof -
  let ?B = "demoBundle\<lparr>authLeafs := []\<rparr>"
  let ?c = "demoContext [demoNetworkConfig ''5'' 0 ''2'', demoNetworkConfig ''10'' 3 ''2'']"
  let ?e = "demoContext [demoNetworkConfig ''5'' 0 ''2'', demoNetworkConfig ''10'' 0 ''3'']"
  from demo_skipping_proposal obtain out es where
    run: "propose ?c demoArgs = (ReturnedProposal out, es)" by blast
  then have p: "fst (propose ?c demoArgs) = ReturnedProposal out" by simp
  have l: "length (authLeafs ?B) = 0" by simp
  have e: "list_all (\<lambda>c. length (actionInputs c) = 0) (collected ?e)"
    by (simp add: propose_sels)
  have h: "isFile ?e \<and> SPHINX_API_KEY ?e = Some ''key'' \<and> ''key'' \<noteq> []"
    by (simp add: propose_sels)
  note inst = empty_chains_skipped [of ?B "demoChain None EMPTY" demoConfig LiveNetworkBroadcast
      3 0 "[]" "''url''" emptyWorld ?c demoArgs out "''key''"]
  note inst' = empty_chains_skipped [of ?B "demoChain None EMPTY" demoConfig LiveNetworkBroadcast
      3 0 "[]" "''url''" emptyWorld ?e demoArgs out "''key''"]
  have f: "filter (\<lambda>c. length (actionInputs c) \<noteq> 0) (collected ?c)
             = [demoNetworkConfig ''10'' 3 ''2'']"
    by (simp add: propose_sels length_demoInputs)
  from inst l have a: "sphinxDeployOnNetwork (demoChain None EMPTY) demoConfig
      LiveNetworkBroadcast 3 0 ?B [] ''url'' emptyWorld =
      (Returned (), emptyWorld,
       [E_consoleLog ''Sphinx: Nothing to execute on anvil. Exiting early.''])"
    by (simp add: demoBundle_sel)
  from inst p have b: "chainStatus (tree (proposalRequest out))
        = [\<lparr>ChainStatus.chainId = 10, numLeaves = 4\<rparr>]"
    and c: "chainIds (proposalRequest out) = [10]"
    and d: "set (map ProjectDeployment.chainId (projectDeployments (proposalRequest out)))
              \<subseteq> {10}"
    unfolding f by (simp_all add: propose_sels length_demoInputs)
  from inst' e h have g: "fst (propose ?e demoArgs) = ReturnedEmpty"
    and m: "PE_makeSphinxMerkleTree \<notin> set (snd (propose ?e demoArgs))"
    by blast+
  from l a p b c d e g m show ?thesis by blast
qed

text \<open>
  Claim C9, as amended. In a returned proposal, \<^verbatim>\<open>chainStatus\<close> and \<^verbatim>\<open>chainIds\<close>
  hold one entry for each network config with at least one action input, in the order of
  the configs: the entry of \<^verbatim>\<open>chainStatus\<close> has the number of the chain id and the
  number of action inputs plus one. The chain id of such a config occurs in
  \<^verbatim>\<open>chainIds\<close> once for every included config with that chain id: exactly once when
  the chain ids of the configs are distinct, which \<^verbatim>\<open>propose\<close> does not check.
  \<^verbatim>\<open>getProjectDeploymentForChain\<close> returns \<^verbatim>\<open>undefined\<close> when the Merkle tree has no
  approval leaf for the chain, throws when it has more than one, and returns the
  deployment of the chain when it has one; a returned proposal has at most one approval
  leaf for each of its chains.
\<close>

theorem proposal_chain_status:
  "(fst (propose ctx args) = ReturnedProposal out \<longrightarrow>
      chainStatus (tree (proposalRequest out)) =
        map (\<lambda>c. \<lparr>ChainStatus.chainId = Number_js ctx (NetworkConfig.chainId c),
                   numLeaves = length (actionInputs c) + 1\<rparr>)
          (filter (\<lambda>c. length (actionInputs c) \<noteq> 0) (collected ctx)) \<and>
      chainIds (proposalRequest out) =
        map (\<lambda>c. Number_js ctx (NetworkConfig.chainId c))
          (filter (\<lambda>c. length (actionInputs c) \<noteq> 0) (collected ctx)) \<and>
      (\<forall>c \<in> set (collected ctx). length (actionInputs c) \<noteq> 0 \<longrightarrow>
         \<lparr>ChainStatus.chainId = Number_js ctx (NetworkConfig.chainId c),
          numLeaves = length (actionInputs c) + 1\<rparr>
           \<in> set (chainStatus (tree (proposalRequest out))) \<and>
         length (approvalLeaves ctx (makeSphinxMerkleTree ctx (collected ctx)) c) \<le> 1 \<and>
         count_list (chainIds (proposalRequest out)) (Number_js ctx (NetworkConfig.chainId c)) =
           length (filter (\<lambda>d. Number_js ctx (NetworkConfig.chainId d)
                                  = Number_js ctx (NetworkConfig.chainId c))
                     (filter (\<lambda>c. length (actionInputs c) \<noteq> 0) (collected ctx))) \<and>
         (distinct (map (\<lambda>c. Number_js ctx (NetworkConfig.chainId c)) (collected ctx)) \<longrightarrow>
            count_list (chainIds (proposalRequest out))
              (Number_js ctx (NetworkConfig.chainId c)) = 1))) \<and>
   (length (approvalLeaves ctx mt networkConfig) = 0 \<longrightarrow>
      getProjectDeploymentForChain ctx mt networkConfig = Inr None) \<and>
   (length (approvalLeaves ctx mt networkConfig) > 1 \<longrightarrow>
      getProjectDeploymentForChain ctx mt networkConfig
        = Inl (multipleApprovalMessage (NetworkConfig.chainId networkConfig))) \<and>
   (length (approvalLeaves ctx mt networkConfig) = 1 \<longrightarrow>
      (\<exists>pd. getProjectDeploymentForChain ctx mt networkConfig = Inr (Some pd) \<and>
            ProjectDeployment.chainId pd = Number_js ctx (NetworkConfig.chainId networkConfig) \<and>
            deploymentId pd = SphinxMerkleTree.root mt))"
proof (intro conjI impI ballI; (elim conjE)?)
  assume p: "fst (propose ctx args) = ReturnedProposal out"
  from propose_lists(1) [OF p]
  show cs: "chainStatus (tree (proposalRequest out)) =
        map (\<lambda>c. \<lparr>ChainStatus.chainId = Number_js ctx (NetworkConfig.chainId c),
                   numLeaves = length (actionInputs c) + 1\<rparr>)
          (filter (\<lambda>c. length (actionInputs c) \<noteq> 0) (collected ctx))" .
  from propose_lists(2) [OF p]
  show ids: "chainIds (proposalRequest out) =
        map (\<lambda>c. Number_js ctx (NetworkConfig.chainId c))
          (filter (\<lambda>c. length (actionInputs c) \<noteq> 0) (collected ctx))" .
  fix c
  assume c: "c \<in> set (collected ctx)" "length (actionInputs c) \<noteq> 0"
  then have m: "c \<in> set (filter (\<lambda>c. length (actionInputs c) \<noteq> 0) (collected ctx))"
    by simp
  then show "\<lparr>ChainStatus.chainId = Number_js ctx (NetworkConfig.chainId c),
          numLeaves = length (actionInputs c) + 1\<rparr>
           \<in> set (chainStatus (tree (proposalRequest out)))"
    unfolding cs by (simp only: set_map) (rule imageI)
  obtain r es where run: "propose ctx args = (r, es)"
    by (cases "propose ctx args") auto
  with p have "propose ctx args = (ReturnedProposal out, es)" by simp
  from assembleLoop_approved [OF propose_proposal [OF this] c]
  show "length (approvalLeaves ctx (makeSphinxMerkleTree ctx (collected ctx)) c) \<le> 1" .
  show "count_list (chainIds (proposalRequest out)) (Number_js ctx (NetworkConfig.chainId c)) =
           length (filter (\<lambda>d. Number_js ctx (NetworkConfig.chainId d)
                                  = Number_js ctx (NetworkConfig.chainId c))
                     (filter (\<lambda>c. length (actionInputs c) \<noteq> 0) (collected ctx)))"
    unfolding ids by (rule count_list_map)
  assume d: "distinct (map (\<lambda>c. Number_js ctx (NetworkConfig.chainId c)) (collected ctx))"
  then have "distinct (map (\<lambda>c. Number_js ctx (NetworkConfig.chainId c))
      (filter (\<lambda>c. length (actionInputs c) \<noteq> 0) (collected ctx)))"
    by (rule distinct_map_filter)
  moreover from m have "Number_js ctx (NetworkConfig.chainId c)
      \<in> set (map (\<lambda>c. Number_js ctx (NetworkConfig.chainId c))
      (filter (\<lambda>c. length (actionInputs c) \<noteq> 0) (collected ctx)))"
    by (simp only: set_map) (rule imageI)
  ultimately show "count_list (chainIds (proposalRequest out))
              (Number_js ctx (NetworkConfig.chainId c)) = 1"
    unfolding ids by (rule distinct_count_list)
next
  assume "length (approvalLeaves ctx mt networkConfig) = 0"
  then show "getProjectDeploymentForChain ctx mt networkConfig = Inr None"
    by (auto simp: getProjectDeploymentForChain_def Let_def)
next
  assume "length (approvalLeaves ctx mt networkConfig) > 1"
  then show "getProjectDeploymentForChain ctx mt networkConfig
        = Inl (multipleApprovalMessage (NetworkConfig.chainId networkConfig))"
    by (auto simp: getProjectDeploymentForChain_def Let_def)
next
  assume "length (approvalLeaves ctx mt networkConfig) = 1"
  then show "\<exists>pd. getProjectDeploymentForChain ctx mt networkConfig = Inr (Some pd) \<and>
            ProjectDeployment.chainId pd = Number_js ctx (NetworkConfig.chainId networkConfig) \<and>
            deploymentId pd = SphinxMerkleTree.root mt"
    by (auto simp: getProjectDeploymentForChain_def Let_def)
qed

lemma demo_approvalLeaves:
  "length (approvalLeaves (demoContext cfgs) demoTree (demoNetworkConfig ''5'' n t)) = 0"
  "length (approvalLeaves (demoContext cfgs) demoTree (demoNetworkConfig ''10'' n t)) = 1"
  "length (approvalLeaves (demoContext cfgs) demoTree (demoNetworkConfig ''7'' n t)) = 2"
  by (simp_all add: approvalLeaves_def propose_sels demoTree_def)

text \<open>
  The proposal of chain 5 (no action) and chain 10 (three actions): one entry with four
  leaves, and the chain id 10 once. The small tree has no approval leaf for chain 5, one
  for chain 10 and two for chain 7.
\<close>

theorem proposal_chain_status_witness:
  "(\<exists>out. fst (propose (demoContext [demoNetworkConfig ''5'' 0 ''2'',
                                      demoNetworkConfig ''10'' 3 ''2'']) demoArgs)
            = ReturnedProposal out \<and>
      chainStatus (tree (proposalRequest out)) = [\<lparr>ChainStatus.chainId = 10, numLeaves = 4\<rparr>] \<and>
      count_list (chainIds (proposalRequest out)) 10 = 1) \<and>
   distinct (map (\<lambda>c. decimalOf (NetworkConfig.chainId c))
     [demoNetworkConfig ''5'' 0 ''2'', demoNetworkConfig ''10'' 3 ''2'']) \<and>
   length (approvalLeaves (demoContext [demoNetworkConfig ''5'' 0 ''2'', demoNetworkConfig ''10'' 3 ''2'']) demoTree (demoNetworkConfig ''5'' 0 ''2'')) = 0 \<and>
   getProjectDeploymentForChain (demoContext [demoNetworkConfig ''5'' 0 ''2'', demoNetworkConfig ''10'' 3 ''2'']) demoTree (demoNetworkConfig ''5'' 0 ''2'')
     = Inr None \<and>
   length (approvalLeaves (demoContext [demoNetworkConfig ''5'' 0 ''2'', demoNetworkConfig ''10'' 3 ''2'']) demoTree (demoNetworkConfig ''7'' 3 ''2'')) > 1 \<and>
   getProjectDeploymentForChain (demoContext [demoNetworkConfig ''5'' 0 ''2'', demoNetworkConfig ''10'' 3 ''2'']) demoTree (demoNetworkConfig ''7'' 3 ''2'')
     = Inl ''Found multiple approval leaves for chain 7. Should never happen.'' \<and>
   length (approvalLeaves (demoContext [demoNetworkConfig ''5'' 0 ''2'', demoNetworkConfig ''10'' 3 ''2'']) demoTree (demoNetworkConfig ''10'' 3 ''2'')) = 1 \<and>
   (\<exists>pd. getProjectDeploymentForChain (demoContext [demoNetworkConfig ''5'' 0 ''2'', demoNetworkConfig ''10'' 3 ''2'']) demoTree (demoNetworkConfig ''10'' 3 ''2'')
           = Inr (Some pd) \<and> ProjectDeployment.chainId pd = 10)"
proof -
  let ?b = "demoNetworkConfig ''10'' 3 ''2''"
  let ?c = "demoContext [demoNetworkConfig ''5'' 0 ''2'', ?b]"
  from demo_skipping_proposal obtain out es where
    run: "propose ?c demoArgs = (ReturnedProposal out, es)" by blast
  then have p: "fst (propose ?c demoArgs) = ReturnedProposal out" by simp
  have d: "distinct (map (\<lambda>c. decimalOf (NetworkConfig.chainId c))
     [demoNetworkConfig ''5'' 0 ''2'', ?b])"
    by (simp add: propose_sels)
  then have d': "distinct (map (\<lambda>c. Number_js ?c (NetworkConfig.chainId c)) (collected ?c))"
    by (simp add: propose_sels)
  have m: "?b \<in> set (collected ?c)" "length (actionInputs ?b) \<noteq> 0"
    by (simp_all add: propose_sels length_demoInputs)
  have f: "filter (\<lambda>c. length (actionInputs c) \<noteq> 0) (collected ?c) = [?b]"
    by (simp add: propose_sels length_demoInputs)
  note i1 = proposal_chain_status [of ?c demoArgs out demoTree "demoNetworkConfig ''5'' 0 ''2''"]
  note i2 = proposal_chain_status [of ?c demoArgs out demoTree "demoNetworkConfig ''7'' 3 ''2''"]
  note i3 = proposal_chain_status [of ?c demoArgs out demoTree ?b]
  from i1 p have cs: "chainStatus (tree (proposalRequest out))
      = [\<lparr>ChainStatus.chainId = 10, numLeaves = 4\<rparr>]"
    unfolding f by (simp add: propose_sels length_demoInputs)
  from i1 p m d' have "count_list (chainIds (proposalRequest out))
      (Number_js ?c (NetworkConfig.chainId ?b)) = 1"
    by blast
  then have cnt: "count_list (chainIds (proposalRequest out)) 10 = 1"
    by (simp add: propose_sels)
  note l = demo_approvalLeaves [of "[demoNetworkConfig ''5'' 0 ''2'', ?b]"]
  from i1 l(1) [of 0 "''2''"]
  have a: "getProjectDeploymentForChain (demoContext [demoNetworkConfig ''5'' 0 ''2'', demoNetworkConfig ''10'' 3 ''2'']) demoTree
      (demoNetworkConfig ''5'' 0 ''2'') = Inr None"
    by blast
  have two: "length (approvalLeaves (demoContext [demoNetworkConfig ''5'' 0 ''2'', demoNetworkConfig ''10'' 3 ''2'']) demoTree (demoNetworkConfig ''7'' 3 ''2'')) > 1"
    by (simp add: l(3))
  with i2 have "getProjectDeploymentForChain (demoContext [demoNetworkConfig ''5'' 0 ''2'', demoNetworkConfig ''10'' 3 ''2'']) demoTree
      (demoNetworkConfig ''7'' 3 ''2'')
      = Inl (multipleApprovalMessage (NetworkConfig.chainId (demoNetworkConfig ''7'' 3 ''2'')))"
    by blast
  then have b: "getProjectDeploymentForChain (demoContext [demoNetworkConfig ''5'' 0 ''2'', demoNetworkConfig ''10'' 3 ''2'']) demoTree
      (demoNetworkConfig ''7'' 3 ''2'')
      = Inl ''Found multiple approval leaves for chain 7. Should never happen.''"
    by (simp add: propose_sels multipleApprovalMessage_def)
  from i3 l(2) [of 3 "''2''"]
  have "\<exists>pd. getProjectDeploymentForChain (demoContext [demoNetworkConfig ''5'' 0 ''2'', demoNetworkConfig ''10'' 3 ''2'']) demoTree ?b = Inr (Some pd) \<and>
      ProjectDeployment.chainId pd = Number_js (demoContext [demoNetworkConfig ''5'' 0 ''2'', demoNetworkConfig ''10'' 3 ''2'']) (NetworkConfig.chainId ?b)
      \<and> deploymentId pd = SphinxMerkleTree.root demoTree"
    by blast
  then have c: "\<exists>pd. getProjectDeploymentForChain (demoContext [demoNetworkConfig ''5'' 0 ''2'', demoNetworkConfig ''10'' 3 ''2'']) demoTree ?b = Inr (Some pd)
      \<and> ProjectDeployment.chainId pd = 10"
    by (auto simp: propose_sels)
  from p cs cnt d l(1) [of 0 "''2''"] a two b l(2) [of 3 "''2''"] c show ?thesis by blast
qed

text \<open>
  Claim C9 as stated fails: with two network configs for chain 10, each with action
  inputs, \<^verbatim>\<open>propose\<close> returns a proposal in which the chain id 10 occurs twice in
  \<^verbatim>\<open>chainIds\<close>.
\<close>

theorem proposal_chain_status_counterexample:
  "length (actionInputs (demoNetworkConfig ''10'' 3 ''2'')) = 3 \<and>
   length (actionInputs (demoNetworkConfig ''10'' (Suc 0) ''2'')) = 1 \<and>
   map_option chainIds
     (returnedRequest (fst (propose (demoContext [demoNetworkConfig ''10'' 3 ''2'',
                                                  demoNetworkConfig ''10'' (Suc 0) ''2''])
                              demoArgs))) = Some [10, 10] \<and>
   count_list [10, 10] (10::int) = 2"
proof -
  from demo_duplicate_proposal obtain out es where
    "propose (demoContext [demoNetworkConfig ''10'' 3 ''2'',
                           demoNetworkConfig ''10'' (Suc 0) ''2'']) demoArgs
       = (ReturnedProposal out, es)"
    and "chainIds (proposalRequest out) = [10, 10]"
    by blast
  then show ?thesis
    by (simp add: returnedRequest_def propose_sels length_demoInputs)
qed

section \<open>The end of \<^verbatim>\<open>monitorExecution\<close>\<close>

lemma monitorLoop_done:
  "\<forall>j < k. ChugSplashBundleState.status (bundles E (n + j)) = ChugSplashBundleStatus.APPROVED
             \<and> getAmountToDeposit E (n + j) \<le> 0 \<Longrightarrow>
   ChugSplashBundleState.status (bundles E (n + k)) \<noteq> ChugSplashBundleStatus.APPROVED \<Longrightarrow>
   k \<le> fuel \<Longrightarrow>
   fst (monitorLoop E bundle fuel n (bundles E n) lastType) = LoopDone (bundles E (n + k))"
proof (induction k arbitrary: fuel n lastType)
  case 0
  then show ?case by (cases fuel) simp_all
next
  case (Suc k)
  from Suc.prems(3) obtain fuel' where f: "fuel = Suc fuel'" and le: "k \<le> fuel'"
    by (cases fuel) auto
  from Suc.prems(1) have h: "ChugSplashBundleState.status (bundles E n)
      = ChugSplashBundleStatus.APPROVED" "getAmountToDeposit E n \<le> 0"
    by (auto dest: spec [of _ 0])
  have a: "\<forall>j < k. ChugSplashBundleState.status (bundles E (Suc n + j))
             = ChugSplashBundleStatus.APPROVED \<and> getAmountToDeposit E (Suc n + j) \<le> 0"
  proof (intro allI impI)
    fix j assume "j < k"
    then have "Suc j < Suc k" by simp
    with Suc.prems(1) show "ChugSplashBundleState.status (bundles E (Suc n + j))
             = ChugSplashBundleStatus.APPROVED \<and> getAmountToDeposit E (Suc n + j) \<le> 0"
      by (auto dest: spec [of _ "Suc j"])
  qed
  from Suc.prems(2) have b: "ChugSplashBundleState.status (bundles E (Suc n + k))
      \<noteq> ChugSplashBundleStatus.APPROVED" by simp
  obtain lt es where rp: "reportProgress E bundle (bundles E n) lastType = (lt, es)"
    by (cases "reportProgress E bundle (bundles E n) lastType") auto
  from Suc.IH [OF a b le, of lt] h rp show ?case
    unfolding f by (auto simp: Let_def split: prod.splits)
qed

lemma monitorLoop_threw:
  "monitorLoop E bundle fuel n bundleState lastType = (LoopThrew m, es) \<Longrightarrow>
   \<exists>j. 0 < getAmountToDeposit E j \<and>
       m = insufficientFundsMessage E (getAmountToDeposit E j)"
proof (induction fuel arbitrary: n bundleState lastType es)
  case 0
  then show ?case by (simp split: if_splits)
next
  case (Suc fuel)
  show ?case
  proof (cases "ChugSplashBundleState.status bundleState = ChugSplashBundleStatus.APPROVED
                \<and> \<not> 0 < getAmountToDeposit E n")
    case True
    obtain lt es1 where rp: "reportProgress E bundle bundleState lastType = (lt, es1)"
      by (cases "reportProgress E bundle bundleState lastType") auto
    obtain r es2 where l: "monitorLoop E bundle fuel (Suc n) (bundles E (Suc n)) lt = (r, es2)"
      by (cases "monitorLoop E bundle fuel (Suc n) (bundles E (Suc n)) lt") auto
    with Suc.prems True rp have "r = LoopThrew m" by (simp add: Let_def)
    with l Suc.IH show ?thesis by blast
  next
    case False
    with Suc.prems show ?thesis
      by (auto simp: Let_def split: if_splits)
  qed
qed

lemma monitorLoop_exit:
  "monitorLoop E bundle fuel n bundleState lastType = (LoopDone st, es) \<Longrightarrow>
   ChugSplashBundleState.status st \<noteq> ChugSplashBundleStatus.APPROVED"
proof (induction fuel arbitrary: n bundleState lastType es)
  case 0
  then show ?case by (auto split: if_splits)
next
  case (Suc fuel)
  show ?case
  proof (cases "ChugSplashBundleState.status bundleState = ChugSplashBundleStatus.APPROVED
                \<and> \<not> 0 < getAmountToDeposit E n")
    case True
    obtain lt es1 where rp: "reportProgress E bundle bundleState lastType = (lt, es1)"
      by (cases "reportProgress E bundle bundleState lastType") auto
    obtain r es2 where l: "monitorLoop E bundle fuel (Suc n) (bundles E (Suc n)) lt = (r, es2)"
      by (cases "monitorLoop E bundle fuel (Suc n) (bundles E (Suc n)) lt") auto
    with Suc.prems True rp have "r = LoopDone st" by (simp add: Let_def)
    with l Suc.IH show ?thesis by blast
  next
    case False
    with Suc.prems show ?thesis
      by (auto simp: Let_def split: if_splits)
  qed
qed

lemma monitorExecution_ends:
  assumes "fst (monitorLoop E bundle fuel 0 (bundles E 0) None) = LoopDone st"
  shows "fst (monitorExecution E bundle fuel) =
           (if ChugSplashBundleState.status st = ChugSplashBundleStatus.COMPLETED
            then Resolved (Some (getFinalDeploymentTxnHash E))
            else if ChugSplashBundleState.status st = ChugSplashBundleStatus.CANCELLED
            then Rejected (cancelledMessage E) else Resolved None)"
    and "ChugSplashBundleState.status st \<noteq> ChugSplashBundleStatus.COMPLETED \<Longrightarrow>
         ChugSplashBundleState.status st \<noteq> ChugSplashBundleStatus.CANCELLED \<Longrightarrow>
         last (snd (monitorExecution E bundle fuel)) =
           S_fail (''Project was never active. Current status: ''
                     @ showStatus E (ChugSplashBundleState.status st))"
    and "ChugSplashBundleState.status st = ChugSplashBundleStatus.CANCELLED \<Longrightarrow>
         last (snd (monitorExecution E bundle fuel)) = S_fail (cancelledMessage E)"
  using assms
  by (cases "monitorLoop E bundle fuel 0 (bundles E 0) None";
      simp add: monitorExecution_def)+

lemma monitorExecution_rejected:
  assumes "fst (monitorExecution E bundle fuel) = Rejected m"
  shows "m = cancelledMessage E \<or>
         (\<exists>j. 0 < getAmountToDeposit E j \<and>
              m = insufficientFundsMessage E (getAmountToDeposit E j))"
proof -
  obtain r es where l: "monitorLoop E bundle fuel 0 (bundles E 0) None = (r, es)"
    by (cases "monitorLoop E bundle fuel 0 (bundles E 0) None") auto
  show ?thesis
  proof (cases r)
    case (LoopDone st)
    with assms l show ?thesis
      by (simp add: monitorExecution_def split: if_splits)
  next
    case (LoopThrew m')
    with assms l have "m' = m" by (simp add: monitorExecution_def)
    with l LoopThrew monitorLoop_threw show ?thesis by blast
  next
    case LoopRunning
    with assms l show ?thesis by (simp add: monitorExecution_def)
  qed
qed

lemma monitorExecution_after:
  assumes a: "\<forall>j < k. ChugSplashBundleState.status (bundles E j) = ChugSplashBundleStatus.APPROVED
                     \<and> getAmountToDeposit E j \<le> 0"
    and k: "k \<le> fuel"
    and n: "ChugSplashBundleState.status (bundles E k) \<noteq> ChugSplashBundleStatus.APPROVED"
  shows "fst (monitorLoop E bundle fuel 0 (bundles E 0) None) = LoopDone (bundles E k)"
  using monitorLoop_done [of k E 0 fuel "bundle" None] a k n by simp

lemma demoMonitorEnv_sel:
  "bundles (demoMonitorEnv sts amount) n =
     \<lparr>ChugSplashBundleState.status = (if n < length sts then sts ! n else OTHER_STATUS 5),
      actionsExecuted = 0, selectedExecutor = AddressZero\<rparr>"
  "getAmountToDeposit (demoMonitorEnv sts amount) n = amount"
  "monitorEnv.projectName (demoMonitorEnv sts amount) = ''demo''"
  "monitorEnv.networkName (demoMonitorEnv sts amount) = ''goerli''"
  "EXECUTION_BUFFER_MULTIPLIER (demoMonitorEnv sts amount) = 2"
  "showNumber (demoMonitorEnv sts amount) = (\<lambda>i. ''#'')"
  "showStatus (demoMonitorEnv sts amount) = (\<lambda>s. ''?'')"
  "getFinalDeploymentTxnHash (demoMonitorEnv sts amount) = ''0xhash''"
  by (simp_all add: demoMonitorEnv_def)

text \<open>
  Claim C10. Let the \<open>k\<close>-th answer of \<^verbatim>\<open>bundles\<close> be the first whose status is not
  \<^verbatim>\<open>APPROVED\<close> (\<open>k\<close> is 0 when the bundle is not approved on entry), with no deposit
  asked for before. When that status is neither \<^verbatim>\<open>COMPLETED\<close> nor \<^verbatim>\<open>CANCELLED\<close>,
  \<^verbatim>\<open>monitorExecution\<close> returns \<^verbatim>\<open>undefined\<close>: it does not throw, and the last thing it
  does is the failure line of the spinner. When that status is \<^verbatim>\<open>CANCELLED\<close> it throws
  the cancellation message. Whenever it throws, the message is the cancellation message
  or the message about insufficient funds, for an amount to deposit above zero.
\<close>

theorem monitor_returns_undefined:
  "((\<forall>j < k. ChugSplashBundleState.status (bundles E j) = ChugSplashBundleStatus.APPROVED
              \<and> getAmountToDeposit E j \<le> 0) \<and> k \<le> fuel \<and>
    ChugSplashBundleState.status (bundles E k) \<noteq> ChugSplashBundleStatus.APPROVED \<and>
    ChugSplashBundleState.status (bundles E k) \<noteq> ChugSplashBundleStatus.COMPLETED \<and>
    ChugSplashBundleState.status (bundles E k) \<noteq> ChugSplashBundleStatus.CANCELLED \<longrightarrow>
      fst (monitorExecution E bundle fuel) = Resolved None \<and>
      last (snd (monitorExecution E bundle fuel)) =
        S_fail (''Project was never active. Current status: ''
                  @ showStatus E (ChugSplashBundleState.status (bundles E k)))) \<and>
   ((\<forall>j < k. ChugSplashBundleState.status (bundles E j) = ChugSplashBundleStatus.APPROVED
              \<and> getAmountToDeposit E j \<le> 0) \<and> k \<le> fuel \<and>
    ChugSplashBundleState.status (bundles E k) = ChugSplashBundleStatus.CANCELLED \<longrightarrow>
      fst (monitorExecution E bundle fuel) = Rejected (cancelledMessage E) \<and>
      last (snd (monitorExecution E bundle fuel)) = S_fail (cancelledMessage E)) \<and>
   (fst (monitorExecution E bundle fuel) = Rejected m \<longrightarrow>
      m = cancelledMessage E \<or>
      (\<exists>j. 0 < getAmountToDeposit E j \<and>
           m = insufficientFundsMessage E (getAmountToDeposit E j)))"
proof (intro conjI impI; (elim conjE)?)
  assume a: "\<forall>j < k. ChugSplashBundleState.status (bundles E j) = ChugSplashBundleStatus.APPROVED
              \<and> getAmountToDeposit E j \<le> 0" "k \<le> fuel"
    "ChugSplashBundleState.status (bundles E k) \<noteq> ChugSplashBundleStatus.APPROVED"
    and c: "ChugSplashBundleState.status (bundles E k) \<noteq> ChugSplashBundleStatus.COMPLETED"
      "ChugSplashBundleState.status (bundles E k) \<noteq> ChugSplashBundleStatus.CANCELLED"
  note d = monitorExecution_after [OF a]
  from monitorExecution_ends(1) [OF d] c
  show "fst (monitorExecution E bundle fuel) = Resolved None" by simp
  from monitorExecution_ends(2) [OF d c]
  show "last (snd (monitorExecution E bundle fuel)) =
        S_fail (''Project was never active. Current status: ''
                  @ showStatus E (ChugSplashBundleState.status (bundles E k)))" .
next
  assume a: "\<forall>j < k. ChugSplashBundleState.status (bundles E j) = ChugSplashBundleStatus.APPROVED
              \<and> getAmountToDeposit E j \<le> 0" "k \<le> fuel"
    and c: "ChugSplashBundleState.status (bundles E k) = ChugSplashBundleStatus.CANCELLED"
  then have "ChugSplashBundleState.status (bundles E k) \<noteq> ChugSplashBundleStatus.APPROVED"
    by simp
  note d = monitorExecution_after [OF a this]
  from monitorExecution_ends(1) [OF d] c
  show "fst (monitorExecution E bundle fuel) = Rejected (cancelledMessage E)" by simp
  from monitorExecution_ends(3) [OF d c]
  show "last (snd (monitorExecution E bundle fuel)) = S_fail (cancelledMessage E)" .
next
  assume "fst (monitorExecution E bundle fuel) = Rejected m"
  then show "m = cancelledMessage E \<or>
      (\<exists>j. 0 < getAmountToDeposit E j \<and>
           m = insufficientFundsMessage E (getAmountToDeposit E j))"
    by (rule monitorExecution_rejected)
qed

lemma demo_underfunded:
  "fst (monitorExecution (demoMonitorEnv [ChugSplashBundleStatus.APPROVED] 7)
          \<lparr>ChugSplashActionBundle.actions = []\<rparr> (Suc 0))
     = Rejected (insufficientFundsMessage (demoMonitorEnv [ChugSplashBundleStatus.APPROVED] 7) 7)"
  by (simp add: monitorExecution_def demoMonitorEnv_sel)

text \<open>
  Three small chains: an approved bundle that then has status number 1 (the result is
  \<^verbatim>\<open>undefined\<close>), a cancelled bundle (the cancellation message), and an approved
  bundle without funds (the message about insufficient funds).
\<close>

theorem monitor_returns_undefined_witness:
  "fst (monitorExecution (demoMonitorEnv [ChugSplashBundleStatus.APPROVED, OTHER_STATUS 1] 0)
          \<lparr>ChugSplashActionBundle.actions = []\<rparr> (Suc (Suc 0))) = Resolved None \<and>
   last (snd (monitorExecution (demoMonitorEnv [ChugSplashBundleStatus.APPROVED, OTHER_STATUS 1] 0)
          \<lparr>ChugSplashActionBundle.actions = []\<rparr> (Suc (Suc 0))))
     = S_fail ''Project was never active. Current status: ?'' \<and>
   fst (monitorExecution (demoMonitorEnv [ChugSplashBundleStatus.CANCELLED] 0)
          \<lparr>ChugSplashActionBundle.actions = []\<rparr> (Suc (Suc 0)))
     = Rejected ''demo was cancelled.'' \<and>
   fst (monitorExecution (demoMonitorEnv [ChugSplashBundleStatus.APPROVED] 7)
          \<lparr>ChugSplashActionBundle.actions = []\<rparr> (Suc 0))
     = Rejected (insufficientFundsMessage (demoMonitorEnv [ChugSplashBundleStatus.APPROVED] 7) 7) \<and>
   (insufficientFundsMessage (demoMonitorEnv [ChugSplashBundleStatus.APPROVED] 7) 7
      = cancelledMessage (demoMonitorEnv [ChugSplashBundleStatus.APPROVED] 7) \<or>
    (\<exists>j. 0 < getAmountToDeposit (demoMonitorEnv [ChugSplashBundleStatus.APPROVED] 7) j \<and>
         insufficientFundsMessage (demoMonitorEnv [ChugSplashBundleStatus.APPROVED] 7) 7 =
         insufficientFundsMessage (demoMonitorEnv [ChugSplashBundleStatus.APPROVED] 7)
           (getAmountToDeposit (demoMonitorEnv [ChugSplashBundleStatus.APPROVED] 7) j)))"
proof -
  let ?b = "\<lparr>ChugSplashActionBundle.actions = []\<rparr>"
  let ?E1 = "demoMonitorEnv [ChugSplashBundleStatus.APPROVED, OTHER_STATUS 1] 0"
  let ?E2 = "demoMonitorEnv [ChugSplashBundleStatus.CANCELLED] 0"
  let ?E3 = "demoMonitorEnv [ChugSplashBundleStatus.APPROVED] 7"
  have h1: "(\<forall>j < Suc 0. ChugSplashBundleState.status (bundles ?E1 j)
                = ChugSplashBundleStatus.APPROVED \<and> getAmountToDeposit ?E1 j \<le> 0)
            \<and> Suc 0 \<le> Suc (Suc 0)
            \<and> ChugSplashBundleState.status (bundles ?E1 (Suc 0)) \<noteq> ChugSplashBundleStatus.APPROVED
            \<and> ChugSplashBundleState.status (bundles ?E1 (Suc 0)) \<noteq> ChugSplashBundleStatus.COMPLETED
            \<and> ChugSplashBundleState.status (bundles ?E1 (Suc 0)) \<noteq> ChugSplashBundleStatus.CANCELLED"
    by (simp add: demoMonitorEnv_sel)
  have h2: "(\<forall>j < 0. ChugSplashBundleState.status (bundles ?E2 j)
                = ChugSplashBundleStatus.APPROVED \<and> getAmountToDeposit ?E2 j \<le> 0)
            \<and> 0 \<le> Suc (Suc 0)
            \<and> ChugSplashBundleState.status (bundles ?E2 0) = ChugSplashBundleStatus.CANCELLED"
    by (simp add: demoMonitorEnv_sel)
  note i1 = monitor_returns_undefined [of "Suc 0" ?E1 "Suc (Suc 0)" ?b]
  note i2 = monitor_returns_undefined [of 0 ?E2 "Suc (Suc 0)" ?b]
  note i3 = monitor_returns_undefined [of 0 ?E3 "Suc 0" ?b "insufficientFundsMessage ?E3 7"]
  from i1 h1 have a: "fst (monitorExecution ?E1 ?b (Suc (Suc 0))) = Resolved None"
    and b: "last (snd (monitorExecution ?E1 ?b (Suc (Suc 0)))) =
        S_fail (''Project was never active. Current status: ''
                  @ showStatus ?E1 (ChugSplashBundleState.status (bundles ?E1 (Suc 0))))"
    by blast+
  from b have b': "last (snd (monitorExecution ?E1 ?b (Suc (Suc 0))))
     = S_fail ''Project was never active. Current status: ?''"
    by (simp add: demoMonitorEnv_sel)
  from i2 h2 have "fst (monitorExecution ?E2 ?b (Suc (Suc 0))) = Rejected (cancelledMessage ?E2)"
    by blast
  then have c: "fst (monitorExecution ?E2 ?b (Suc (Suc 0))) = Rejected ''demo was cancelled.''"
    by (simp add: cancelledMessage_def demoMonitorEnv_sel)
  from i3 demo_underfunded have d: "insufficientFundsMessage ?E3 7 = cancelledMessage ?E3 \<or>
    (\<exists>j. 0 < getAmountToDeposit ?E3 j \<and>
         insufficientFundsMessage ?E3 7 =
         insufficientFundsMessage ?E3 (getAmountToDeposit ?E3 j))"
    by blast
  from a b' c demo_underfunded d show ?thesis by blast
qed

end
